theory Spec2Isabelle
  imports Main "HOL-Library.Char_ord" "HOL-Library.List_Lexorder" "HOL-Library.Multiset"
begin

section \<open>Strings\<close>

text \<open>
  RFCs are normalised with \<^verbatim>\<open>rfc.upper().strip()\<close>.  Strings are byte lists here, so
  the two methods are modelled on ASCII: \<open>upper\<close> maps \<open>a..z\<close> to \<open>A..Z\<close> and
  \<open>strip\<close> removes the leading and trailing characters Python counts as white space
  below code point 128 (9..13 and 28..32).
\<close>

definition isspace :: "char \<Rightarrow> bool" where
  "isspace c = (let n = (of_char c :: nat) in (9 \<le> n \<and> n \<le> 13) \<or> (28 \<le> n \<and> n \<le> 32))"

definition upper_char :: "char \<Rightarrow> char" where
  "upper_char c = (let n = (of_char c :: nat) in if 97 \<le> n \<and> n \<le> 122 then char_of (n - 32) else c)"

definition upper :: "string \<Rightarrow> string" where
  "upper s = map upper_char s"

definition strip :: "string \<Rightarrow> string" where
  "strip s = rev (dropWhile isspace (rev (dropWhile isspace s)))"

definition upper_strip :: "string \<Rightarrow> string" where
  "upper_strip rfc = strip (upper rfc)"

text \<open>\<^verbatim>\<open>str(id)\<close> of an identifier: identifiers are numbers here, printed in decimal.\<close>

fun str_uuid :: "nat \<Rightarrow> string" where
  "str_uuid n = (if n < 10 then [char_of (48 + n)] else str_uuid (n div 10) @ [char_of (48 + n mod 10)])"

declare str_uuid.simps [simp del]

text \<open>A dict built by assigning the pairs of a list in order: a later pair overwrites.\<close>

definition dict_of :: "('k \<times> 'v) list \<Rightarrow> ('k \<rightharpoonup> 'v)" where
  "dict_of kvs = foldl (\<lambda>m (k, v). m(k \<mapsto> v)) Map.empty kvs"

section \<open>Data model\<close>

type_synonym uuid = nat

record Plan =
  limite_proveedores :: "nat option"

record Tenant =
  t_id :: uuid
  t_activo :: bool
  t_plan :: "Plan option"

record TenantProveedor =
  tp_id :: uuid
  tp_tenant_id :: uuid
  tp_rfc :: string
  tp_razon_social :: "string option"
  tp_activo :: bool
  tp_grupo_id :: "uuid option"
  tp_created_at :: nat

record DOFContribuyente =
  dof_rfc :: string
  dof_situacion_contribuyente :: string

record Grupo =
  g_id :: uuid
  g_tenant_id :: uuid
  g_nombre :: string

record ConciliacionHistorial =
  h_id :: uuid
  h_tenant_id :: uuid
  h_tipo_conciliacion :: string
  h_version_sat :: string
  h_rfcs_procesados :: nat
  h_coincidencias :: nat
  h_estado :: string

record ConciliacionDetalle =
  d_conciliacion_id :: uuid
  d_rfc :: string
  d_estado :: string

text \<open>
  The tables a session reads and writes.  The plan limit is a count (\<open>None\<close> is the
  NULL of an unlimited plan).  The table \<open>proveedores\<close> has one row per RFC (the column
  is unique), so it is the map from an RFC to its \<open>situacion_contribuyente\<close>;
  \<open>fecha_lista\<close> is what the query for one row's \<open>fecha_lista\<close> returns, already
  formatted.  \<open>dof_contribuyentes\<close> may hold several rows of one RFC.  Time stamps and
  durations of a run are left out.
\<close>

record db =
  tenants :: "Tenant list"
  tenant_proveedores :: "TenantProveedor list"
  grupos :: "Grupo list"
  proveedores :: "string \<rightharpoonup> string"
  fecha_lista :: "string option"
  dof_contribuyentes :: "DOFContribuyente list"
  conciliacion_historial :: "ConciliacionHistorial list"
  resultado_conciliaciones :: "ConciliacionDetalle list"

text \<open>
  A session holds the committed tables and the tables as the open transaction sees them.
  Queries read \<open>pending\<close>; \<open>commit\<close> makes it durable and \<open>rollback\<close> discards it.
  \<open>ahora\<close> is the clock: the \<open>created_at\<close> of a row inserted now.
\<close>

record session =
  committed :: db
  pending :: db
  ahora :: nat

definition commit :: "session \<Rightarrow> session" where
  "commit s = s\<lparr>committed := pending s\<rparr>"

definition rollback :: "session \<Rightarrow> session" where
  "rollback s = s\<lparr>pending := committed s\<rparr>"

datatype error = ValueError string | Exception string

fun str_error :: "error \<Rightarrow> string" where
  "str_error (ValueError m) = m"
| "str_error (Exception m) = m"

text \<open>A new row's \<open>uuid4\<close> identifier is one no row of the session uses.\<close>

definition used_ids :: "db \<Rightarrow> uuid list" where
  "used_ids d = map t_id (tenants d) @ map tp_id (tenant_proveedores d) @ map g_id (grupos d)
     @ map h_id (conciliacion_historial d) @ map d_conciliacion_id (resultado_conciliaciones d)"

definition new_id :: "db \<Rightarrow> uuid" where
  "new_id d = Suc (foldr max (used_ids d) 0)"

definition no_encontrado :: string where
  "no_encontrado = ''No encontrado''"

section \<open>Reconciliation engine\<close>

text \<open>\<^verbatim>\<open>Query.limit(n)\<close>: \<open>limit(None)\<close> applies no LIMIT.\<close>

definition limit :: "nat option \<Rightarrow> 'a list \<Rightarrow> 'a list" where
  "limit n rows = (case n of None \<Rightarrow> rows | Some k \<Rightarrow> take k rows)"

text \<open>\<^verbatim>\<open>tenant.plan.limite_proveedores if tenant.plan else 0\<close>\<close>

definition resolver_limite :: "Tenant \<Rightarrow> nat option" where
  "resolver_limite tenant = (case t_plan tenant of Some plan \<Rightarrow> limite_proveedores plan | None \<Rightarrow> Some 0)"

text \<open>
  The active memberships of a tenant, oldest first, cut at the limit.  Rows of equal
  \<open>created_at\<close> keep their table order.
\<close>

definition activos_ordenados :: "db \<Rightarrow> uuid \<Rightarrow> TenantProveedor list" where
  "activos_ordenados d tenant_id =
     sort_key tp_created_at [tp \<leftarrow> tenant_proveedores d. tp_tenant_id tp = tenant_id \<and> tp_activo tp]"

definition en_cuota :: "db \<Rightarrow> uuid \<Rightarrow> nat option \<Rightarrow> TenantProveedor list" where
  "en_cuota d tenant_id limite_rfcs = limit limite_rfcs (activos_ordenados d tenant_id)"

definition obtener_version_sat :: "db \<Rightarrow> string" where
  "obtener_version_sat d = (case fecha_lista d of Some fecha \<Rightarrow> fecha | None \<Rightarrow> ''No disponible'')"

text \<open>The dictionary a reconciliation returns.\<close>

record resumen =
  r_tipo_conciliacion :: string
  r_version_sat :: string
  r_rfcs_procesados :: nat
  r_coincidencias :: nat
  r_estado :: string
  r_proveedores_no_encontrados :: nat
  r_proveedores_en_dof :: "nat option"
  r_proveedores_en_sat :: "nat option"
  r_historial_id :: uuid

definition tenant_no_encontrado :: "uuid \<Rightarrow> error" where
  "tenant_no_encontrado tenant_id = ValueError (''Tenant '' @ str_uuid tenant_id @ '' no encontrado'')"

text \<open>
  Every prepared detail gets the run's id; the run and its detail rows are added to the
  open transaction.
\<close>

definition filas_detalle :: "uuid \<Rightarrow> (string \<times> string) list \<Rightarrow> ConciliacionDetalle list" where
  "filas_detalle historial_id detalles_dict =
     map (\<lambda>(rfc, estado). \<lparr>d_conciliacion_id = historial_id, d_rfc = rfc, d_estado = estado\<rparr>) detalles_dict"

definition guardar_conciliacion ::
  "session \<Rightarrow> ConciliacionHistorial \<Rightarrow> (string \<times> string) list \<Rightarrow> session" where
  "guardar_conciliacion s historial detalles_dict =
     s\<lparr>pending := (pending s)
        \<lparr>conciliacion_historial := conciliacion_historial (pending s) @ [historial],
         resultado_conciliaciones := resultado_conciliaciones (pending s)
           @ filas_detalle (h_id historial) detalles_dict\<rparr>\<rparr>"

subsection \<open>realizar_conciliacion\<close>

text \<open>The loop over the rows of the join: the RFC list and \<open>sat_dict\<close>.\<close>

fun leer_resultados ::
  "(string \<times> string option) list \<Rightarrow> string list \<Rightarrow> (string \<rightharpoonup> string) \<Rightarrow> string list \<times> (string \<rightharpoonup> string)" where
  "leer_resultados [] rfcs_tenant sat_dict = (rfcs_tenant, sat_dict)"
| "leer_resultados ((rfc, situacion) # resultados) rfcs_tenant sat_dict =
     leer_resultados resultados (rfcs_tenant @ [rfc])
       (sat_dict(rfc \<mapsto> (case situacion of None \<Rightarrow> no_encontrado
                          | Some sit \<Rightarrow> if sit = [] then no_encontrado else sit)))"

text \<open>The loop that prepares the detail rows and counts the matches.\<close>

fun crear_detalles ::
  "(string \<rightharpoonup> string) \<Rightarrow> string list \<Rightarrow> (string \<times> string) list \<Rightarrow> nat \<Rightarrow> (string \<times> string) list \<times> nat" where
  "crear_detalles sat_dict [] detalles_dict proveedores_encontrados = (detalles_dict, proveedores_encontrados)"
| "crear_detalles sat_dict (rfc # rfcs) detalles_dict proveedores_encontrados =
     (let estado = (case sat_dict rfc of Some e \<Rightarrow> e | None \<Rightarrow> no_encontrado) in
      crear_detalles sat_dict rfcs (detalles_dict @ [(rfc, estado)])
        (if estado \<noteq> no_encontrado then proveedores_encontrados + 1 else proveedores_encontrados))"

definition realizar_conciliacion :: "session \<Rightarrow> uuid \<Rightarrow> string \<Rightarrow> session \<times> (error + resumen)" where
  "realizar_conciliacion s tenant_id tipo_conciliacion =
     (case find (\<lambda>t. t_id t = tenant_id) (tenants (pending s)) of
        None \<Rightarrow> (s, Inl (tenant_no_encontrado tenant_id))
      | Some tenant \<Rightarrow>
          let limite_rfcs = resolver_limite tenant;
              resultados = map (\<lambda>tp. (tp_rfc tp, proveedores (pending s) (tp_rfc tp)))
                             (en_cuota (pending s) tenant_id limite_rfcs);
              total_proveedores = length resultados;
              (rfcs_tenant, sat_dict) = leer_resultados resultados [] Map.empty;
              version_sat = obtener_version_sat (pending s);
              (detalles_dict, proveedores_encontrados) = crear_detalles sat_dict rfcs_tenant [] 0;
              historial = \<lparr>h_id = new_id (pending s), h_tenant_id = tenant_id,
                           h_tipo_conciliacion = tipo_conciliacion, h_version_sat = version_sat,
                           h_rfcs_procesados = total_proveedores, h_coincidencias = proveedores_encontrados,
                           h_estado = ''completado''\<rparr>
          in (guardar_conciliacion s historial detalles_dict,
              Inr \<lparr>r_tipo_conciliacion = tipo_conciliacion, r_version_sat = version_sat,
                   r_rfcs_procesados = total_proveedores, r_coincidencias = proveedores_encontrados,
                   r_estado = ''completado'',
                   r_proveedores_no_encontrados = total_proveedores - proveedores_encontrados,
                   r_proveedores_en_dof = None, r_proveedores_en_sat = None,
                   r_historial_id = h_id historial\<rparr>))"

subsection \<open>realizar_conciliacion_dof_proveedores\<close>

text \<open>The loop that combines DOF (first) and the SAT directory.\<close>

fun combinar_dof_sat ::
  "(string \<rightharpoonup> string) \<Rightarrow> (string \<rightharpoonup> string) \<Rightarrow> string list \<Rightarrow> (string \<times> string) list \<Rightarrow> nat \<Rightarrow> nat \<Rightarrow> nat
     \<Rightarrow> (string \<times> string) list \<times> nat \<times> nat \<times> nat" where
  "combinar_dof_sat dof_dict proveedores_dict [] detalles_dict encontrados en_dof en_sat =
     (detalles_dict, encontrados, en_dof, en_sat)"
| "combinar_dof_sat dof_dict proveedores_dict (rfc # rfcs) detalles_dict encontrados en_dof en_sat =
     (case dof_dict rfc of
        Some estado \<Rightarrow>
          combinar_dof_sat dof_dict proveedores_dict rfcs (detalles_dict @ [(rfc, estado)])
            (encontrados + 1) (en_dof + 1) en_sat
      | None \<Rightarrow>
          (case proveedores_dict rfc of
             Some estado \<Rightarrow>
               combinar_dof_sat dof_dict proveedores_dict rfcs (detalles_dict @ [(rfc, estado)])
                 (encontrados + 1) en_dof (en_sat + 1)
           | None \<Rightarrow>
               combinar_dof_sat dof_dict proveedores_dict rfcs (detalles_dict @ [(rfc, no_encontrado)])
                 encontrados en_dof en_sat))"

text \<open>Step 1: the DOF rows of the RFCs, as a dict; step 2: the directory rows of the rest.\<close>

definition buscar_en_dof :: "db \<Rightarrow> string list \<Rightarrow> (string \<rightharpoonup> string)" where
  "buscar_en_dof d rfcs_list =
     dict_of [(dof_rfc c, dof_situacion_contribuyente c). c \<leftarrow> dof_contribuyentes d, dof_rfc c \<in> set rfcs_list]"

definition buscar_en_proveedores :: "db \<Rightarrow> string list \<Rightarrow> (string \<rightharpoonup> string)" where
  "buscar_en_proveedores d rfcs_no_en_dof =
     (if rfcs_no_en_dof = [] then Map.empty else proveedores d |` set rfcs_no_en_dof)"

definition realizar_conciliacion_dof_proveedores ::
  "session \<Rightarrow> uuid \<Rightarrow> string \<Rightarrow> session \<times> (error + resumen)" where
  "realizar_conciliacion_dof_proveedores s tenant_id tipo_conciliacion =
     (case find (\<lambda>t. t_id t = tenant_id) (tenants (pending s)) of
        None \<Rightarrow> (s, Inl (tenant_no_encontrado tenant_id))
      | Some tenant \<Rightarrow>
          let limite_rfcs = resolver_limite tenant;
              rfcs_list = map tp_rfc (en_cuota (pending s) tenant_id limite_rfcs);
              total_proveedores = length rfcs_list
          in if total_proveedores = 0 then (s, Inl (ValueError ''No hay proveedores para conciliar''))
             else
               let dof_dict = buscar_en_dof (pending s) rfcs_list;
                   rfcs_no_en_dof = [rfc \<leftarrow> rfcs_list. dof_dict rfc = None];
                   proveedores_dict = buscar_en_proveedores (pending s) rfcs_no_en_dof;
                   version_sat = obtener_version_sat (pending s);
                   (detalles_dict, proveedores_encontrados, proveedores_en_dof, proveedores_en_sat) =
                      combinar_dof_sat dof_dict proveedores_dict rfcs_list [] 0 0 0;
                   historial = \<lparr>h_id = new_id (pending s), h_tenant_id = tenant_id,
                                h_tipo_conciliacion = tipo_conciliacion, h_version_sat = version_sat,
                                h_rfcs_procesados = total_proveedores, h_coincidencias = proveedores_encontrados,
                                h_estado = ''completado''\<rparr>
               in (guardar_conciliacion s historial detalles_dict,
                   Inr \<lparr>r_tipo_conciliacion = tipo_conciliacion, r_version_sat = version_sat,
                        r_rfcs_procesados = total_proveedores, r_coincidencias = proveedores_encontrados,
                        r_estado = ''completado'',
                        r_proveedores_no_encontrados = total_proveedores - proveedores_encontrados,
                        r_proveedores_en_dof = Some proveedores_en_dof,
                        r_proveedores_en_sat = Some proveedores_en_sat,
                        r_historial_id = h_id historial\<rparr>))"

subsection \<open>conciliar_rfcs_especificos\<close>

text \<open>The loop that builds one detail row per normalised RFC.\<close>

fun detalles_especificos :: "(string \<rightharpoonup> string) \<Rightarrow> string list \<Rightarrow> (string \<times> string) list \<Rightarrow> (string \<times> string) list" where
  "detalles_especificos sat_dict [] detalles_conciliacion = detalles_conciliacion"
| "detalles_especificos sat_dict (rfc # rfcs) detalles_conciliacion =
     detalles_especificos sat_dict rfcs
       (detalles_conciliacion @ [(rfc, case sat_dict rfc of Some situacion \<Rightarrow> situacion | None \<Rightarrow> no_encontrado)])"

text \<open>
  \<open>proveedores_sat\<close> are the rows of the directory whose RFC is in the list, one row per
  RFC; \<open>coincidencias\<close> is their number.  The accent of the error message is dropped.
\<close>

definition consultar_sat :: "db \<Rightarrow> string list \<Rightarrow> (string \<times> string) list" where
  "consultar_sat d rfcs_norm =
     [(rfc, situacion). rfc \<leftarrow> remdups rfcs_norm,
        situacion \<leftarrow> (case proveedores d rfc of Some sit \<Rightarrow> [sit] | None \<Rightarrow> [])]"

definition conciliar_rfcs_especificos :: "session \<Rightarrow> uuid \<Rightarrow> string list \<Rightarrow> string \<Rightarrow> session \<times> (error + uuid)" where
  "conciliar_rfcs_especificos s tenant_id rfcs tipo_conciliacion =
     (let rfcs_norm = sort (remdups (map upper_strip rfcs)) in
      if rfcs_norm = [] then (s, Inl (ValueError ''La lista de RFCs no puede estar vacia''))
      else
        let proveedores_sat = consultar_sat (pending s) rfcs_norm;
            sat_dict = dict_of proveedores_sat;
            coincidencias = length proveedores_sat;
            version_sat = obtener_version_sat (pending s);
            historial = \<lparr>h_id = new_id (pending s), h_tenant_id = tenant_id,
                         h_tipo_conciliacion = tipo_conciliacion, h_version_sat = version_sat,
                         h_rfcs_procesados = length rfcs_norm, h_coincidencias = coincidencias,
                         h_estado = ''completado''\<rparr>;
            detalles_conciliacion = detalles_especificos sat_dict rfcs_norm []
        in (guardar_conciliacion s historial detalles_conciliacion, Inr (h_id historial)))"

text \<open>The detail repository's query for the rows of one run.\<close>

definition get_by_conciliacion_id :: "db \<Rightarrow> uuid \<Rightarrow> ConciliacionDetalle list" where
  "get_by_conciliacion_id d conciliacion_id =
     [x \<leftarrow> resultado_conciliaciones d. d_conciliacion_id x = conciliacion_id]"

text \<open>The membership repository's query for the active rows beyond the limit.\<close>

definition get_by_tenant_excedentes :: "db \<Rightarrow> uuid \<Rightarrow> nat \<Rightarrow> TenantProveedor list" where
  "get_by_tenant_excedentes d tenant_id limite = drop limite (activos_ordenados d tenant_id)"

section \<open>Fleet-wide batch runner\<close>

text \<open>
  \<open>realizar_conciliacion_todos_tenants\<close> and \<open>realizar_conciliacion_dof_todos_tenants\<close>
  are one loop over the active tenants; they differ in the reconciliation they call and
  in its label.  The loop is written once, over the reconciliation \<open>conciliar\<close> and
  the mail step \<open>enviar\<close> (\<open>_enviar_correo_conciliacion\<close>, which only reads the
  session and may raise).
\<close>

record resultado_item =
  ri_tenant_id :: uuid
  ri_tipo_conciliacion :: string
  ri_version_sat :: "string option"
  ri_rfcs_procesados :: nat
  ri_coincidencias :: nat
  ri_estado :: string
  ri_historial_id :: "uuid option"


definition resultado_exitoso :: "Tenant \<Rightarrow> resumen \<Rightarrow> resultado_item" where
  "resultado_exitoso tenant resultado =
     \<lparr>ri_tenant_id = t_id tenant, ri_tipo_conciliacion = r_tipo_conciliacion resultado,
      ri_version_sat = Some (r_version_sat resultado), ri_rfcs_procesados = r_rfcs_procesados resultado,
      ri_coincidencias = r_coincidencias resultado, ri_estado = r_estado resultado,
      ri_historial_id = Some (r_historial_id resultado)\<rparr>"

definition resultado_error :: "Tenant \<Rightarrow> string \<Rightarrow> error \<Rightarrow> resultado_item" where
  "resultado_error tenant tipo e =
     \<lparr>ri_tenant_id = t_id tenant, ri_tipo_conciliacion = tipo, ri_version_sat = None,
      ri_rfcs_procesados = 0, ri_coincidencias = 0, ri_estado = ''error: '' @ str_error e,
      ri_historial_id = None\<rparr>"






section \<open>Limit and burst accounting\<close>

text \<open>
  \<^verbatim>\<open>limite_rfcs + int(limite_rfcs * 0.15)\<close>.  The product is a double; for every limit
  an Integer column holds, truncating it gives the integer quotient of \<open>15 * limite_rfcs\<close>
  by \<open>100\<close>, which is what the definition computes.
\<close>

definition limite_burst :: "nat \<Rightarrow> nat" where
  "limite_burst limite_rfcs = limite_rfcs + (limite_rfcs * 15) div 100"

definition contar_activos :: "db \<Rightarrow> uuid \<Rightarrow> nat" where
  "contar_activos d tenant_id = length [tp \<leftarrow> tenant_proveedores d. tp_tenant_id tp = tenant_id \<and> tp_activo tp]"

subsection \<open>agregar_proveedores_batch\<close>

text \<open>
  An input item (a missing \<open>rfc\<close> key is the empty string), a row to create, and an
  entry of the result (\<open>proveedor_id\<close> is \<open>None\<close> for the empty string).  Accents of the
  messages are dropped.
\<close>

record proveedor_item =
  pi_rfc :: string
  pi_razon_social :: "string option"

record proveedor_nuevo =
  n_rfc :: string
  n_razon_social :: "string option"
  n_activo :: bool

record resultado_rfc =
  rr_rfc :: string
  rr_proveedor_id :: "uuid option"
  rr_error :: "string option"

fun normalizar_proveedores ::
  "proveedor_item list \<Rightarrow> string list \<Rightarrow> (string \<rightharpoonup> string) \<Rightarrow> string list \<times> (string \<rightharpoonup> string)" where
  "normalizar_proveedores [] rfcs_norm razon_social_map = (rfcs_norm, razon_social_map)"
| "normalizar_proveedores (proveedor # resto) rfcs_norm razon_social_map =
     (let rfc = upper_strip (pi_rfc proveedor) in
      if length rfc = 12 \<or> length rfc = 13
      then normalizar_proveedores resto (rfcs_norm @ [rfc])
             (case pi_razon_social proveedor of
                Some razon \<Rightarrow> if razon \<noteq> [] then razon_social_map(rfc \<mapsto> razon) else razon_social_map
              | None \<Rightarrow> razon_social_map)
      else normalizar_proveedores resto rfcs_norm razon_social_map)"

definition get_by_tenant_and_rfcs_batch :: "session \<Rightarrow> uuid \<Rightarrow> string list \<Rightarrow> (string \<rightharpoonup> TenantProveedor)" where
  "get_by_tenant_and_rfcs_batch s tenant_id rfcs =
     (if rfcs = [] then Map.empty
      else dict_of [(tp_rfc rel, rel). rel \<leftarrow> tenant_proveedores (pending s),
                      tp_tenant_id rel = tenant_id \<and> tp_rfc rel \<in> set (map upper_strip rfcs)])"

definition ya_existe :: "string \<Rightarrow> string" where
  "ya_existe rfc = ''El RFC '' @ rfc @ '' ya existe''"

definition inactivo_por_burst :: string where
  "inactivo_por_burst = ''RFC agregado como INACTIVO (limite de burst alcanzado)''"

text \<open>The loop that separates the existing RFCs from the new ones and decides their state.\<close>

fun clasificar ::
  "(string \<rightharpoonup> TenantProveedor) \<Rightarrow> (string \<rightharpoonup> string) \<Rightarrow> nat \<Rightarrow> string list \<Rightarrow> nat
     \<Rightarrow> proveedor_nuevo list \<Rightarrow> proveedor_nuevo list \<Rightarrow> resultado_rfc list
     \<Rightarrow> proveedor_nuevo list \<times> proveedor_nuevo list \<times> resultado_rfc list" where
  "clasificar existentes razon_social_map burst [] total_activos activos inactivos resultados =
     (activos, inactivos, resultados)"
| "clasificar existentes razon_social_map burst (rfc # rfcs) total_activos activos inactivos resultados =
     (case existentes rfc of
        Some rel \<Rightarrow>
          clasificar existentes razon_social_map burst rfcs total_activos activos inactivos
            (resultados @ [\<lparr>rr_rfc = rfc, rr_proveedor_id = Some (tp_id rel), rr_error = Some (ya_existe rfc)\<rparr>])
      | None \<Rightarrow>
          if total_activos < burst
          then clasificar existentes razon_social_map burst rfcs (total_activos + 1)
                 (activos @ [\<lparr>n_rfc = rfc, n_razon_social = razon_social_map rfc, n_activo = True\<rparr>])
                 inactivos resultados
          else clasificar existentes razon_social_map burst rfcs total_activos activos
                 (inactivos @ [\<lparr>n_rfc = rfc, n_razon_social = razon_social_map rfc, n_activo = False\<rparr>])
                 resultados)"

text \<open>
  The rows get fresh consecutive ids.  The flush fails when a new row repeats the
  \<open>(tenant_id, rfc)\<close> of a stored row or of another new row (the constraint
  \<open>uq_tenant_proveedor\<close>); the repository then rolls the session back and returns the
  empty list.  No other failure of the data base is modelled.
\<close>

definition clave :: "TenantProveedor \<Rightarrow> uuid \<times> string" where
  "clave tp = (tp_tenant_id tp, tp_rfc tp)"

definition viola_uq_tenant_proveedor :: "TenantProveedor list \<Rightarrow> TenantProveedor list \<Rightarrow> bool" where
  "viola_uq_tenant_proveedor existentes nuevas =
     (\<not> distinct (map clave nuevas) \<or> list_ex (\<lambda>r. clave r \<in> set (map clave existentes)) nuevas)"

definition nueva_relacion :: "session \<Rightarrow> uuid \<Rightarrow> nat \<times> proveedor_nuevo \<Rightarrow> TenantProveedor" where
  "nueva_relacion s tenant_id kp =
     \<lparr>tp_id = new_id (pending s) + fst kp, tp_tenant_id = tenant_id, tp_rfc = upper_strip (n_rfc (snd kp)),
      tp_razon_social = (case n_razon_social (snd kp) of
                           Some razon \<Rightarrow> if razon \<noteq> [] then Some razon else None | None \<Rightarrow> None),
      tp_activo = n_activo (snd kp), tp_grupo_id = None, tp_created_at = ahora s\<rparr>"

definition create_relations_batch_with_status ::
  "session \<Rightarrow> uuid \<Rightarrow> proveedor_nuevo list \<Rightarrow> session \<times> TenantProveedor list" where
  "create_relations_batch_with_status s tenant_id proveedores_nuevos =
     (let relaciones = map (nueva_relacion s tenant_id) (enumerate 0 proveedores_nuevos) in
      if viola_uq_tenant_proveedor (tenant_proveedores (pending s)) relaciones
      then (rollback s, [])
      else (s\<lparr>pending := (pending s)\<lparr>tenant_proveedores := tenant_proveedores (pending s) @ relaciones\<rparr>\<rparr>,
            relaciones))"

definition resultado_nuevo :: "(string \<rightharpoonup> TenantProveedor) \<Rightarrow> proveedor_nuevo \<Rightarrow> resultado_rfc" where
  "resultado_nuevo relaciones_dict proveedor =
     (case relaciones_dict (n_rfc proveedor) of
        Some rel \<Rightarrow>
          \<lparr>rr_rfc = n_rfc proveedor, rr_proveedor_id = Some (tp_id rel),
           rr_error = (if \<not> n_activo proveedor then Some inactivo_por_burst else None)\<rparr>
      | None \<Rightarrow>
          \<lparr>rr_rfc = n_rfc proveedor, rr_proveedor_id = None, rr_error = Some ''Error creando relacion''\<rparr>)"

definition ordenar_resultados :: "string list \<Rightarrow> resultado_rfc list \<Rightarrow> resultado_rfc list" where
  "ordenar_resultados rfcs_norm resultados =
     (let resultados_dict = dict_of (map (\<lambda>r. (rr_rfc r, r)) resultados) in
      map (\<lambda>rfc. case resultados_dict rfc of
                   Some r \<Rightarrow> r
                 | None \<Rightarrow> \<lparr>rr_rfc = rfc, rr_proveedor_id = None, rr_error = Some ''RFC no procesado''\<rparr>)
        rfcs_norm)"

text \<open>
  The caller passes the plan's \<open>limite_proveedores\<close> as it is stored, so \<open>limite_rfcs\<close> is
  \<open>None\<close> for a plan without limit.  The product \<^verbatim>\<open>limite_rfcs * 0.15\<close> then raises a
  \<open>TypeError\<close>, after the tenant was looked up and the active rows were counted and before
  any RFC is classified; the handler logs it and raises it again.
\<close>

definition agregar_proveedores_batch ::
  "session \<Rightarrow> uuid \<Rightarrow> proveedor_item list \<Rightarrow> nat option \<Rightarrow> session \<times> (error + resultado_rfc list)" where
  "agregar_proveedores_batch s tenant_id lista_proveedores limite_rfcs =
     (let (rfcs_norm, razon_social_map) = normalizar_proveedores lista_proveedores [] Map.empty in
      if rfcs_norm = [] then (s, Inr [])
      else
        (case find (\<lambda>t. t_id t = tenant_id) (tenants (pending s)) of
           None \<Rightarrow> (s, Inl (tenant_no_encontrado tenant_id))
         | Some tenant \<Rightarrow>
             let total_activos = contar_activos (pending s) tenant_id in
             (case limite_rfcs of
                None \<Rightarrow> (s, Inl (Exception ''TypeError''))
              | Some limite \<Rightarrow>
                  let burst = limite_burst limite;
                      relaciones_existentes = get_by_tenant_and_rfcs_batch s tenant_id rfcs_norm;
                      (nuevos_activos, nuevos_inactivos, resultados) =
                         clasificar relaciones_existentes razon_social_map burst rfcs_norm total_activos [] [] [];
                      proveedores_nuevos = nuevos_activos @ nuevos_inactivos
                  in if proveedores_nuevos \<noteq> []
                     then
                       let (s', relaciones_creadas) =
                             create_relations_batch_with_status s tenant_id proveedores_nuevos;
                           relaciones_dict = dict_of (map (\<lambda>rel. (tp_rfc rel, rel)) relaciones_creadas)
                       in (s', Inr (ordenar_resultados rfcs_norm
                                      (resultados @ map (resultado_nuevo relaciones_dict) proveedores_nuevos)))
                     else (s, Inr (ordenar_resultados rfcs_norm resultados)))))"

subsection \<open>actualizar_estado_operativo_rfc\<close>

record estado_operativo =
  eo_rfc :: string
  eo_activo :: bool
  eo_grupo :: "string option"
  eo_mensaje :: string

definition get_by_tenant_and_rfc :: "session \<Rightarrow> uuid \<Rightarrow> string \<Rightarrow> TenantProveedor option" where
  "get_by_tenant_and_rfc s tenant_id rfc =
     find (\<lambda>tp. tp_tenant_id tp = tenant_id \<and> tp_rfc tp = upper_strip rfc) (tenant_proveedores (pending s))"

text \<open>The check made before activating: \<open>None\<close> when nothing is raised.  A plan without
  limit makes the product raise a \<open>TypeError\<close>.\<close>

definition verificar_burst :: "session \<Rightarrow> uuid \<Rightarrow> TenantProveedor \<Rightarrow> bool \<Rightarrow> error option" where
  "verificar_burst s tenant_id relation activo =
     (if activo \<and> \<not> tp_activo relation
      then (case find (\<lambda>t. t_id t = tenant_id) (tenants (pending s)) of
              None \<Rightarrow> None
            | Some tenant \<Rightarrow>
                (case t_plan tenant of
                   None \<Rightarrow> None
                 | Some plan \<Rightarrow>
                     (case limite_proveedores plan of
                        None \<Rightarrow> Some (Exception ''TypeError'')
                      | Some limite_rfcs \<Rightarrow>
                          if contar_activos (pending s) tenant_id \<ge> limite_burst limite_rfcs
                          then Some (ValueError ''No se puede activar: sobrepasara el limite de burst permitido'')
                          else None)))
      else None)"

text \<open>\<open>relation.activo = activo\<close> on the row the query returned: the first match.\<close>

fun asignar_activo :: "uuid \<Rightarrow> string \<Rightarrow> bool \<Rightarrow> TenantProveedor list \<Rightarrow> TenantProveedor list" where
  "asignar_activo tenant_id rfc_norm activo [] = []"
| "asignar_activo tenant_id rfc_norm activo (tp # tps) =
     (if tp_tenant_id tp = tenant_id \<and> tp_rfc tp = rfc_norm
      then tp\<lparr>tp_activo := activo\<rparr> # tps
      else tp # asignar_activo tenant_id rfc_norm activo tps)"

definition nombre_del_grupo :: "session \<Rightarrow> uuid \<Rightarrow> TenantProveedor \<Rightarrow> string option" where
  "nombre_del_grupo s tenant_id relation =
     (case tp_grupo_id relation of
        None \<Rightarrow> None
      | Some gid \<Rightarrow>
          (case find (\<lambda>g. g_id g = gid \<and> g_tenant_id g = tenant_id) (grupos (pending s)) of
             Some g \<Rightarrow> (if g_nombre g \<noteq> [] then Some (g_nombre g) else None)
           | None \<Rightarrow> None))"

definition actualizar_estado_operativo_rfc ::
  "session \<Rightarrow> uuid \<Rightarrow> string \<Rightarrow> bool \<Rightarrow> session \<times> (error + estado_operativo option)" where
  "actualizar_estado_operativo_rfc s tenant_id rfc activo =
     (case get_by_tenant_and_rfc s tenant_id rfc of
        None \<Rightarrow> (s, Inr None)
      | Some relation \<Rightarrow>
          (case verificar_burst s tenant_id relation activo of
             Some (ValueError m) \<Rightarrow> (rollback s, Inl (ValueError m))
           | Some (Exception m) \<Rightarrow> (rollback s, Inr None)
           | None \<Rightarrow>
               let s' = s\<lparr>pending := (pending s)\<lparr>tenant_proveedores :=
                            asignar_activo tenant_id (upper_strip rfc) activo (tenant_proveedores (pending s))\<rparr>\<rparr>;
                   nombre_grupo = nombre_del_grupo s' tenant_id relation
               in (commit s',
                   Inr (Some \<lparr>eo_rfc = tp_rfc relation, eo_activo = activo, eo_grupo = nombre_grupo,
                              eo_mensaje = ''RFC '' @ (if activo then ''activado'' else ''desactivado'')
                                             @ '' exitosamente''\<rparr>))))"

section \<open>Names for parts of the operations\<close>

text \<open>
  The RFCs a reconciliation of a tenant selects, and the detail rows and counters its two
  variants compute for them: the arguments the operations pass to their loops.
\<close>

definition rfcs_en_cuota :: "session \<Rightarrow> uuid \<Rightarrow> Tenant \<Rightarrow> string list" where
  "rfcs_en_cuota s tenant_id tenant = map tp_rfc (en_cuota (pending s) tenant_id (resolver_limite tenant))"

definition detalles_sat :: "session \<Rightarrow> uuid \<Rightarrow> Tenant \<Rightarrow> (string \<times> string) list \<times> nat" where
  "detalles_sat s tenant_id tenant =
     crear_detalles
       (snd (leer_resultados (map (\<lambda>tp. (tp_rfc tp, proveedores (pending s) (tp_rfc tp)))
                (en_cuota (pending s) tenant_id (resolver_limite tenant))) [] Map.empty))
       (rfcs_en_cuota s tenant_id tenant) [] 0"

definition detalles_dof_sat :: "session \<Rightarrow> uuid \<Rightarrow> Tenant \<Rightarrow> (string \<times> string) list \<times> nat \<times> nat \<times> nat" where
  "detalles_dof_sat s tenant_id tenant =
     combinar_dof_sat (buscar_en_dof (pending s) (rfcs_en_cuota s tenant_id tenant))
       (buscar_en_proveedores (pending s)
          [rfc \<leftarrow> rfcs_en_cuota s tenant_id tenant.
             buscar_en_dof (pending s) (rfcs_en_cuota s tenant_id tenant) rfc = None])
       (rfcs_en_cuota s tenant_id tenant) [] 0 0 0"

section \<open>A sample data base\<close>

text \<open>
  Three tenants: tenant 1 on a plan of two suppliers, tenant 2 on an unlimited plan,
  tenant 3 without plan.  Tenant 1 holds three active memberships and an inactive one,
  stored out of the order of their creation.
\<close>

definition rfc_a :: string where "rfc_a = ''AAA010101AA1''"
definition rfc_b :: string where "rfc_b = ''BBB010101BB1''"
definition rfc_c :: string where "rfc_c = ''CCC010101CC1''"
definition rfc_d :: string where "rfc_d = ''DDD010101DD1''"
definition rfc_e :: string where "rfc_e = ''EEE010101EE1''"

definition tenant_1 :: Tenant where
  "tenant_1 = \<lparr>t_id = 1, t_activo = True, t_plan = Some \<lparr>limite_proveedores = Some 2\<rparr>\<rparr>"

definition tenant_2 :: Tenant where
  "tenant_2 = \<lparr>t_id = 2, t_activo = True, t_plan = Some \<lparr>limite_proveedores = None\<rparr>\<rparr>"

definition tenant_3 :: Tenant where
  "tenant_3 = \<lparr>t_id = 3, t_activo = True, t_plan = None\<rparr>"

definition relacion :: "uuid \<Rightarrow> uuid \<Rightarrow> string \<Rightarrow> bool \<Rightarrow> nat \<Rightarrow> TenantProveedor" where
  "relacion i t rfc activo creado =
     \<lparr>tp_id = i, tp_tenant_id = t, tp_rfc = rfc, tp_razon_social = None, tp_activo = activo,
      tp_grupo_id = None, tp_created_at = creado\<rparr>"

definition db_ejemplo :: db where
  "db_ejemplo =
     \<lparr>tenants = [tenant_1, tenant_2, tenant_3],
      tenant_proveedores =
        [relacion 10 1 rfc_a True 30, relacion 11 1 rfc_b True 10, relacion 12 1 rfc_c False 5,
         relacion 13 1 rfc_d True 20, relacion 14 2 rfc_a True 1, relacion 15 2 rfc_e True 2],
      grupos = [],
      proveedores = [rfc_a \<mapsto> ''Presunto'', rfc_b \<mapsto> ''Definitivo''],
      fecha_lista = Some ''2024-01-31'',
      dof_contribuyentes =
        [\<lparr>dof_rfc = rfc_b, dof_situacion_contribuyente = ''Presunto''\<rparr>,
         \<lparr>dof_rfc = rfc_b, dof_situacion_contribuyente = ''Desvirtuado''\<rparr>],
      conciliacion_historial = [],
      resultado_conciliaciones = []\<rparr>"

definition sesion_ejemplo :: session where
  "sesion_ejemplo = \<lparr>committed = db_ejemplo, pending = db_ejemplo, ahora = 100\<rparr>"

text \<open>
  The resolution rule in the specification's words: an RFC with a row in the Gazette
  takes the Gazette's status (that of its last row); otherwise the directory's status;
  otherwise the sentinel.
\<close>

definition estado_prioridad_dof :: "db \<Rightarrow> string \<Rightarrow> string" where
  "estado_prioridad_dof d rfc =
     (let en_dof = [c \<leftarrow> dof_contribuyentes d. dof_rfc c = rfc] in
      if en_dof \<noteq> [] then dof_situacion_contribuyente (last en_dof)
      else (case proveedores d rfc of Some situacion \<Rightarrow> situacion | None \<Rightarrow> no_encontrado))"

text \<open>The state the loop of the DOF variant gives an RFC, from its two dicts.\<close>

definition estado_combinado :: "(string \<rightharpoonup> string) \<Rightarrow> (string \<rightharpoonup> string) \<Rightarrow> string \<Rightarrow> string" where
  "estado_combinado dd pd rfc =
     (case dd rfc of Some e \<Rightarrow> e | None \<Rightarrow> (case pd rfc of Some e \<Rightarrow> e | None \<Rightarrow> no_encontrado))"

text \<open>
  Detail completeness of a stored run, in the specification's words: there is one run of
  that id; its detail rows are as many as \<open>rfcs_procesados\<close> and \<open>coincidencias\<close> is at
  most \<open>rfcs_procesados\<close> (\<open>detalles_contados\<close>); the detail rows whose state is not
  the sentinel are as many as \<open>coincidencias\<close> (\<open>coincidencias_contadas\<close>).
\<close>

definition detalles_contados :: "db \<Rightarrow> uuid \<Rightarrow> bool" where
  "detalles_contados d hid =
     (case [h \<leftarrow> conciliacion_historial d. h_id h = hid] of
        [h] \<Rightarrow> length (get_by_conciliacion_id d hid) = h_rfcs_procesados h
                 \<and> h_coincidencias h \<le> h_rfcs_procesados h
      | _ \<Rightarrow> False)"

definition coincidencias_contadas :: "db \<Rightarrow> uuid \<Rightarrow> bool" where
  "coincidencias_contadas d hid =
     (case [h \<leftarrow> conciliacion_historial d. h_id h = hid] of
        [h] \<Rightarrow> length [x \<leftarrow> get_by_conciliacion_id d hid. d_estado x \<noteq> no_encontrado] = h_coincidencias h
      | _ \<Rightarrow> False)"

text \<open>No row of either directory has the sentinel text as its status.\<close>

definition sin_centinela :: "db \<Rightarrow> bool" where
  "sin_centinela d =
     (no_encontrado \<notin> ran (proveedores d)
      \<and> no_encontrado \<notin> dof_situacion_contribuyente ` set (dof_contribuyentes d))"

text \<open>The sample with a directory row whose status is the sentinel text.\<close>

definition db_centinela :: db where
  "db_centinela = db_ejemplo\<lparr>proveedores := [rfc_a \<mapsto> no_encontrado]\<rparr>"

definition sesion_centinela :: session where
  "sesion_centinela = \<lparr>committed = db_centinela, pending = db_centinela, ahora = 100\<rparr>"

text \<open>The state a dict of directory rows gives an RFC.\<close>

definition estado_sat :: "(string \<rightharpoonup> string) \<Rightarrow> string \<Rightarrow> string" where
  "estado_sat m rfc = (case m rfc of Some e \<Rightarrow> e | None \<Rightarrow> no_encontrado)"

text \<open>\<^verbatim>\<open>sorted(set(rfc.upper().strip() for rfc in rfcs))\<close>\<close>

definition rfcs_normalizados :: "string list \<Rightarrow> string list" where
  "rfcs_normalizados rfcs = sort (remdups (map upper_strip rfcs))"


text \<open>The synthetic entry of a failed tenant.\<close>

definition entrada_fallida :: "string \<Rightarrow> resultado_item \<Rightarrow> bool" where
  "entrada_fallida tipo x =
     (ri_historial_id x = None \<and> ri_rfcs_procesados x = 0 \<and> ri_coincidencias x = 0
      \<and> ri_version_sat x = None \<and> ri_tipo_conciliacion x = tipo
      \<and> take 7 (ri_estado x) = ''error: '')"




text \<open>
  A tenant on a plan of twenty suppliers with one inactive membership, for the burst
  ceiling of 23.
\<close>

definition tenant_20 :: Tenant where
  "tenant_20 = \<lparr>t_id = 4, t_activo = True, t_plan = Some \<lparr>limite_proveedores = Some 20\<rparr>\<rparr>"

definition db_burst :: db where
  "db_burst = db_ejemplo\<lparr>tenants := [tenant_20], tenant_proveedores := [relacion 50 4 rfc_c False 1]\<rparr>"

definition sesion_burst :: session where
  "sesion_burst = \<lparr>committed = db_burst, pending = db_burst, ahora = 100\<rparr>"

definition no_se_puede_activar :: error where
  "no_se_puede_activar = ValueError ''No se puede activar: sobrepasara el limite de burst permitido''"

text \<open>
  A data base with a tenant of limit 4 that has three active memberships and an inactive
  one, and with an inactive membership for the tenant whose plan has no limit and for the
  tenant without plan.
\<close>

definition tenant_5 :: Tenant where
  "tenant_5 = \<lparr>t_id = 5, t_activo = True, t_plan = Some \<lparr>limite_proveedores = Some 4\<rparr>\<rparr>"

definition db_cuota :: db where
  "db_cuota = db_ejemplo
     \<lparr>tenants := [tenant_1, tenant_2, tenant_3, tenant_5],
      tenant_proveedores := tenant_proveedores db_ejemplo
        @ [relacion 20 5 rfc_a True 1, relacion 21 5 rfc_b True 2, relacion 22 5 rfc_c False 3,
           relacion 23 5 rfc_d True 4, relacion 24 2 rfc_b False 5, relacion 25 3 rfc_a False 6]\<rparr>"

definition sesion_cuota :: session where
  "sesion_cuota = \<lparr>committed = db_cuota, pending = db_cuota, ahora = 100\<rparr>"

text \<open>The normalised RFCs of the items of a batch that have a valid length, in input order.\<close>

definition rfcs_validos :: "proveedor_item list \<Rightarrow> string list" where
  "rfcs_validos items =
     [rfc \<leftarrow> map (\<lambda>p. upper_strip (pi_rfc p)) items. length rfc = 12 \<or> length rfc = 13]"

text \<open>
  Names for parts of \<open>agregar_proveedores_batch\<close>: the stored memberships of the batch's
  RFCs, the RFCs of the batch that are not stored yet, and the outcome of the loop.
\<close>

definition existentes :: "session \<Rightarrow> uuid \<Rightarrow> proveedor_item list \<Rightarrow> (string \<rightharpoonup> TenantProveedor)" where
  "existentes s tenant_id items = get_by_tenant_and_rfcs_batch s tenant_id (rfcs_validos items)"

definition rfcs_nuevos :: "session \<Rightarrow> uuid \<Rightarrow> proveedor_item list \<Rightarrow> string list" where
  "rfcs_nuevos s tenant_id items = [rfc \<leftarrow> rfcs_validos items. existentes s tenant_id items rfc = None]"

definition clasificados ::
  "session \<Rightarrow> uuid \<Rightarrow> proveedor_item list \<Rightarrow> nat
     \<Rightarrow> proveedor_nuevo list \<times> proveedor_nuevo list \<times> resultado_rfc list" where
  "clasificados s tenant_id items limite_rfcs =
     clasificar (existentes s tenant_id items) (snd (normalizar_proveedores items [] Map.empty))
       (limite_burst limite_rfcs) (rfcs_validos items) (contar_activos (pending s) tenant_id) [] [] []"

text \<open>
  The decision rule in the specification's words: in input order, a new RFC is active and
  the counter grows when the counter is below the ceiling; otherwise it is inactive.
\<close>

fun regla_burst :: "nat \<Rightarrow> nat \<Rightarrow> string list \<Rightarrow> (string \<times> bool) list" where
  "regla_burst a b [] = []"
| "regla_burst a b (rfc # rfcs) =
     (if a < b then (rfc, True) # regla_burst (a + 1) b rfcs else (rfc, False) # regla_burst a b rfcs)"

definition nuevo_de :: "(string \<rightharpoonup> string) \<Rightarrow> string \<times> bool \<Rightarrow> proveedor_nuevo" where
  "nuevo_de razon_social_map ra =
     \<lparr>n_rfc = fst ra, n_razon_social = razon_social_map (fst ra), n_activo = snd ra\<rparr>"

definition resultado_existente :: "(string \<rightharpoonup> TenantProveedor) \<Rightarrow> string \<Rightarrow> resultado_rfc" where
  "resultado_existente ex rfc =
     \<lparr>rr_rfc = rfc, rr_proveedor_id = (case ex rfc of Some rel \<Rightarrow> Some (tp_id rel) | None \<Rightarrow> None),
      rr_error = Some (ya_existe rfc)\<rparr>"

definition proveedores_nuevos_de :: "session \<Rightarrow> uuid \<Rightarrow> proveedor_item list \<Rightarrow> nat \<Rightarrow> proveedor_nuevo list" where
  "proveedores_nuevos_de s tenant_id items limite_rfcs =
     map (nuevo_de (snd (normalizar_proveedores items [] Map.empty)))
       (regla_burst (contar_activos (pending s) tenant_id) (limite_burst limite_rfcs)
          (rfcs_nuevos s tenant_id items))"

definition resultados_existentes_de :: "session \<Rightarrow> uuid \<Rightarrow> proveedor_item list \<Rightarrow> resultado_rfc list" where
  "resultados_existentes_de s tenant_id items =
     map (resultado_existente (existentes s tenant_id items))
       [r \<leftarrow> rfcs_validos items. existentes s tenant_id items r \<noteq> None]"

text \<open>The rows the repository builds for the new RFCs of a batch.\<close>

definition relaciones_nuevas :: "session \<Rightarrow> uuid \<Rightarrow> proveedor_item list \<Rightarrow> nat \<Rightarrow> TenantProveedor list" where
  "relaciones_nuevas s tenant_id items limite_rfcs =
     map (nueva_relacion s tenant_id) (enumerate 0 (proveedores_nuevos_de s tenant_id items limite_rfcs))"

text \<open>
  Sample batches: one without a valid RFC; a mixed one; 24 new RFCs; one with an RFC that
  tenant 5 holds and three that it does not; one that repeats a new RFC; one with an RFC
  that tenant 2 holds.
\<close>

definition lote_invalido :: "proveedor_item list" where
  "lote_invalido =
     [\<lparr>pi_rfc = '' abc '', pi_razon_social = None\<rparr>, \<lparr>pi_rfc = [], pi_razon_social = Some ''Sin RFC''\<rparr>]"

definition lote_mixto :: "proveedor_item list" where
  "lote_mixto =
     [\<lparr>pi_rfc = '' abc '', pi_razon_social = None\<rparr>,
      \<lparr>pi_rfc = '' fff010101ff1'', pi_razon_social = Some ''Efe''\<rparr>,
      \<lparr>pi_rfc = ''ccc010101cc1 '', pi_razon_social = None\<rparr>]"

definition lote_24 :: "proveedor_item list" where
  "lote_24 =
     map (\<lambda>c. \<lparr>pi_rfc = ''xaxx0101010'' @ [c], pi_razon_social = None\<rparr>) ''abcdefghijklmnopqrstuvwx''"

definition lote_cuota :: "proveedor_item list" where
  "lote_cuota =
     [\<lparr>pi_rfc = '' fff010101ff1'', pi_razon_social = Some ''Efe''\<rparr>,
      \<lparr>pi_rfc = ''ccc010101cc1 '', pi_razon_social = None\<rparr>,
      \<lparr>pi_rfc = ''GGG010101GG1'', pi_razon_social = None\<rparr>,
      \<lparr>pi_rfc = ''hhh010101hh1'', pi_razon_social = None\<rparr>]"

definition lote_repetido :: "proveedor_item list" where
  "lote_repetido =
     [\<lparr>pi_rfc = ''GGG010101GG1'', pi_razon_social = None\<rparr>,
      \<lparr>pi_rfc = ''HHH010101HH1'', pi_razon_social = None\<rparr>,
      \<lparr>pi_rfc = ''ggg010101gg1'', pi_razon_social = None\<rparr>]"

definition lote_existente :: "proveedor_item list" where
  "lote_existente = [\<lparr>pi_rfc = ''bbb010101bb1'', pi_razon_social = None\<rparr>]"

section \<open>Proofs\<close>

subsection \<open>Fresh identifiers and stored runs\<close>

lemma foldr_max_ge: "i \<in> set xs \<Longrightarrow> i \<le> foldr max xs (0::nat)"
  by (induction xs) (auto simp: max_def)

lemma new_id_fresh: "i \<in> set (used_ids d) \<Longrightarrow> i < new_id d"
  unfolding new_id_def using foldr_max_ge [of i "used_ids d"] by simp

lemma new_id_not_detalle: "x \<in> set (resultado_conciliaciones d) \<Longrightarrow> d_conciliacion_id x \<noteq> new_id d"
  using new_id_fresh [of "d_conciliacion_id x" d] by (auto simp: used_ids_def)

lemma new_id_not_historial: "h \<in> set (conciliacion_historial d) \<Longrightarrow> h_id h \<noteq> new_id d"
  using new_id_fresh [of "h_id h" d] by (auto simp: used_ids_def)

lemma map_d_rfc_filas [simp]: "map d_rfc (filas_detalle i ds) = map fst ds"
  by (induction ds) (auto simp: filas_detalle_def)

lemma map_d_estado_filas [simp]: "map d_estado (filas_detalle i ds) = map snd ds"
  by (induction ds) (auto simp: filas_detalle_def)

lemma length_filas_detalle [simp]: "length (filas_detalle i ds) = length ds"
  by (simp add: filas_detalle_def)

lemma filter_id_filas [simp]: "[x \<leftarrow> filas_detalle i ds. d_conciliacion_id x = i] = filas_detalle i ds"
  by (induction ds) (auto simp: filas_detalle_def)

lemma get_by_conciliacion_id_guardar:
  assumes "h_id h = new_id (pending s)"
  shows "get_by_conciliacion_id (pending (guardar_conciliacion s h ds)) (new_id (pending s))
     = filas_detalle (new_id (pending s)) ds"
proof -
  have "[x \<leftarrow> resultado_conciliaciones (pending s). d_conciliacion_id x = new_id (pending s)] = []"
    using new_id_not_detalle [of _ "pending s"] by (auto simp: filter_empty_conv)
  then show ?thesis
    using assms by (simp add: get_by_conciliacion_id_def guardar_conciliacion_def)
qed

lemma historial_guardar:
  assumes "h_id h = new_id (pending s)"
  shows "[x \<leftarrow> conciliacion_historial (pending (guardar_conciliacion s h ds)). h_id x = new_id (pending s)] = [h]"
proof -
  have "[x \<leftarrow> conciliacion_historial (pending s). h_id x = new_id (pending s)] = []"
    using new_id_not_historial [of _ "pending s"] by (auto simp: filter_empty_conv)
  then show ?thesis
    using assms by (simp add: guardar_conciliacion_def)
qed

lemma leer_resultados_fst:
  "fst (leer_resultados rs acc m) = acc @ map fst rs"
  by (induction rs arbitrary: acc m) auto

lemma crear_detalles_fst:
  "map fst (fst (crear_detalles m rfcs acc n)) = map fst acc @ rfcs"
  by (induction rfcs arbitrary: acc n) (auto simp: Let_def)

lemma combinar_dof_sat_fst:
  "map fst (fst (combinar_dof_sat dd pd rfcs acc n1 n2 n3)) = map fst acc @ rfcs"
  by (induction rfcs arbitrary: acc n1 n2 n3) (auto split: option.splits)

subsection \<open>The selection\<close>

lemma length_activos_ordenados:
  "length (activos_ordenados d t) = length [tp \<leftarrow> tenant_proveedores d. tp_tenant_id tp = t \<and> tp_activo tp]"
  by (simp add: activos_ordenados_def)

lemma sorted_activos_ordenados: "sorted (map tp_created_at (activos_ordenados d t))"
  by (simp add: activos_ordenados_def)

lemma sorted_take_drop:
  assumes "sorted (map f xs)" "x \<in> set (take n xs)" "y \<in> set (drop n xs)"
  shows "f x \<le> (f y :: nat)"
proof -
  have "sorted (map f (take n xs) @ map f (drop n xs))"
    using assms(1) by (metis append_take_drop_id map_append)
  then show ?thesis using assms(2,3) by (auto simp: sorted_append)
qed

subsection \<open>The shape of a successful run\<close>

lemma realizar_conciliacion_Some:
  assumes "find (\<lambda>t. t_id t = tenant_id) (tenants (pending s)) = Some tenant"
  shows "\<exists>h r. realizar_conciliacion s tenant_id tipo
            = (guardar_conciliacion s h (fst (detalles_sat s tenant_id tenant)), Inr r)
          \<and> h_id h = new_id (pending s) \<and> r_historial_id r = new_id (pending s)
          \<and> h_tenant_id h = tenant_id
          \<and> h_rfcs_procesados h = length (rfcs_en_cuota s tenant_id tenant)
          \<and> h_coincidencias h = snd (detalles_sat s tenant_id tenant)
          \<and> r_rfcs_procesados r = h_rfcs_procesados h
          \<and> r_coincidencias r = h_coincidencias h"
proof -
  let ?h = "\<lparr>h_id = new_id (pending s), h_tenant_id = tenant_id,
             h_tipo_conciliacion = tipo, h_version_sat = obtener_version_sat (pending s),
             h_rfcs_procesados = length (rfcs_en_cuota s tenant_id tenant),
             h_coincidencias = snd (detalles_sat s tenant_id tenant),
             h_estado = ''completado''\<rparr>"
  have "\<exists>r. realizar_conciliacion s tenant_id tipo
            = (guardar_conciliacion s ?h (fst (detalles_sat s tenant_id tenant)), Inr r)
          \<and> r_historial_id r = new_id (pending s)
          \<and> r_rfcs_procesados r = h_rfcs_procesados ?h
          \<and> r_coincidencias r = h_coincidencias ?h"
    using assms
    by (simp add: realizar_conciliacion_def Let_def split_beta rfcs_en_cuota_def detalles_sat_def
          leer_resultados_fst comp_def)
  then show ?thesis by (intro exI [of _ ?h]) auto
qed

lemma realizar_conciliacion_dof_Some:
  assumes "find (\<lambda>t. t_id t = tenant_id) (tenants (pending s)) = Some tenant"
    and "rfcs_en_cuota s tenant_id tenant \<noteq> []"
  shows "\<exists>h r. realizar_conciliacion_dof_proveedores s tenant_id tipo
            = (guardar_conciliacion s h (fst (detalles_dof_sat s tenant_id tenant)), Inr r)
          \<and> h_id h = new_id (pending s) \<and> r_historial_id r = new_id (pending s)
          \<and> h_tenant_id h = tenant_id
          \<and> h_rfcs_procesados h = length (rfcs_en_cuota s tenant_id tenant)
          \<and> h_coincidencias h = fst (snd (detalles_dof_sat s tenant_id tenant))
          \<and> r_rfcs_procesados r = h_rfcs_procesados h
          \<and> r_coincidencias r = h_coincidencias h"
proof -
  let ?h = "\<lparr>h_id = new_id (pending s), h_tenant_id = tenant_id,
             h_tipo_conciliacion = tipo, h_version_sat = obtener_version_sat (pending s),
             h_rfcs_procesados = length (rfcs_en_cuota s tenant_id tenant),
             h_coincidencias = fst (snd (detalles_dof_sat s tenant_id tenant)),
             h_estado = ''completado''\<rparr>"
  have "\<exists>r. realizar_conciliacion_dof_proveedores s tenant_id tipo
            = (guardar_conciliacion s ?h (fst (detalles_dof_sat s tenant_id tenant)), Inr r)
          \<and> r_historial_id r = new_id (pending s)
          \<and> r_rfcs_procesados r = h_rfcs_procesados ?h
          \<and> r_coincidencias r = h_coincidencias ?h"
    using assms
    by (simp add: realizar_conciliacion_dof_proveedores_def Let_def split_beta rfcs_en_cuota_def
          detalles_dof_sat_def)
  then show ?thesis by (intro exI [of _ ?h]) auto
qed

lemma fst_detalles_sat: "map fst (fst (detalles_sat s tenant_id tenant)) = rfcs_en_cuota s tenant_id tenant"
  by (simp add: detalles_sat_def crear_detalles_fst)

lemma fst_detalles_dof_sat: "map fst (fst (detalles_dof_sat s tenant_id tenant)) = rfcs_en_cuota s tenant_id tenant"
  by (simp add: detalles_dof_sat_def combinar_dof_sat_fst)

lemma mset_activos_ordenados:
  "mset (activos_ordenados d t) = mset [tp \<leftarrow> tenant_proveedores d. tp_tenant_id tp = t \<and> tp_activo tp]"
  by (simp add: activos_ordenados_def)

lemma set_activos_ordenados:
  "set (activos_ordenados d t) = {tp \<in> set (tenant_proveedores d). tp_tenant_id tp = t \<and> tp_activo tp}"
  by (auto simp: activos_ordenados_def)

lemma rfcs_en_cuota_Some:
  "resolver_limite tenant = Some L \<Longrightarrow>
   rfcs_en_cuota s tenant_id tenant = map tp_rfc (take L (activos_ordenados (pending s) tenant_id))"
  by (simp add: rfcs_en_cuota_def en_cuota_def limit_def)

text \<open>
  C2 (FIFO in-quota selection).  For a tenant whose plan limit is \<open>L\<close> and who has more
  than \<open>L\<close> active memberships, \<open>realizar_conciliacion\<close> returns a run of exactly \<open>L\<close>
  RFCs, those of the first \<open>L\<close> active memberships in the order of \<open>created_at\<close>, and
  so does the DOF variant when \<open>L\<close> is positive (with \<open>L = 0\<close> it selects nothing and
  produces no run).  The selected rows together with the rows beyond the limit are the
  tenant's active memberships; every selected row is active, belongs to the tenant and is
  at least as old as every active row left out.  Inactive memberships are never selected.
\<close>

theorem C2_fifo_en_cuota:
  assumes "find (\<lambda>t. t_id t = tenant_id) (tenants (pending s)) = Some tenant"
    and "resolver_limite tenant = Some L"
    and "L < length [tp \<leftarrow> tenant_proveedores (pending s). tp_tenant_id tp = tenant_id \<and> tp_activo tp]"
  shows "(\<exists>s' r. realizar_conciliacion s tenant_id tipo = (s', Inr r) \<and> r_rfcs_procesados r = L
            \<and> map d_rfc (get_by_conciliacion_id (pending s') (r_historial_id r))
                = map tp_rfc (take L (activos_ordenados (pending s) tenant_id)))
       \<and> (0 < L \<longrightarrow>
            (\<exists>s' r. realizar_conciliacion_dof_proveedores s tenant_id tipo = (s', Inr r) \<and> r_rfcs_procesados r = L
               \<and> map d_rfc (get_by_conciliacion_id (pending s') (r_historial_id r))
                   = map tp_rfc (take L (activos_ordenados (pending s) tenant_id))))
       \<and> length (take L (activos_ordenados (pending s) tenant_id)) = L
       \<and> mset (take L (activos_ordenados (pending s) tenant_id))
            + mset (get_by_tenant_excedentes (pending s) tenant_id L)
           = mset [tp \<leftarrow> tenant_proveedores (pending s). tp_tenant_id tp = tenant_id \<and> tp_activo tp]
       \<and> (\<forall>x \<in> set (take L (activos_ordenados (pending s) tenant_id)).
             tp_activo x \<and> tp_tenant_id x = tenant_id
             \<and> (\<forall>y \<in> set (get_by_tenant_excedentes (pending s) tenant_id L). tp_created_at x \<le> tp_created_at y))"
proof -
  let ?ao = "activos_ordenados (pending s) tenant_id"
  have len: "length (take L ?ao) = L"
    using assms(3) by (simp add: length_activos_ordenados)
  have rfcs: "rfcs_en_cuota s tenant_id tenant = map tp_rfc (take L ?ao)"
    using assms(2) by (rule rfcs_en_cuota_Some)
  have plain: "\<exists>s' r. realizar_conciliacion s tenant_id tipo = (s', Inr r) \<and> r_rfcs_procesados r = L
            \<and> map d_rfc (get_by_conciliacion_id (pending s') (r_historial_id r)) = map tp_rfc (take L ?ao)"
  proof -
    obtain h r where hr: "realizar_conciliacion s tenant_id tipo
            = (guardar_conciliacion s h (fst (detalles_sat s tenant_id tenant)), Inr r)"
      "h_id h = new_id (pending s)" "r_historial_id r = new_id (pending s)"
      "h_rfcs_procesados h = length (rfcs_en_cuota s tenant_id tenant)"
      "r_rfcs_procesados r = h_rfcs_procesados h"
      using realizar_conciliacion_Some [OF assms(1)] by blast
    have "map d_rfc (get_by_conciliacion_id (pending (guardar_conciliacion s h (fst (detalles_sat s tenant_id tenant))))
             (r_historial_id r)) = map tp_rfc (take L ?ao)"
      using hr(2,3) rfcs by (simp add: get_by_conciliacion_id_guardar fst_detalles_sat)
    moreover have "r_rfcs_procesados r = L" using hr(4,5) rfcs len by simp
    ultimately show ?thesis using hr(1) by blast
  qed
  have dof: "\<exists>s' r. realizar_conciliacion_dof_proveedores s tenant_id tipo = (s', Inr r) \<and> r_rfcs_procesados r = L
            \<and> map d_rfc (get_by_conciliacion_id (pending s') (r_historial_id r)) = map tp_rfc (take L ?ao)"
    if "0 < L"
  proof -
    have ne: "rfcs_en_cuota s tenant_id tenant \<noteq> []"
      using rfcs len that by auto
    obtain h r where hr: "realizar_conciliacion_dof_proveedores s tenant_id tipo
            = (guardar_conciliacion s h (fst (detalles_dof_sat s tenant_id tenant)), Inr r)"
      "h_id h = new_id (pending s)" "r_historial_id r = new_id (pending s)"
      "h_rfcs_procesados h = length (rfcs_en_cuota s tenant_id tenant)"
      "r_rfcs_procesados r = h_rfcs_procesados h"
      using realizar_conciliacion_dof_Some [OF assms(1) ne] by blast
    have "map d_rfc (get_by_conciliacion_id (pending (guardar_conciliacion s h (fst (detalles_dof_sat s tenant_id tenant))))
             (r_historial_id r)) = map tp_rfc (take L ?ao)"
      using hr(2,3) rfcs by (simp add: get_by_conciliacion_id_guardar fst_detalles_dof_sat)
    moreover have "r_rfcs_procesados r = L" using hr(4,5) rfcs len by simp
    ultimately show ?thesis using hr(1) by blast
  qed
  have ms: "mset (take L ?ao) + mset (get_by_tenant_excedentes (pending s) tenant_id L)
           = mset [tp \<leftarrow> tenant_proveedores (pending s). tp_tenant_id tp = tenant_id \<and> tp_activo tp]"
  proof -
    have "mset (take L ?ao) + mset (drop L ?ao) = mset ?ao"
      by (metis append_take_drop_id mset_append)
    then show ?thesis
      by (simp add: get_by_tenant_excedentes_def mset_activos_ordenados)
  qed
  have sel: "\<forall>x \<in> set (take L ?ao).
             tp_activo x \<and> tp_tenant_id x = tenant_id
             \<and> (\<forall>y \<in> set (get_by_tenant_excedentes (pending s) tenant_id L). tp_created_at x \<le> tp_created_at y)"
  proof
    fix x assume x: "x \<in> set (take L ?ao)"
    then have "x \<in> set ?ao" by (rule in_set_takeD)
    then have a: "tp_activo x \<and> tp_tenant_id x = tenant_id"
      by (simp add: set_activos_ordenados)
    have "\<forall>y \<in> set (get_by_tenant_excedentes (pending s) tenant_id L). tp_created_at x \<le> tp_created_at y"
      using sorted_take_drop [OF sorted_activos_ordenados x]
      by (simp add: get_by_tenant_excedentes_def)
    with a show "tp_activo x \<and> tp_tenant_id x = tenant_id
             \<and> (\<forall>y \<in> set (get_by_tenant_excedentes (pending s) tenant_id L). tp_created_at x \<le> tp_created_at y)"
      by simp
  qed
  show ?thesis using plain dof len ms sel by blast
qed

theorem C2_fifo_en_cuota_witness:
  "find (\<lambda>t. t_id t = 1) (tenants (pending sesion_ejemplo)) = Some tenant_1
   \<and> resolver_limite tenant_1 = Some 2
   \<and> 2 < length [tp \<leftarrow> tenant_proveedores (pending sesion_ejemplo). tp_tenant_id tp = 1 \<and> tp_activo tp]
   \<and> map tp_rfc (take 2 (activos_ordenados (pending sesion_ejemplo) 1)) = [rfc_b, rfc_d]
   \<and> (\<exists>s' r. realizar_conciliacion sesion_ejemplo 1 ''Manual'' = (s', Inr r) \<and> r_rfcs_procesados r = 2
         \<and> map d_rfc (get_by_conciliacion_id (pending s') (r_historial_id r)) = [rfc_b, rfc_d])
   \<and> (\<exists>s' r. realizar_conciliacion_dof_proveedores sesion_ejemplo 1 ''Manual'' = (s', Inr r) \<and> r_rfcs_procesados r = 2
         \<and> map d_rfc (get_by_conciliacion_id (pending s') (r_historial_id r)) = [rfc_b, rfc_d])"
proof -
  have h1: "find (\<lambda>t. t_id t = 1) (tenants (pending sesion_ejemplo)) = Some tenant_1"
    by code_simp
  have h2: "resolver_limite tenant_1 = Some 2"
    by code_simp
  have h3: "2 < length [tp \<leftarrow> tenant_proveedores (pending sesion_ejemplo). tp_tenant_id tp = 1 \<and> tp_activo tp]"
    by code_simp
  have h4: "map tp_rfc (take 2 (activos_ordenados (pending sesion_ejemplo) 1)) = [rfc_b, rfc_d]"
    by code_simp
  show ?thesis
    using C2_fifo_en_cuota [OF h1 h2 h3, of "''Manual''"] h1 h2 h3 h4 by simp
qed

subsection \<open>DOF priority\<close>

lemma dict_of_snoc: "dict_of (kvs @ [(k, v)]) = (dict_of kvs)(k \<mapsto> v)"
  by (simp add: dict_of_def)

lemma dict_of_Nil [simp]: "dict_of [] = Map.empty"
  by (simp add: dict_of_def)

lemma dict_of_last:
  "dict_of kvs k = (if [kv \<leftarrow> kvs. fst kv = k] = [] then None else Some (snd (last [kv \<leftarrow> kvs. fst kv = k])))"
proof (induction kvs rule: rev_induct)
  case Nil
  then show ?case by simp
next
  case (snoc kv kvs)
  obtain a b where kv: "kv = (a, b)" by (cases kv)
  show ?case using snoc by (simp add: kv dict_of_snoc)
qed

lemma filter_dof_results:
  "k \<in> set rfcs \<Longrightarrow>
   [kv \<leftarrow> [(dof_rfc c, dof_situacion_contribuyente c). c \<leftarrow> cs, dof_rfc c \<in> set rfcs]. fst kv = k]
     = map (\<lambda>c. (dof_rfc c, dof_situacion_contribuyente c)) [c \<leftarrow> cs. dof_rfc c = k]"
  by (induction cs) auto

lemma buscar_en_dof_eq:
  assumes "k \<in> set rfcs"
  shows "buscar_en_dof d rfcs k =
     (if [c \<leftarrow> dof_contribuyentes d. dof_rfc c = k] = [] then None
      else Some (dof_situacion_contribuyente (last [c \<leftarrow> dof_contribuyentes d. dof_rfc c = k])))"
  unfolding buscar_en_dof_def dict_of_last filter_dof_results [OF assms]
  by (simp add: last_map)

lemma buscar_en_proveedores_eq:
  "k \<in> set rfcs \<Longrightarrow> buscar_en_proveedores d rfcs k = proveedores d k"
  by (auto simp: buscar_en_proveedores_def)

lemma combinar_dof_sat_detalles:
  "fst (combinar_dof_sat dd pd rfcs acc n1 n2 n3) = acc @ map (\<lambda>rfc. (rfc, estado_combinado dd pd rfc)) rfcs"
  by (induction rfcs arbitrary: acc n1 n2 n3) (auto simp: estado_combinado_def split: option.splits)

lemma estado_combinado_en_cuota:
  assumes "rfc \<in> set (rfcs_en_cuota s tenant_id tenant)"
  shows "estado_combinado (buscar_en_dof (pending s) (rfcs_en_cuota s tenant_id tenant))
           (buscar_en_proveedores (pending s)
              [rfc \<leftarrow> rfcs_en_cuota s tenant_id tenant.
                 buscar_en_dof (pending s) (rfcs_en_cuota s tenant_id tenant) rfc = None]) rfc
         = estado_prioridad_dof (pending s) rfc"
proof (cases "[c \<leftarrow> dof_contribuyentes (pending s). dof_rfc c = rfc] = []")
  case True
  then have n: "buscar_en_dof (pending s) (rfcs_en_cuota s tenant_id tenant) rfc = None"
    using buscar_en_dof_eq [OF assms] by simp
  then have "rfc \<in> set [rfc \<leftarrow> rfcs_en_cuota s tenant_id tenant.
                 buscar_en_dof (pending s) (rfcs_en_cuota s tenant_id tenant) rfc = None]"
    using assms by simp
  then show ?thesis
    using n True by (simp add: estado_combinado_def estado_prioridad_dof_def buscar_en_proveedores_eq)
next
  case False
  then show ?thesis
    using buscar_en_dof_eq [OF assms] by (simp add: estado_combinado_def estado_prioridad_dof_def)
qed

lemma fst_detalles_dof_sat_eq:
  "fst (detalles_dof_sat s tenant_id tenant)
     = map (\<lambda>rfc. (rfc, estado_prioridad_dof (pending s) rfc)) (rfcs_en_cuota s tenant_id tenant)"
  unfolding detalles_dof_sat_def combinar_dof_sat_detalles
  using estado_combinado_en_cuota [of _ s tenant_id tenant] by simp

text \<open>
  C3 (DOF priority).  When the tenant exists and has in-quota RFCs, the DOF-priority
  reconciliation returns a run whose detail rows are, in order, one per in-quota RFC with
  the status \<open>estado_prioridad_dof\<close>.  For an RFC with a row in the Gazette that status
  is a Gazette status of the RFC whatever the Supplier Directory holds, and it differs
  from the directory's status whenever every Gazette row of the RFC does; for an RFC
  without a Gazette row it is the directory's status, or the sentinel when the directory
  has no row either.
\<close>

theorem C3_prioridad_dof:
  assumes "find (\<lambda>t. t_id t = tenant_id) (tenants (pending s)) = Some tenant"
    and "rfcs_en_cuota s tenant_id tenant \<noteq> []"
  shows "(\<exists>s' r. realizar_conciliacion_dof_proveedores s tenant_id tipo = (s', Inr r)
            \<and> get_by_conciliacion_id (pending s') (r_historial_id r)
                = map (\<lambda>rfc. \<lparr>d_conciliacion_id = r_historial_id r, d_rfc = rfc,
                               d_estado = estado_prioridad_dof (pending s) rfc\<rparr>)
                    (rfcs_en_cuota s tenant_id tenant))
       \<and> (\<forall>rfc c. c \<in> set (dof_contribuyentes (pending s)) \<and> dof_rfc c = rfc \<longrightarrow>
             estado_prioridad_dof (pending s) rfc
               \<in> dof_situacion_contribuyente ` {c' \<in> set (dof_contribuyentes (pending s)). dof_rfc c' = rfc}
             \<and> (\<forall>sat. proveedores (pending s) rfc = Some sat
                   \<and> (\<forall>c' \<in> set (dof_contribuyentes (pending s)).
                         dof_rfc c' = rfc \<longrightarrow> dof_situacion_contribuyente c' \<noteq> sat)
                   \<longrightarrow> estado_prioridad_dof (pending s) rfc \<noteq> sat))
       \<and> (\<forall>rfc. (\<forall>c \<in> set (dof_contribuyentes (pending s)). dof_rfc c \<noteq> rfc) \<longrightarrow>
             estado_prioridad_dof (pending s) rfc
               = (case proveedores (pending s) rfc of Some sat \<Rightarrow> sat | None \<Rightarrow> no_encontrado))"
proof -
  obtain h r where hr: "realizar_conciliacion_dof_proveedores s tenant_id tipo
            = (guardar_conciliacion s h (fst (detalles_dof_sat s tenant_id tenant)), Inr r)"
      "h_id h = new_id (pending s)" "r_historial_id r = new_id (pending s)"
    using realizar_conciliacion_dof_Some [OF assms] by blast
  have "get_by_conciliacion_id (pending (guardar_conciliacion s h (fst (detalles_dof_sat s tenant_id tenant))))
          (r_historial_id r)
        = map (\<lambda>rfc. \<lparr>d_conciliacion_id = r_historial_id r, d_rfc = rfc,
                               d_estado = estado_prioridad_dof (pending s) rfc\<rparr>)
                    (rfcs_en_cuota s tenant_id tenant)"
    using hr(2,3)
    by (simp add: get_by_conciliacion_id_guardar fst_detalles_dof_sat_eq filas_detalle_def comp_def)
  then have run: "\<exists>s' r. realizar_conciliacion_dof_proveedores s tenant_id tipo = (s', Inr r)
            \<and> get_by_conciliacion_id (pending s') (r_historial_id r)
                = map (\<lambda>rfc. \<lparr>d_conciliacion_id = r_historial_id r, d_rfc = rfc,
                               d_estado = estado_prioridad_dof (pending s) rfc\<rparr>)
                    (rfcs_en_cuota s tenant_id tenant)"
    using hr(1) by blast
  have dof: "estado_prioridad_dof (pending s) rfc
               \<in> dof_situacion_contribuyente ` {c' \<in> set (dof_contribuyentes (pending s)). dof_rfc c' = rfc}
             \<and> (\<forall>sat. proveedores (pending s) rfc = Some sat
                   \<and> (\<forall>c' \<in> set (dof_contribuyentes (pending s)).
                         dof_rfc c' = rfc \<longrightarrow> dof_situacion_contribuyente c' \<noteq> sat)
                   \<longrightarrow> estado_prioridad_dof (pending s) rfc \<noteq> sat)"
    if "c \<in> set (dof_contribuyentes (pending s)) \<and> dof_rfc c = rfc" for rfc c
  proof -
    let ?cs = "[c \<leftarrow> dof_contribuyentes (pending s). dof_rfc c = rfc]"
    have ne: "?cs \<noteq> []" using that by (auto simp: filter_empty_conv)
    then have "last ?cs \<in> set ?cs" by (rule last_in_set)
    then have l: "last ?cs \<in> {c' \<in> set (dof_contribuyentes (pending s)). dof_rfc c' = rfc}" by simp
    have e: "estado_prioridad_dof (pending s) rfc = dof_situacion_contribuyente (last ?cs)"
      using ne by (simp add: estado_prioridad_dof_def)
    show ?thesis using l e by auto
  qed
  have sat: "estado_prioridad_dof (pending s) rfc
               = (case proveedores (pending s) rfc of Some sat \<Rightarrow> sat | None \<Rightarrow> no_encontrado)"
    if "\<forall>c \<in> set (dof_contribuyentes (pending s)). dof_rfc c \<noteq> rfc" for rfc
  proof -
    have "[c \<leftarrow> dof_contribuyentes (pending s). dof_rfc c = rfc] = []"
      using that by (auto simp: filter_empty_conv)
    then show ?thesis by (simp add: estado_prioridad_dof_def)
  qed
  show ?thesis using run dof sat by blast
qed

theorem C3_prioridad_dof_witness:
  "find (\<lambda>t. t_id t = 1) (tenants (pending sesion_ejemplo)) = Some tenant_1
   \<and> rfcs_en_cuota sesion_ejemplo 1 tenant_1 = [rfc_b, rfc_d]
   \<and> proveedores (pending sesion_ejemplo) rfc_b = Some ''Definitivo''
   \<and> estado_prioridad_dof (pending sesion_ejemplo) rfc_b = ''Desvirtuado''
   \<and> estado_prioridad_dof (pending sesion_ejemplo) rfc_d = no_encontrado
   \<and> (\<exists>s' r. realizar_conciliacion_dof_proveedores sesion_ejemplo 1 ''DOF + SAT'' = (s', Inr r)
         \<and> map d_estado (get_by_conciliacion_id (pending s') (r_historial_id r)) = [''Desvirtuado'', no_encontrado])"
proof -
  have h1: "find (\<lambda>t. t_id t = 1) (tenants (pending sesion_ejemplo)) = Some tenant_1"
    by code_simp
  have h2: "rfcs_en_cuota sesion_ejemplo 1 tenant_1 = [rfc_b, rfc_d]"
    by code_simp
  have h2': "rfcs_en_cuota sesion_ejemplo 1 tenant_1 \<noteq> []"
    unfolding h2 by simp
  have h3: "proveedores (pending sesion_ejemplo) rfc_b = Some ''Definitivo''"
    by code_simp
  have h4: "estado_prioridad_dof (pending sesion_ejemplo) rfc_b = ''Desvirtuado''"
    by code_simp
  have h5: "estado_prioridad_dof (pending sesion_ejemplo) rfc_d = no_encontrado"
    by code_simp
  obtain s' r where
    "realizar_conciliacion_dof_proveedores sesion_ejemplo 1 ''DOF + SAT'' = (s', Inr r)"
    "get_by_conciliacion_id (pending s') (r_historial_id r)
                = map (\<lambda>rfc. \<lparr>d_conciliacion_id = r_historial_id r, d_rfc = rfc,
                               d_estado = estado_prioridad_dof (pending sesion_ejemplo) rfc\<rparr>)
                    (rfcs_en_cuota sesion_ejemplo 1 tenant_1)"
    using C3_prioridad_dof [OF h1 h2', of "''DOF + SAT''"] by blast
  then have "\<exists>s' r. realizar_conciliacion_dof_proveedores sesion_ejemplo 1 ''DOF + SAT'' = (s', Inr r)
         \<and> map d_estado (get_by_conciliacion_id (pending s') (r_historial_id r)) = [''Desvirtuado'', no_encontrado]"
    using h2 h4 h5 by simp
  then show ?thesis using h1 h2 h3 h4 h5 by simp
qed

subsection \<open>The resolved limit\<close>

lemma rfcs_en_cuota_None:
  "resolver_limite tenant = None \<Longrightarrow>
   rfcs_en_cuota s tenant_id tenant = map tp_rfc (activos_ordenados (pending s) tenant_id)"
  by (simp add: rfcs_en_cuota_def en_cuota_def limit_def)

lemma realizar_conciliacion_run:
  assumes "find (\<lambda>t. t_id t = tenant_id) (tenants (pending s)) = Some tenant"
  shows "\<exists>s' r. realizar_conciliacion s tenant_id tipo = (s', Inr r)
           \<and> r_rfcs_procesados r = length (rfcs_en_cuota s tenant_id tenant)
           \<and> map d_rfc (get_by_conciliacion_id (pending s') (r_historial_id r)) = rfcs_en_cuota s tenant_id tenant"
proof -
  obtain h r where hr: "realizar_conciliacion s tenant_id tipo
            = (guardar_conciliacion s h (fst (detalles_sat s tenant_id tenant)), Inr r)"
      "h_id h = new_id (pending s)" "r_historial_id r = new_id (pending s)"
      "h_rfcs_procesados h = length (rfcs_en_cuota s tenant_id tenant)"
      "r_rfcs_procesados r = h_rfcs_procesados h"
    using realizar_conciliacion_Some [OF assms] by blast
  have "map d_rfc (get_by_conciliacion_id (pending (guardar_conciliacion s h (fst (detalles_sat s tenant_id tenant))))
             (r_historial_id r)) = rfcs_en_cuota s tenant_id tenant"
    using hr(2,3) by (simp add: get_by_conciliacion_id_guardar fst_detalles_sat)
  then show ?thesis using hr by auto
qed

lemma realizar_conciliacion_dof_run:
  assumes "find (\<lambda>t. t_id t = tenant_id) (tenants (pending s)) = Some tenant"
    and "rfcs_en_cuota s tenant_id tenant \<noteq> []"
  shows "\<exists>s' r. realizar_conciliacion_dof_proveedores s tenant_id tipo = (s', Inr r)
           \<and> r_rfcs_procesados r = length (rfcs_en_cuota s tenant_id tenant)
           \<and> map d_rfc (get_by_conciliacion_id (pending s') (r_historial_id r)) = rfcs_en_cuota s tenant_id tenant"
proof -
  obtain h r where hr: "realizar_conciliacion_dof_proveedores s tenant_id tipo
            = (guardar_conciliacion s h (fst (detalles_dof_sat s tenant_id tenant)), Inr r)"
      "h_id h = new_id (pending s)" "r_historial_id r = new_id (pending s)"
      "h_rfcs_procesados h = length (rfcs_en_cuota s tenant_id tenant)"
      "r_rfcs_procesados r = h_rfcs_procesados h"
    using realizar_conciliacion_dof_Some [OF assms] by blast
  have "map d_rfc (get_by_conciliacion_id (pending (guardar_conciliacion s h (fst (detalles_dof_sat s tenant_id tenant))))
             (r_historial_id r)) = rfcs_en_cuota s tenant_id tenant"
    using hr(2,3) by (simp add: get_by_conciliacion_id_guardar fst_detalles_dof_sat)
  then show ?thesis using hr by auto
qed

lemma realizar_conciliacion_dof_vacio:
  assumes "find (\<lambda>t. t_id t = tenant_id) (tenants (pending s)) = Some tenant"
    and "rfcs_en_cuota s tenant_id tenant = []"
  shows "realizar_conciliacion_dof_proveedores s tenant_id tipo
           = (s, Inl (ValueError ''No hay proveedores para conciliar''))"
  using assms by (simp add: realizar_conciliacion_dof_proveedores_def rfcs_en_cuota_def Let_def)

text \<open>
  Against C7 as stated: tenant 2 of the sample is on a plan whose limit is NULL.  The
  limit does not resolve to \<open>0\<close>, and both reconciliations process its two active
  memberships.
\<close>

theorem C7_counterexample:
  "find (\<lambda>t. t_id t = 2) (tenants (pending sesion_ejemplo)) = Some tenant_2
   \<and> t_plan tenant_2 = Some \<lparr>limite_proveedores = None\<rparr>
   \<and> resolver_limite tenant_2 \<noteq> Some 0
   \<and> map tp_rfc (en_cuota (pending sesion_ejemplo) 2 (resolver_limite tenant_2)) = [rfc_a, rfc_e]
   \<and> map d_rfc (resultado_conciliaciones (pending (fst (realizar_conciliacion sesion_ejemplo 2 ''Manual''))))
        = [rfc_a, rfc_e]
   \<and> map d_rfc (resultado_conciliaciones (pending (fst (realizar_conciliacion_dof_proveedores sesion_ejemplo 2 ''DOF + SAT''))))
        = [rfc_a, rfc_e]"
  by code_simp

text \<open>
  C7, amended.  The plan limit resolves to \<open>0\<close> only for a tenant without plan: the
  plain reconciliation then records a run of zero RFCs and the DOF variant raises
  "No hay proveedores para conciliar".  For a plan whose limit is NULL the resolved limit
  is NULL, no LIMIT is applied, and a reconciliation processes every active membership of
  the tenant, oldest first.
\<close>

theorem C7_limite_resuelto:
  assumes "find (\<lambda>t. t_id t = tenant_id) (tenants (pending s)) = Some tenant"
  shows "(t_plan tenant = None \<longrightarrow>
            resolver_limite tenant = Some 0
            \<and> (\<exists>s' r. realizar_conciliacion s tenant_id tipo = (s', Inr r) \<and> r_rfcs_procesados r = 0
                  \<and> get_by_conciliacion_id (pending s') (r_historial_id r) = [])
            \<and> realizar_conciliacion_dof_proveedores s tenant_id tipo
                 = (s, Inl (ValueError ''No hay proveedores para conciliar'')))
       \<and> (\<forall>plan. t_plan tenant = Some plan \<and> limite_proveedores plan = None \<longrightarrow>
            resolver_limite tenant = None
            \<and> (\<exists>s' r. realizar_conciliacion s tenant_id tipo = (s', Inr r)
                  \<and> r_rfcs_procesados r = contar_activos (pending s) tenant_id
                  \<and> map d_rfc (get_by_conciliacion_id (pending s') (r_historial_id r))
                      = map tp_rfc (activos_ordenados (pending s) tenant_id))
            \<and> (0 < contar_activos (pending s) tenant_id \<longrightarrow>
                 (\<exists>s' r. realizar_conciliacion_dof_proveedores s tenant_id tipo = (s', Inr r)
                    \<and> r_rfcs_procesados r = contar_activos (pending s) tenant_id
                    \<and> map d_rfc (get_by_conciliacion_id (pending s') (r_historial_id r))
                        = map tp_rfc (activos_ordenados (pending s) tenant_id))))"
proof (intro conjI impI allI)
  assume np: "t_plan tenant = None"
  show l0: "resolver_limite tenant = Some 0" using np by (simp add: resolver_limite_def)
  have e: "rfcs_en_cuota s tenant_id tenant = []"
    using l0 by (simp add: rfcs_en_cuota_def en_cuota_def limit_def)
  show "\<exists>s' r. realizar_conciliacion s tenant_id tipo = (s', Inr r) \<and> r_rfcs_procesados r = 0
                  \<and> get_by_conciliacion_id (pending s') (r_historial_id r) = []"
    using realizar_conciliacion_run [OF assms, of tipo] e by auto
  show "realizar_conciliacion_dof_proveedores s tenant_id tipo
                 = (s, Inl (ValueError ''No hay proveedores para conciliar''))"
    using realizar_conciliacion_dof_vacio [OF assms e] .
next
  fix plan assume p: "t_plan tenant = Some plan \<and> limite_proveedores plan = None"
  show ln: "resolver_limite tenant = None" using p by (simp add: resolver_limite_def)
  have e: "rfcs_en_cuota s tenant_id tenant = map tp_rfc (activos_ordenados (pending s) tenant_id)"
    using ln by (rule rfcs_en_cuota_None)
  have len: "length (rfcs_en_cuota s tenant_id tenant) = contar_activos (pending s) tenant_id"
    by (simp add: e contar_activos_def length_activos_ordenados)
  show "\<exists>s' r. realizar_conciliacion s tenant_id tipo = (s', Inr r)
                  \<and> r_rfcs_procesados r = contar_activos (pending s) tenant_id
                  \<and> map d_rfc (get_by_conciliacion_id (pending s') (r_historial_id r))
                      = map tp_rfc (activos_ordenados (pending s) tenant_id)"
    using realizar_conciliacion_run [OF assms, of tipo] e len by auto
  assume pos: "0 < contar_activos (pending s) tenant_id"
  have ne: "rfcs_en_cuota s tenant_id tenant \<noteq> []" using len pos by auto
  show "\<exists>s' r. realizar_conciliacion_dof_proveedores s tenant_id tipo = (s', Inr r)
                    \<and> r_rfcs_procesados r = contar_activos (pending s) tenant_id
                    \<and> map d_rfc (get_by_conciliacion_id (pending s') (r_historial_id r))
                        = map tp_rfc (activos_ordenados (pending s) tenant_id)"
    using realizar_conciliacion_dof_run [OF assms ne, of tipo] e len by auto
qed

theorem C7_limite_resuelto_witness:
  "find (\<lambda>t. t_id t = 3) (tenants (pending sesion_ejemplo)) = Some tenant_3
   \<and> t_plan tenant_3 = None
   \<and> resolver_limite tenant_3 = Some 0
   \<and> (\<exists>s' r. realizar_conciliacion sesion_ejemplo 3 ''Manual'' = (s', Inr r) \<and> r_rfcs_procesados r = 0
         \<and> get_by_conciliacion_id (pending s') (r_historial_id r) = [])
   \<and> realizar_conciliacion_dof_proveedores sesion_ejemplo 3 ''Manual''
        = (sesion_ejemplo, Inl (ValueError ''No hay proveedores para conciliar''))
   \<and> find (\<lambda>t. t_id t = 2) (tenants (pending sesion_ejemplo)) = Some tenant_2
   \<and> t_plan tenant_2 = Some \<lparr>limite_proveedores = None\<rparr>
   \<and> contar_activos (pending sesion_ejemplo) 2 = 2
   \<and> (\<exists>s' r. realizar_conciliacion sesion_ejemplo 2 ''Manual'' = (s', Inr r) \<and> r_rfcs_procesados r = 2)
   \<and> (\<exists>s' r. realizar_conciliacion_dof_proveedores sesion_ejemplo 2 ''Manual'' = (s', Inr r)
         \<and> r_rfcs_procesados r = 2)"
proof -
  have g1: "find (\<lambda>t. t_id t = 2) (tenants (pending sesion_ejemplo)) = Some tenant_2"
    by code_simp
  have g2: "t_plan tenant_2 = Some \<lparr>limite_proveedores = None\<rparr>"
    by code_simp
  have g3: "contar_activos (pending sesion_ejemplo) 2 = 2"
    by code_simp
  have h1: "find (\<lambda>t. t_id t = 3) (tenants (pending sesion_ejemplo)) = Some tenant_3"
    by code_simp
  have h2: "t_plan tenant_3 = None"
    by code_simp
  show ?thesis
    using C7_limite_resuelto [OF h1, of "''Manual''"] C7_limite_resuelto [OF g1, of "''Manual''"]
      h1 h2 g1 g2 g3 by auto
qed

subsection \<open>Detail completeness\<close>

lemma no_encontrados_filas:
  "length [x \<leftarrow> filas_detalle i ds. d_estado x \<noteq> no_encontrado] = length [p \<leftarrow> ds. snd p \<noteq> no_encontrado]"
  by (induction ds) (auto simp: filas_detalle_def)

lemma guardar_contados:
  assumes "h_id h = new_id (pending s)"
  shows "detalles_contados (pending (guardar_conciliacion s h ds)) (new_id (pending s))
           = (length ds = h_rfcs_procesados h \<and> h_coincidencias h \<le> h_rfcs_procesados h)"
    and "coincidencias_contadas (pending (guardar_conciliacion s h ds)) (new_id (pending s))
           = (length [p \<leftarrow> ds. snd p \<noteq> no_encontrado] = h_coincidencias h)"
  using assms
  by (simp_all add: detalles_contados_def coincidencias_contadas_def historial_guardar
        get_by_conciliacion_id_guardar no_encontrados_filas)

lemma crear_detalles_eq:
  "crear_detalles m rfcs acc n
     = (acc @ map (\<lambda>rfc. (rfc, estado_sat m rfc)) rfcs,
        n + length [rfc \<leftarrow> rfcs. estado_sat m rfc \<noteq> no_encontrado])"
  by (induction rfcs arbitrary: acc n) (auto simp: Let_def estado_sat_def)

lemma length_filter_map_snd:
  "length [p \<leftarrow> map (\<lambda>rfc. (rfc, f rfc)) rfcs. snd p \<noteq> c] = length [rfc \<leftarrow> rfcs. f rfc \<noteq> c]"
  by (induction rfcs) auto

lemma detalles_sat_contados:
  "length (fst (detalles_sat s tenant_id tenant)) = length (rfcs_en_cuota s tenant_id tenant)"
  "length [p \<leftarrow> fst (detalles_sat s tenant_id tenant). snd p \<noteq> no_encontrado] = snd (detalles_sat s tenant_id tenant)"
  "snd (detalles_sat s tenant_id tenant) \<le> length (rfcs_en_cuota s tenant_id tenant)"
  by (simp_all add: detalles_sat_def crear_detalles_eq comp_def)

lemma combinar_dof_sat_encontrados:
  "fst (snd (combinar_dof_sat dd pd rfcs acc n1 n2 n3))
     = n1 + length [rfc \<leftarrow> rfcs. dd rfc \<noteq> None \<or> pd rfc \<noteq> None]"
  by (induction rfcs arbitrary: acc n1 n2 n3) (auto split: option.splits)

lemma estado_combinado_centinela:
  "no_encontrado \<notin> ran dd \<Longrightarrow> no_encontrado \<notin> ran pd \<Longrightarrow>
   (estado_combinado dd pd rfc \<noteq> no_encontrado) = (dd rfc \<noteq> None \<or> pd rfc \<noteq> None)"
  by (auto simp: estado_combinado_def ran_def split: option.splits)

lemma ran_dict_of: "ran (dict_of kvs) \<subseteq> snd ` set kvs"
proof (induction kvs rule: rev_induct)
  case Nil
  then show ?case by simp
next
  case (snoc kv kvs)
  obtain a b where kv: "kv = (a, b)" by (cases kv)
  have "ran (dict_of (kvs @ [kv])) \<subseteq> insert b (ran (dict_of kvs))"
    unfolding kv dict_of_snoc by (auto simp: ran_def)
  also have "\<dots> \<subseteq> snd ` set (kvs @ [kv])"
    using snoc by (auto simp: kv)
  finally show ?case .
qed

lemma ran_buscar_en_dof:
  "ran (buscar_en_dof d rfcs) \<subseteq> dof_situacion_contribuyente ` set (dof_contribuyentes d)"
  using ran_dict_of [of "[(dof_rfc c, dof_situacion_contribuyente c). c \<leftarrow> dof_contribuyentes d, dof_rfc c \<in> set rfcs]"]
  by (auto simp: buscar_en_dof_def)

lemma ran_buscar_en_proveedores:
  "ran (buscar_en_proveedores d rfcs) \<subseteq> ran (proveedores d)"
  by (auto simp: buscar_en_proveedores_def ran_def restrict_map_def split: if_splits)

lemma detalles_dof_sat_contados:
  "length (fst (detalles_dof_sat s tenant_id tenant)) = length (rfcs_en_cuota s tenant_id tenant)"
  "fst (snd (detalles_dof_sat s tenant_id tenant)) \<le> length (rfcs_en_cuota s tenant_id tenant)"
  "sin_centinela (pending s) \<Longrightarrow>
     length [p \<leftarrow> fst (detalles_dof_sat s tenant_id tenant). snd p \<noteq> no_encontrado]
       = fst (snd (detalles_dof_sat s tenant_id tenant))"
proof -
  show "length (fst (detalles_dof_sat s tenant_id tenant)) = length (rfcs_en_cuota s tenant_id tenant)"
    by (simp add: detalles_dof_sat_def combinar_dof_sat_detalles)
  show "fst (snd (detalles_dof_sat s tenant_id tenant)) \<le> length (rfcs_en_cuota s tenant_id tenant)"
    by (simp add: detalles_dof_sat_def combinar_dof_sat_encontrados)
  assume sc: "sin_centinela (pending s)"
  let ?rfcs = "rfcs_en_cuota s tenant_id tenant"
  let ?dd = "buscar_en_dof (pending s) ?rfcs"
  let ?pd = "buscar_en_proveedores (pending s) [rfc \<leftarrow> ?rfcs. ?dd rfc = None]"
  have a: "no_encontrado \<notin> ran ?dd"
    using sc ran_buscar_en_dof [of "pending s" ?rfcs] by (auto simp: sin_centinela_def)
  have b: "no_encontrado \<notin> ran ?pd"
    using sc ran_buscar_en_proveedores [of "pending s" "[rfc \<leftarrow> ?rfcs. ?dd rfc = None]"]
    by (auto simp: sin_centinela_def)
  show "length [p \<leftarrow> fst (detalles_dof_sat s tenant_id tenant). snd p \<noteq> no_encontrado]
       = fst (snd (detalles_dof_sat s tenant_id tenant))"
    unfolding detalles_dof_sat_def combinar_dof_sat_detalles combinar_dof_sat_encontrados
    by (simp add: comp_def estado_combinado_centinela [OF a b])
qed

lemma distinct_rfcs_normalizados: "distinct (rfcs_normalizados rfcs)"
  by (simp add: rfcs_normalizados_def)

lemma detalles_especificos_eq:
  "detalles_especificos m rfcs acc = acc @ map (\<lambda>rfc. (rfc, estado_sat m rfc)) rfcs"
  by (induction rfcs arbitrary: acc) (auto simp: estado_sat_def)

lemma consultar_sat_eq:
  "consultar_sat d rfcs = concat (map (\<lambda>rfc. case proveedores d rfc of Some sit \<Rightarrow> [(rfc, sit)] | None \<Rightarrow> []) (remdups rfcs))"
proof -
  have "(\<lambda>rfc. concat (map (\<lambda>situacion. [(rfc, situacion)]) (case proveedores d rfc of None \<Rightarrow> [] | Some sit \<Rightarrow> [sit])))
      = (\<lambda>rfc. case proveedores d rfc of Some sit \<Rightarrow> [(rfc, sit)] | None \<Rightarrow> [])"
    by (auto split: option.splits)
  then show ?thesis by (simp add: consultar_sat_def)
qed

lemma length_consultar_sat_aux:
  "length (concat (map (\<lambda>rfc. case m rfc of Some sit \<Rightarrow> [(rfc, sit)] | None \<Rightarrow> []) xs))
     = length [rfc \<leftarrow> xs. m rfc \<noteq> None]"
  by (induction xs) (auto split: option.splits)

lemma filter_consultar_sat_aux:
  "distinct xs \<Longrightarrow>
   [kv \<leftarrow> concat (map (\<lambda>rfc. case m rfc of Some sit \<Rightarrow> [(rfc, sit)] | None \<Rightarrow> []) xs). fst kv = k]
     = (if k \<in> set xs then (case m k of Some sit \<Rightarrow> [(k, sit)] | None \<Rightarrow> []) else [])"
proof (induction xs)
  case Nil
  then show ?case by simp
next
  case (Cons x xs)
  have "[kv \<leftarrow> (case m x of Some sit \<Rightarrow> [(x, sit)] | None \<Rightarrow> []). fst kv = k]
          = (if x = k then (case m k of Some sit \<Rightarrow> [(k, sit)] | None \<Rightarrow> []) else [])"
    by (auto split: option.splits)
  then show ?case using Cons by auto
qed

lemma dict_of_consultar_sat:
  "k \<in> set rfcs \<Longrightarrow> dict_of (consultar_sat d rfcs) k = proveedores d k"
  unfolding dict_of_last consultar_sat_eq
  by (simp add: filter_consultar_sat_aux split: option.splits)

lemma estado_sat_dict_of_consultar_sat:
  "k \<in> set rfcs \<Longrightarrow> estado_sat (dict_of (consultar_sat d rfcs)) k = estado_sat (proveedores d) k"
  by (simp add: estado_sat_def dict_of_consultar_sat)

lemma conciliar_rfcs_especificos_Nil:
  "conciliar_rfcs_especificos s tenant_id [] tipo
     = (s, Inl (ValueError ''La lista de RFCs no puede estar vacia''))"
  by (simp add: conciliar_rfcs_especificos_def)

lemma rfcs_normalizados_Nil: "(rfcs_normalizados rfcs = []) = (rfcs = [])"
proof -
  have "set (rfcs_normalizados rfcs) = upper_strip ` set rfcs"
    by (simp add: rfcs_normalizados_def)
  then show ?thesis by (metis image_is_empty set_empty)
qed

lemma conciliar_rfcs_especificos_Cons:
  assumes "rfcs \<noteq> []"
  shows "\<exists>h. conciliar_rfcs_especificos s tenant_id rfcs tipo
           = (guardar_conciliacion s h (map (\<lambda>rfc. (rfc, estado_sat (proveedores (pending s)) rfc)) (rfcs_normalizados rfcs)),
              Inr (new_id (pending s)))
         \<and> h_id h = new_id (pending s) \<and> h_tenant_id h = tenant_id \<and> h_tipo_conciliacion h = tipo
         \<and> h_rfcs_procesados h = length (rfcs_normalizados rfcs)
         \<and> h_coincidencias h = length [rfc \<leftarrow> rfcs_normalizados rfcs. proveedores (pending s) rfc \<noteq> None]"
proof -
  let ?n = "rfcs_normalizados rfcs"
  let ?h = "\<lparr>h_id = new_id (pending s), h_tenant_id = tenant_id,
             h_tipo_conciliacion = tipo, h_version_sat = obtener_version_sat (pending s),
             h_rfcs_procesados = length ?n,
             h_coincidencias = length (consultar_sat (pending s) ?n),
             h_estado = ''completado''\<rparr>"
  have ne: "?n \<noteq> []" using assms by (simp add: rfcs_normalizados_Nil)
  have d: "map (\<lambda>rfc. (rfc, estado_sat (dict_of (consultar_sat (pending s) ?n)) rfc)) ?n
         = map (\<lambda>rfc. (rfc, estado_sat (proveedores (pending s)) rfc)) ?n"
    by (simp add: estado_sat_dict_of_consultar_sat)
  have c: "length (consultar_sat (pending s) ?n) = length [rfc \<leftarrow> ?n. proveedores (pending s) rfc \<noteq> None]"
    by (simp add: consultar_sat_eq length_consultar_sat_aux distinct_remdups_id distinct_rfcs_normalizados)
  have step1: "conciliar_rfcs_especificos s tenant_id rfcs tipo
           = (guardar_conciliacion s ?h (detalles_especificos (dict_of (consultar_sat (pending s) ?n)) ?n []),
              Inr (new_id (pending s)))"
    using ne unfolding conciliar_rfcs_especificos_def rfcs_normalizados_def [symmetric]
    by (simp add: Let_def)
  have step2: "detalles_especificos (dict_of (consultar_sat (pending s) ?n)) ?n []
           = map (\<lambda>rfc. (rfc, estado_sat (proveedores (pending s)) rfc)) ?n"
    by (simp only: detalles_especificos_eq append_Nil d)
  have "conciliar_rfcs_especificos s tenant_id rfcs tipo
           = (guardar_conciliacion s ?h (map (\<lambda>rfc. (rfc, estado_sat (proveedores (pending s)) rfc)) ?n),
              Inr (new_id (pending s)))"
    using step1 by (simp only: step2)
  then show ?thesis using c by (intro exI [of _ ?h]) simp
qed

lemma realizar_conciliacion_None:
  "find (\<lambda>t. t_id t = tenant_id) (tenants (pending s)) = None \<Longrightarrow>
   realizar_conciliacion s tenant_id tipo = (s, Inl (tenant_no_encontrado tenant_id))"
  by (simp add: realizar_conciliacion_def)

lemma realizar_conciliacion_dof_None:
  "find (\<lambda>t. t_id t = tenant_id) (tenants (pending s)) = None \<Longrightarrow>
   realizar_conciliacion_dof_proveedores s tenant_id tipo = (s, Inl (tenant_no_encontrado tenant_id))"
  by (simp add: realizar_conciliacion_dof_proveedores_def)

text \<open>
  Against C4 as stated: the directory of \<open>sesion_centinela\<close> holds the RFC with the
  sentinel text as its status.  The run of \<open>conciliar_rfcs_especificos\<close> records one
  match, and its only detail row has the sentinel as state.
\<close>

theorem C4_counterexample:
  "snd (conciliar_rfcs_especificos sesion_centinela 1 [rfc_a] ''Excedentes - Pago'') = Inr 16
   \<and> map h_coincidencias
        [h \<leftarrow> conciliacion_historial (pending (fst (conciliar_rfcs_especificos sesion_centinela 1 [rfc_a] ''Excedentes - Pago''))).
           h_id h = 16] = [1]
   \<and> map d_estado (get_by_conciliacion_id
        (pending (fst (conciliar_rfcs_especificos sesion_centinela 1 [rfc_a] ''Excedentes - Pago''))) 16)
       = [no_encontrado]
   \<and> \<not> coincidencias_contadas
          (pending (fst (conciliar_rfcs_especificos sesion_centinela 1 [rfc_a] ''Excedentes - Pago''))) 16"
  by code_simp

text \<open>
  C4, amended.  For every run any of the three operations returns, the detail rows of the
  run are as many as its \<open>rfcs_procesados\<close> and its \<open>coincidencias\<close> is at most
  \<open>rfcs_procesados\<close>.  The detail rows whose state differs from the sentinel are as
  many as \<open>coincidencias\<close> for \<open>realizar_conciliacion\<close> always, and for the DOF variant
  and \<open>conciliar_rfcs_especificos\<close> when no directory row has the sentinel text as status.
\<close>

theorem C4_detalle_completo:
  "(\<forall>s' r. realizar_conciliacion s tenant_id tipo = (s', Inr r) \<longrightarrow>
      detalles_contados (pending s') (r_historial_id r)
      \<and> coincidencias_contadas (pending s') (r_historial_id r))
   \<and> (\<forall>s' r. realizar_conciliacion_dof_proveedores s tenant_id tipo = (s', Inr r) \<longrightarrow>
      detalles_contados (pending s') (r_historial_id r)
      \<and> (sin_centinela (pending s) \<longrightarrow> coincidencias_contadas (pending s') (r_historial_id r)))
   \<and> (\<forall>s' hid. conciliar_rfcs_especificos s tenant_id rfcs tipo = (s', Inr hid) \<longrightarrow>
      detalles_contados (pending s') hid
      \<and> (sin_centinela (pending s) \<longrightarrow> coincidencias_contadas (pending s') hid))"
proof (intro conjI allI impI)
  fix s' r
  assume a: "realizar_conciliacion s tenant_id tipo = (s', Inr r)"
  then obtain tenant where t: "find (\<lambda>t. t_id t = tenant_id) (tenants (pending s)) = Some tenant"
    using realizar_conciliacion_None [of tenant_id s tipo] by (cases "find (\<lambda>t. t_id t = tenant_id) (tenants (pending s))") auto
  obtain h r' where hr: "realizar_conciliacion s tenant_id tipo
            = (guardar_conciliacion s h (fst (detalles_sat s tenant_id tenant)), Inr r')"
      "h_id h = new_id (pending s)" "r_historial_id r' = new_id (pending s)"
      "h_rfcs_procesados h = length (rfcs_en_cuota s tenant_id tenant)"
      "h_coincidencias h = snd (detalles_sat s tenant_id tenant)"
    using realizar_conciliacion_Some [OF t] by blast
  have eq: "s' = guardar_conciliacion s h (fst (detalles_sat s tenant_id tenant))" "r_historial_id r = new_id (pending s)"
    using a hr(1,3) by auto
  show "detalles_contados (pending s') (r_historial_id r)"
    unfolding eq using hr(4,5) by (simp add: guardar_contados(1) [OF hr(2)] detalles_sat_contados)
  show "coincidencias_contadas (pending s') (r_historial_id r)"
    unfolding eq using hr(4,5) by (simp add: guardar_contados(2) [OF hr(2)] detalles_sat_contados)
next
  fix s' r
  assume a: "realizar_conciliacion_dof_proveedores s tenant_id tipo = (s', Inr r)"
  then obtain tenant where t: "find (\<lambda>t. t_id t = tenant_id) (tenants (pending s)) = Some tenant"
    using realizar_conciliacion_dof_None [of tenant_id s tipo] by (cases "find (\<lambda>t. t_id t = tenant_id) (tenants (pending s))") auto
  have ne: "rfcs_en_cuota s tenant_id tenant \<noteq> []"
    using a realizar_conciliacion_dof_vacio [OF t, of tipo] by auto
  obtain h r' where hr: "realizar_conciliacion_dof_proveedores s tenant_id tipo
            = (guardar_conciliacion s h (fst (detalles_dof_sat s tenant_id tenant)), Inr r')"
      "h_id h = new_id (pending s)" "r_historial_id r' = new_id (pending s)"
      "h_rfcs_procesados h = length (rfcs_en_cuota s tenant_id tenant)"
      "h_coincidencias h = fst (snd (detalles_dof_sat s tenant_id tenant))"
    using realizar_conciliacion_dof_Some [OF t ne] by blast
  have eq: "s' = guardar_conciliacion s h (fst (detalles_dof_sat s tenant_id tenant))" "r_historial_id r = new_id (pending s)"
    using a hr(1,3) by auto
  show "detalles_contados (pending s') (r_historial_id r)"
    unfolding eq using hr(4,5) by (simp add: guardar_contados(1) [OF hr(2)] detalles_dof_sat_contados)
  assume "sin_centinela (pending s)"
  then show "coincidencias_contadas (pending s') (r_historial_id r)"
    unfolding eq using hr(4,5) by (simp add: guardar_contados(2) [OF hr(2)] detalles_dof_sat_contados)
next
  fix s' hid
  assume a: "conciliar_rfcs_especificos s tenant_id rfcs tipo = (s', Inr hid)"
  then have ne: "rfcs \<noteq> []" using conciliar_rfcs_especificos_Nil [of s tenant_id tipo] by auto
  let ?ds = "map (\<lambda>rfc. (rfc, estado_sat (proveedores (pending s)) rfc)) (rfcs_normalizados rfcs)"
  obtain h where hr: "conciliar_rfcs_especificos s tenant_id rfcs tipo
           = (guardar_conciliacion s h ?ds, Inr (new_id (pending s)))"
       "h_id h = new_id (pending s)"
       "h_rfcs_procesados h = length (rfcs_normalizados rfcs)"
       "h_coincidencias h = length [rfc \<leftarrow> rfcs_normalizados rfcs. proveedores (pending s) rfc \<noteq> None]"
    using conciliar_rfcs_especificos_Cons [OF ne] by blast
  have eq: "s' = guardar_conciliacion s h ?ds" "hid = new_id (pending s)"
    using a hr(1) by auto
  show "detalles_contados (pending s') hid"
    unfolding eq using hr(3,4) by (simp add: guardar_contados(1) [OF hr(2)])
  assume sc: "sin_centinela (pending s)"
  have "(estado_sat (proveedores (pending s)) rfc \<noteq> no_encontrado) = (proveedores (pending s) rfc \<noteq> None)" for rfc
    using sc by (auto simp: sin_centinela_def estado_sat_def ran_def split: option.splits)
  then show "coincidencias_contadas (pending s') hid"
    unfolding eq using hr(3,4) by (simp add: guardar_contados(2) [OF hr(2)] comp_def)
qed

theorem C4_detalle_completo_witness:
  "sin_centinela (pending sesion_ejemplo)
   \<and> (\<exists>s' r. realizar_conciliacion sesion_ejemplo 1 ''Manual'' = (s', Inr r)
         \<and> detalles_contados (pending s') (r_historial_id r)
         \<and> coincidencias_contadas (pending s') (r_historial_id r))
   \<and> (\<exists>s' r. realizar_conciliacion_dof_proveedores sesion_ejemplo 1 ''DOF + SAT'' = (s', Inr r)
         \<and> detalles_contados (pending s') (r_historial_id r)
         \<and> coincidencias_contadas (pending s') (r_historial_id r))
   \<and> (\<exists>s' hid. conciliar_rfcs_especificos sesion_ejemplo 1 [rfc_a, rfc_c] ''Excedentes - Pago'' = (s', Inr hid)
         \<and> detalles_contados (pending s') hid
         \<and> coincidencias_contadas (pending s') hid)"
proof -
  have sc: "sin_centinela (pending sesion_ejemplo)"
    by (auto simp: sin_centinela_def sesion_ejemplo_def db_ejemplo_def no_encontrado_def ran_def split: if_splits)
  have h1: "find (\<lambda>t. t_id t = 1) (tenants (pending sesion_ejemplo)) = Some tenant_1"
    by code_simp
  have h2: "rfcs_en_cuota sesion_ejemplo 1 tenant_1 \<noteq> []"
    by code_simp
  obtain s1 r1 where 1: "realizar_conciliacion sesion_ejemplo 1 ''Manual'' = (s1, Inr r1)"
    using realizar_conciliacion_run [OF h1] by blast
  obtain s2 r2 where 2: "realizar_conciliacion_dof_proveedores sesion_ejemplo 1 ''DOF + SAT'' = (s2, Inr r2)"
    using realizar_conciliacion_dof_run [OF h1 h2] by blast
  obtain h3 where 3: "conciliar_rfcs_especificos sesion_ejemplo 1 [rfc_a, rfc_c] ''Excedentes - Pago''
      = (guardar_conciliacion sesion_ejemplo h3
           (map (\<lambda>rfc. (rfc, estado_sat (proveedores (pending sesion_ejemplo)) rfc)) (rfcs_normalizados [rfc_a, rfc_c])),
         Inr (new_id (pending sesion_ejemplo)))"
    using conciliar_rfcs_especificos_Cons [of "[rfc_a, rfc_c]" sesion_ejemplo 1 "''Excedentes - Pago''"] by blast
  note c4a = C4_detalle_completo [of sesion_ejemplo 1 "''Manual''" "[rfc_a, rfc_c]"]
  note c4b = C4_detalle_completo [of sesion_ejemplo 1 "''DOF + SAT''" "[rfc_a, rfc_c]"]
  note c4c = C4_detalle_completo [of sesion_ejemplo 1 "''Excedentes - Pago''" "[rfc_a, rfc_c]"]
  show ?thesis
    using sc 1 2 3 c4a c4b c4c by blast
qed

subsection \<open>Reconciliation of specific RFCs\<close>

text \<open>
  Against C6 as stated: an input list of two entries that are the same RFC gets one
  detail row, not two.
\<close>

theorem C6_counterexample:
  "length [rfc_a, rfc_a] = 2
   \<and> snd (conciliar_rfcs_especificos sesion_ejemplo 1 [rfc_a, rfc_a] ''Excedentes - Pago'') = Inr 16
   \<and> map d_rfc (get_by_conciliacion_id
        (pending (fst (conciliar_rfcs_especificos sesion_ejemplo 1 [rfc_a, rfc_a] ''Excedentes - Pago''))) 16)
       = [rfc_a]"
  by code_simp

text \<open>
  C6, amended.  An empty list raises the ValueError and leaves the session as it was (no
  run, no detail row); the normalised list is empty only then.  Any other list returns
  the id of exactly one new run and adds one detail row per distinct normalised RFC of
  the input, in sorted order (one per input entry when the entries are distinct after
  normalisation), without quota filtering; each state is the Supplier Directory's status
  of the RFC, the Gazette is not read, and an RFC without a row gets the sentinel.
\<close>

theorem C6_rfcs_especificos:
  "(rfcs = [] \<longrightarrow>
      conciliar_rfcs_especificos s tenant_id rfcs tipo
        = (s, Inl (ValueError ''La lista de RFCs no puede estar vacia'')))
   \<and> (rfcs \<noteq> [] \<longrightarrow>
        (\<exists>s' h. conciliar_rfcs_especificos s tenant_id rfcs tipo = (s', Inr (h_id h))
           \<and> h_id h = new_id (pending s) \<and> h_tenant_id h = tenant_id \<and> h_tipo_conciliacion h = tipo
           \<and> h_rfcs_procesados h = length (rfcs_normalizados rfcs)
           \<and> conciliacion_historial (pending s') = conciliacion_historial (pending s) @ [h]
           \<and> resultado_conciliaciones (pending s')
               = resultado_conciliaciones (pending s)
                 @ map (\<lambda>rfc. \<lparr>d_conciliacion_id = h_id h, d_rfc = rfc,
                               d_estado = (case proveedores (pending s) rfc of
                                             Some situacion \<Rightarrow> situacion | None \<Rightarrow> no_encontrado)\<rparr>)
                     (rfcs_normalizados rfcs)
           \<and> committed s' = committed s))
   \<and> distinct (rfcs_normalizados rfcs)
   \<and> set (rfcs_normalizados rfcs) = upper_strip ` set rfcs
   \<and> (distinct (map upper_strip rfcs) \<longrightarrow> length (rfcs_normalizados rfcs) = length rfcs)"
proof (intro conjI impI)
  assume "rfcs = []"
  then show "conciliar_rfcs_especificos s tenant_id rfcs tipo
        = (s, Inl (ValueError ''La lista de RFCs no puede estar vacia''))"
    by (simp add: conciliar_rfcs_especificos_Nil)
next
  assume ne: "rfcs \<noteq> []"
  let ?ds = "map (\<lambda>rfc. (rfc, estado_sat (proveedores (pending s)) rfc)) (rfcs_normalizados rfcs)"
  obtain h where hr: "conciliar_rfcs_especificos s tenant_id rfcs tipo
           = (guardar_conciliacion s h ?ds, Inr (new_id (pending s)))"
       "h_id h = new_id (pending s)" "h_tenant_id h = tenant_id" "h_tipo_conciliacion h = tipo"
       "h_rfcs_procesados h = length (rfcs_normalizados rfcs)"
    using conciliar_rfcs_especificos_Cons [OF ne] by blast
  have "filas_detalle (h_id h) ?ds
          = map (\<lambda>rfc. \<lparr>d_conciliacion_id = h_id h, d_rfc = rfc,
                               d_estado = (case proveedores (pending s) rfc of
                                             Some situacion \<Rightarrow> situacion | None \<Rightarrow> no_encontrado)\<rparr>)
                     (rfcs_normalizados rfcs)"
    by (simp add: filas_detalle_def estado_sat_def comp_def)
  then have "conciliar_rfcs_especificos s tenant_id rfcs tipo = (guardar_conciliacion s h ?ds, Inr (h_id h))
           \<and> h_id h = new_id (pending s) \<and> h_tenant_id h = tenant_id \<and> h_tipo_conciliacion h = tipo
           \<and> h_rfcs_procesados h = length (rfcs_normalizados rfcs)
           \<and> conciliacion_historial (pending (guardar_conciliacion s h ?ds)) = conciliacion_historial (pending s) @ [h]
           \<and> resultado_conciliaciones (pending (guardar_conciliacion s h ?ds))
               = resultado_conciliaciones (pending s)
                 @ map (\<lambda>rfc. \<lparr>d_conciliacion_id = h_id h, d_rfc = rfc,
                               d_estado = (case proveedores (pending s) rfc of
                                             Some situacion \<Rightarrow> situacion | None \<Rightarrow> no_encontrado)\<rparr>)
                     (rfcs_normalizados rfcs)
           \<and> committed (guardar_conciliacion s h ?ds) = committed s"
    using hr by (simp add: guardar_conciliacion_def)
  then show "\<exists>s' h. conciliar_rfcs_especificos s tenant_id rfcs tipo = (s', Inr (h_id h))
           \<and> h_id h = new_id (pending s) \<and> h_tenant_id h = tenant_id \<and> h_tipo_conciliacion h = tipo
           \<and> h_rfcs_procesados h = length (rfcs_normalizados rfcs)
           \<and> conciliacion_historial (pending s') = conciliacion_historial (pending s) @ [h]
           \<and> resultado_conciliaciones (pending s')
               = resultado_conciliaciones (pending s)
                 @ map (\<lambda>rfc. \<lparr>d_conciliacion_id = h_id h, d_rfc = rfc,
                               d_estado = (case proveedores (pending s) rfc of
                                             Some situacion \<Rightarrow> situacion | None \<Rightarrow> no_encontrado)\<rparr>)
                     (rfcs_normalizados rfcs)
           \<and> committed s' = committed s"
    by blast
next
  show "distinct (rfcs_normalizados rfcs)" by (rule distinct_rfcs_normalizados)
  show "set (rfcs_normalizados rfcs) = upper_strip ` set rfcs" by (simp add: rfcs_normalizados_def)
next
  assume "distinct (map upper_strip rfcs)"
  then show "length (rfcs_normalizados rfcs) = length rfcs"
    by (simp add: rfcs_normalizados_def distinct_remdups_id)
qed

theorem C6_rfcs_especificos_witness:
  "conciliar_rfcs_especificos sesion_ejemplo 1 [] ''Excedentes - Pago''
     = (sesion_ejemplo, Inl (ValueError ''La lista de RFCs no puede estar vacia''))
   \<and> [''ccc010101cc1 '', rfc_a] \<noteq> []
   \<and> distinct (map upper_strip [''ccc010101cc1 '', rfc_a])
   \<and> rfcs_normalizados [''ccc010101cc1 '', rfc_a] = [rfc_a, rfc_c]
   \<and> (\<exists>s' h. conciliar_rfcs_especificos sesion_ejemplo 1 [''ccc010101cc1 '', rfc_a] ''Excedentes - Pago''
                = (s', Inr (h_id h))
         \<and> conciliacion_historial (pending s') = conciliacion_historial (pending sesion_ejemplo) @ [h]
         \<and> resultado_conciliaciones (pending s')
             = resultado_conciliaciones (pending sesion_ejemplo)
               @ [\<lparr>d_conciliacion_id = h_id h, d_rfc = rfc_a, d_estado = ''Presunto''\<rparr>,
                  \<lparr>d_conciliacion_id = h_id h, d_rfc = rfc_c, d_estado = no_encontrado\<rparr>])"
proof -
  have n: "rfcs_normalizados [''ccc010101cc1 '', rfc_a] = [rfc_a, rfc_c]"
    by code_simp
  have d: "distinct (map upper_strip [''ccc010101cc1 '', rfc_a])"
    by code_simp
  have p: "proveedores (pending sesion_ejemplo) rfc_a = Some ''Presunto''"
    "proveedores (pending sesion_ejemplo) rfc_c = None"
    by code_simp+
  show ?thesis
    using C6_rfcs_especificos [of "[]" sesion_ejemplo 1 "''Excedentes - Pago''"]
      C6_rfcs_especificos [of "[''ccc010101cc1 '', rfc_a]" sesion_ejemplo 1 "''Excedentes - Pago''"]
      d p
    unfolding n by auto
qed

subsection \<open>The fleet runner\<close>





lemma entrada_fallida_error [simp]: "entrada_fallida tipo (resultado_error t tipo e)"
  by (simp add: entrada_fallida_def resultado_error_def)

lemma historial_exitoso [simp]: "ri_historial_id (resultado_exitoso t r) = Some (r_historial_id r)"
  by (simp add: resultado_exitoso_def)

lemma historial_error [simp]: "ri_historial_id (resultado_error t tipo e) = None"
  by (simp add: resultado_error_def)

lemma tenant_exitoso [simp]: "ri_tenant_id (resultado_exitoso t r) = t_id t"
  by (simp add: resultado_exitoso_def)

lemma tenant_error [simp]: "ri_tenant_id (resultado_error t tipo e) = t_id t"
  by (simp add: resultado_error_def)












subsection \<open>Activation and deactivation\<close>

lemma find_asignar_activo:
  "find (\<lambda>tp. tp_tenant_id tp = t \<and> tp_rfc tp = r) rows = Some rel \<Longrightarrow>
   find (\<lambda>tp. tp_tenant_id tp = t \<and> tp_rfc tp = r) (asignar_activo t r a rows) = Some (rel\<lparr>tp_activo := a\<rparr>)"
  by (induction rows) (auto split: if_splits)

lemma actualizar_sin_verificacion:
  assumes "get_by_tenant_and_rfc s tenant_id rfc = Some relation"
    and "verificar_burst s tenant_id relation activo = None"
  shows "\<exists>s' res. actualizar_estado_operativo_rfc s tenant_id rfc activo = (s', Inr (Some res))
           \<and> eo_activo res = activo \<and> eo_rfc res = tp_rfc relation
           \<and> get_by_tenant_and_rfc s' tenant_id rfc = Some (relation\<lparr>tp_activo := activo\<rparr>)
           \<and> committed s' = pending s'"
  using assms find_asignar_activo [of tenant_id "upper_strip rfc" "tenant_proveedores (pending s)" relation activo]
  by (simp add: actualizar_estado_operativo_rfc_def get_by_tenant_and_rfc_def Let_def commit_def)

lemma verificar_burst_desactivar: "verificar_burst s tenant_id relation False = None"
  by (simp add: verificar_burst_def)

lemma verificar_burst_limite:
  assumes "\<not> tp_activo relation"
    and "find (\<lambda>t. t_id t = tenant_id) (tenants (pending s)) = Some tenant"
    and "t_plan tenant = Some plan" and "limite_proveedores plan = Some L"
  shows "verificar_burst s tenant_id relation True
           = (if limite_burst L \<le> contar_activos (pending s) tenant_id then Some no_se_puede_activar else None)"
  using assms by (simp add: verificar_burst_def no_se_puede_activar_def)

lemma verificar_burst_sin_limite:
  assumes "\<not> tp_activo relation"
    and "find (\<lambda>t. t_id t = tenant_id) (tenants (pending s)) = Some tenant"
    and "t_plan tenant = Some plan" and "limite_proveedores plan = None"
  shows "verificar_burst s tenant_id relation True = Some (Exception ''TypeError'')"
  using assms by (simp add: verificar_burst_def)

lemma verificar_burst_sin_plan:
  assumes "find (\<lambda>t. t_id t = tenant_id) (tenants (pending s)) = Some tenant"
    and "t_plan tenant = None"
  shows "verificar_burst s tenant_id relation True = None"
  using assms by (simp add: verificar_burst_def)

text \<open>
  C9 (re-activation check).  For a membership the query finds, with \<open>A\<close> the number of
  active memberships of the tenant at the call.  Activating it while it is inactive, for
  a tenant whose plan has the limit \<open>L\<close>: when \<open>A\<close> has reached the ceiling
  \<open>L + (15 * L) div 100\<close> the call raises the validation error and only rolls the session
  back, so the committed tables are as before (and the session itself when it had no
  pending change) and the flag stays as it was; below the ceiling the membership becomes
  active and the change is committed.  For a tenant whose plan has no limit the product
  raises a \<open>TypeError\<close> that the handler turns into a rollback and the result \<open>None\<close>: no
  validation error is raised and the membership is not activated.  For a tenant without
  plan the membership is activated without check.  Deactivating never looks at the limit:
  the membership becomes inactive and the change is committed.
\<close>

theorem C9_reactivacion:
  assumes "get_by_tenant_and_rfc s tenant_id rfc = Some relation"
  shows "(\<not> tp_activo relation \<and> find (\<lambda>t. t_id t = tenant_id) (tenants (pending s)) = Some tenant
            \<and> t_plan tenant = Some plan \<and> limite_proveedores plan = Some L \<longrightarrow>
            (L + (L * 15) div 100
                \<le> length [tp \<leftarrow> tenant_proveedores (pending s). tp_tenant_id tp = tenant_id \<and> tp_activo tp] \<longrightarrow>
               actualizar_estado_operativo_rfc s tenant_id rfc True = (rollback s, Inl no_se_puede_activar)
               \<and> committed (rollback s) = committed s
               \<and> (pending s = committed s \<longrightarrow> rollback s = s))
          \<and> (length [tp \<leftarrow> tenant_proveedores (pending s). tp_tenant_id tp = tenant_id \<and> tp_activo tp]
                < L + (L * 15) div 100 \<longrightarrow>
               (\<exists>s' res. actualizar_estado_operativo_rfc s tenant_id rfc True = (s', Inr (Some res))
                  \<and> eo_activo res \<and> eo_rfc res = tp_rfc relation
                  \<and> get_by_tenant_and_rfc s' tenant_id rfc = Some (relation\<lparr>tp_activo := True\<rparr>)
                  \<and> committed s' = pending s')))
       \<and> (\<not> tp_activo relation \<and> find (\<lambda>t. t_id t = tenant_id) (tenants (pending s)) = Some tenant
            \<and> t_plan tenant = Some plan \<and> limite_proveedores plan = None \<longrightarrow>
            actualizar_estado_operativo_rfc s tenant_id rfc True = (rollback s, Inr None)
            \<and> committed (rollback s) = committed s
            \<and> (pending s = committed s \<longrightarrow> rollback s = s))
       \<and> (\<not> tp_activo relation \<and> find (\<lambda>t. t_id t = tenant_id) (tenants (pending s)) = Some tenant
            \<and> t_plan tenant = None \<longrightarrow>
            (\<exists>s' res. actualizar_estado_operativo_rfc s tenant_id rfc True = (s', Inr (Some res))
               \<and> eo_activo res \<and> eo_rfc res = tp_rfc relation
               \<and> get_by_tenant_and_rfc s' tenant_id rfc = Some (relation\<lparr>tp_activo := True\<rparr>)
               \<and> committed s' = pending s'))
       \<and> (\<exists>s' res. actualizar_estado_operativo_rfc s tenant_id rfc False = (s', Inr (Some res))
              \<and> \<not> eo_activo res \<and> eo_rfc res = tp_rfc relation
              \<and> get_by_tenant_and_rfc s' tenant_id rfc = Some (relation\<lparr>tp_activo := False\<rparr>)
              \<and> committed s' = pending s')"
proof -
  let ?A = "length [tp \<leftarrow> tenant_proveedores (pending s). tp_tenant_id tp = tenant_id \<and> tp_activo tp]"
  let ?B = "L + (L * 15) div 100"
  have A: "contar_activos (pending s) tenant_id = ?A" by (simp add: contar_activos_def)
  have B: "limite_burst L = ?B" by (simp add: limite_burst_def)
  have r: "committed (rollback s) = committed s" "pending s = committed s \<longrightarrow> rollback s = s"
    by (simp_all add: rollback_def)
  have p1: "(?B \<le> ?A \<longrightarrow>
               actualizar_estado_operativo_rfc s tenant_id rfc True = (rollback s, Inl no_se_puede_activar)
               \<and> committed (rollback s) = committed s
               \<and> (pending s = committed s \<longrightarrow> rollback s = s))
          \<and> (?A < ?B \<longrightarrow>
               (\<exists>s' res. actualizar_estado_operativo_rfc s tenant_id rfc True = (s', Inr (Some res))
                  \<and> eo_activo res \<and> eo_rfc res = tp_rfc relation
                  \<and> get_by_tenant_and_rfc s' tenant_id rfc = Some (relation\<lparr>tp_activo := True\<rparr>)
                  \<and> committed s' = pending s'))"
    if a: "\<not> tp_activo relation \<and> find (\<lambda>t. t_id t = tenant_id) (tenants (pending s)) = Some tenant
            \<and> t_plan tenant = Some plan \<and> limite_proveedores plan = Some L"
  proof (intro conjI impI)
    have v: "verificar_burst s tenant_id relation True = (if ?B \<le> ?A then Some no_se_puede_activar else None)"
      using a verificar_burst_limite [of relation tenant_id s tenant plan L] unfolding A B by blast
    {
      assume "?B \<le> ?A"
      then show "actualizar_estado_operativo_rfc s tenant_id rfc True = (rollback s, Inl no_se_puede_activar)"
        using assms v by (simp add: actualizar_estado_operativo_rfc_def no_se_puede_activar_def)
      show "committed (rollback s) = committed s" by (rule r(1))
      assume "pending s = committed s"
      then show "rollback s = s" using r(2) by simp
    }
    assume "?A < ?B"
    then have "verificar_burst s tenant_id relation True = None" using v by simp
    then show "\<exists>s' res. actualizar_estado_operativo_rfc s tenant_id rfc True = (s', Inr (Some res))
                  \<and> eo_activo res \<and> eo_rfc res = tp_rfc relation
                  \<and> get_by_tenant_and_rfc s' tenant_id rfc = Some (relation\<lparr>tp_activo := True\<rparr>)
                  \<and> committed s' = pending s'"
      using actualizar_sin_verificacion [OF assms, of True] by auto
  qed
  have p2: "actualizar_estado_operativo_rfc s tenant_id rfc True = (rollback s, Inr None)
            \<and> committed (rollback s) = committed s
            \<and> (pending s = committed s \<longrightarrow> rollback s = s)"
    if a: "\<not> tp_activo relation \<and> find (\<lambda>t. t_id t = tenant_id) (tenants (pending s)) = Some tenant
            \<and> t_plan tenant = Some plan \<and> limite_proveedores plan = None"
  proof -
    have "verificar_burst s tenant_id relation True = Some (Exception ''TypeError'')"
      using a verificar_burst_sin_limite by blast
    then have "actualizar_estado_operativo_rfc s tenant_id rfc True = (rollback s, Inr None)"
      using assms by (simp add: actualizar_estado_operativo_rfc_def)
    then show ?thesis using r by simp
  qed
  have p3: "\<exists>s' res. actualizar_estado_operativo_rfc s tenant_id rfc True = (s', Inr (Some res))
               \<and> eo_activo res \<and> eo_rfc res = tp_rfc relation
               \<and> get_by_tenant_and_rfc s' tenant_id rfc = Some (relation\<lparr>tp_activo := True\<rparr>)
               \<and> committed s' = pending s'"
    if a: "\<not> tp_activo relation \<and> find (\<lambda>t. t_id t = tenant_id) (tenants (pending s)) = Some tenant
            \<and> t_plan tenant = None"
  proof -
    have "verificar_burst s tenant_id relation True = None"
      using a verificar_burst_sin_plan by blast
    then show ?thesis using actualizar_sin_verificacion [OF assms, of True] by auto
  qed
  have p4: "\<exists>s' res. actualizar_estado_operativo_rfc s tenant_id rfc False = (s', Inr (Some res))
              \<and> \<not> eo_activo res \<and> eo_rfc res = tp_rfc relation
              \<and> get_by_tenant_and_rfc s' tenant_id rfc = Some (relation\<lparr>tp_activo := False\<rparr>)
              \<and> committed s' = pending s'"
    using actualizar_sin_verificacion [OF assms verificar_burst_desactivar] by auto
  show ?thesis using p1 p2 p3 p4 by blast
qed

theorem C9_reactivacion_witness:
  "get_by_tenant_and_rfc sesion_cuota 1 '' ccc010101cc1'' = Some (relacion 12 1 rfc_c False 5)
   \<and> find (\<lambda>t. t_id t = 1) (tenants (pending sesion_cuota)) = Some tenant_1
   \<and> t_plan tenant_1 = Some \<lparr>limite_proveedores = Some 2\<rparr>
   \<and> length [tp \<leftarrow> tenant_proveedores (pending sesion_cuota). tp_tenant_id tp = 1 \<and> tp_activo tp] = 3
   \<and> actualizar_estado_operativo_rfc sesion_cuota 1 '' ccc010101cc1'' True
        = (sesion_cuota, Inl no_se_puede_activar)
   \<and> get_by_tenant_and_rfc sesion_cuota 5 '' ccc010101cc1'' = Some (relacion 22 5 rfc_c False 3)
   \<and> find (\<lambda>t. t_id t = 5) (tenants (pending sesion_cuota)) = Some tenant_5
   \<and> t_plan tenant_5 = Some \<lparr>limite_proveedores = Some 4\<rparr>
   \<and> length [tp \<leftarrow> tenant_proveedores (pending sesion_cuota). tp_tenant_id tp = 5 \<and> tp_activo tp] = 3
   \<and> (\<exists>s' res. actualizar_estado_operativo_rfc sesion_cuota 5 '' ccc010101cc1'' True = (s', Inr (Some res))
         \<and> eo_activo res
         \<and> get_by_tenant_and_rfc s' 5 '' ccc010101cc1'' = Some (relacion 22 5 rfc_c True 3))
   \<and> (\<exists>s' res. actualizar_estado_operativo_rfc sesion_cuota 5 '' ccc010101cc1'' False = (s', Inr (Some res))
         \<and> \<not> eo_activo res
         \<and> get_by_tenant_and_rfc s' 5 '' ccc010101cc1'' = Some (relacion 22 5 rfc_c False 3))
   \<and> get_by_tenant_and_rfc sesion_cuota 2 ''bbb010101bb1'' = Some (relacion 24 2 rfc_b False 5)
   \<and> find (\<lambda>t. t_id t = 2) (tenants (pending sesion_cuota)) = Some tenant_2
   \<and> t_plan tenant_2 = Some \<lparr>limite_proveedores = None\<rparr>
   \<and> actualizar_estado_operativo_rfc sesion_cuota 2 ''bbb010101bb1'' True = (sesion_cuota, Inr None)
   \<and> get_by_tenant_and_rfc sesion_cuota 3 ''aaa010101aa1'' = Some (relacion 25 3 rfc_a False 6)
   \<and> find (\<lambda>t. t_id t = 3) (tenants (pending sesion_cuota)) = Some tenant_3
   \<and> t_plan tenant_3 = None
   \<and> (\<exists>s' res. actualizar_estado_operativo_rfc sesion_cuota 3 ''aaa010101aa1'' True = (s', Inr (Some res))
         \<and> eo_activo res
         \<and> get_by_tenant_and_rfc s' 3 ''aaa010101aa1'' = Some (relacion 25 3 rfc_a True 6))"
proof -
  have a1: "get_by_tenant_and_rfc sesion_cuota 1 '' ccc010101cc1'' = Some (relacion 12 1 rfc_c False 5)"
    by code_simp
  have a2: "find (\<lambda>t. t_id t = 1) (tenants (pending sesion_cuota)) = Some tenant_1"
    by code_simp
  have a3: "\<not> tp_activo (relacion 12 1 rfc_c False 5)" "t_plan tenant_1 = Some \<lparr>limite_proveedores = Some 2\<rparr>"
    "limite_proveedores \<lparr>limite_proveedores = Some 2\<rparr> = Some 2"
    by code_simp+
  have a4: "length [tp \<leftarrow> tenant_proveedores (pending sesion_cuota). tp_tenant_id tp = 1 \<and> tp_activo tp] = 3"
    by code_simp
  have a5: "pending sesion_cuota = committed sesion_cuota"
    by (simp add: sesion_cuota_def)
  have b1: "get_by_tenant_and_rfc sesion_cuota 5 '' ccc010101cc1'' = Some (relacion 22 5 rfc_c False 3)"
    by code_simp
  have b2: "find (\<lambda>t. t_id t = 5) (tenants (pending sesion_cuota)) = Some tenant_5"
    by code_simp
  have b3: "\<not> tp_activo (relacion 22 5 rfc_c False 3)" "t_plan tenant_5 = Some \<lparr>limite_proveedores = Some 4\<rparr>"
    "limite_proveedores \<lparr>limite_proveedores = Some 4\<rparr> = Some 4"
    by code_simp+
  have b4: "length [tp \<leftarrow> tenant_proveedores (pending sesion_cuota). tp_tenant_id tp = 5 \<and> tp_activo tp] = 3"
    by code_simp
  have b5: "relacion 22 5 rfc_c False 3\<lparr>tp_activo := True\<rparr> = relacion 22 5 rfc_c True 3"
    "relacion 22 5 rfc_c False 3\<lparr>tp_activo := False\<rparr> = relacion 22 5 rfc_c False 3"
    by (simp_all add: relacion_def)
  have d1: "get_by_tenant_and_rfc sesion_cuota 2 ''bbb010101bb1'' = Some (relacion 24 2 rfc_b False 5)"
    by code_simp
  have d2: "find (\<lambda>t. t_id t = 2) (tenants (pending sesion_cuota)) = Some tenant_2"
    by code_simp
  have d3: "\<not> tp_activo (relacion 24 2 rfc_b False 5)" "t_plan tenant_2 = Some \<lparr>limite_proveedores = None\<rparr>"
    "limite_proveedores \<lparr>limite_proveedores = None\<rparr> = None"
    by code_simp+
  have e1: "get_by_tenant_and_rfc sesion_cuota 3 ''aaa010101aa1'' = Some (relacion 25 3 rfc_a False 6)"
    by code_simp
  have e2: "find (\<lambda>t. t_id t = 3) (tenants (pending sesion_cuota)) = Some tenant_3"
    by code_simp
  have e3: "\<not> tp_activo (relacion 25 3 rfc_a False 6)" "t_plan tenant_3 = None"
    by code_simp+
  have e5: "relacion 25 3 rfc_a False 6\<lparr>tp_activo := True\<rparr> = relacion 25 3 rfc_a True 6"
    by (simp add: relacion_def)
  note r1 = C9_reactivacion [OF a1, of tenant_1 "\<lparr>limite_proveedores = Some 2\<rparr>" 2]
  note r2 = C9_reactivacion [OF b1, of tenant_5 "\<lparr>limite_proveedores = Some 4\<rparr>" 4]
  note r3 = C9_reactivacion [OF d1, of tenant_2 "\<lparr>limite_proveedores = None\<rparr>" 0]
  note r4 = C9_reactivacion [OF e1, of tenant_3 "\<lparr>limite_proveedores = None\<rparr>" 0]
  have c1: "actualizar_estado_operativo_rfc sesion_cuota 1 '' ccc010101cc1'' True
        = (sesion_cuota, Inl no_se_puede_activar)"
    using r1 a2 a3 a4 a5 by simp
  have c2: "\<exists>s' res. actualizar_estado_operativo_rfc sesion_cuota 5 '' ccc010101cc1'' True = (s', Inr (Some res))
         \<and> eo_activo res
         \<and> get_by_tenant_and_rfc s' 5 '' ccc010101cc1'' = Some (relacion 22 5 rfc_c True 3)"
    using r2 b2 b3 b4 b5 by auto
  have c3: "\<exists>s' res. actualizar_estado_operativo_rfc sesion_cuota 5 '' ccc010101cc1'' False = (s', Inr (Some res))
         \<and> \<not> eo_activo res
         \<and> get_by_tenant_and_rfc s' 5 '' ccc010101cc1'' = Some (relacion 22 5 rfc_c False 3)"
    using r2 b5 by auto
  have c4: "actualizar_estado_operativo_rfc sesion_cuota 2 ''bbb010101bb1'' True = (sesion_cuota, Inr None)"
    using r3 d2 d3 a5 by simp
  have c5: "\<exists>s' res. actualizar_estado_operativo_rfc sesion_cuota 3 ''aaa010101aa1'' True = (s', Inr (Some res))
         \<and> eo_activo res
         \<and> get_by_tenant_and_rfc s' 3 ''aaa010101aa1'' = Some (relacion 25 3 rfc_a True 6)"
    using r4 e2 e3 e5 by auto
  show ?thesis by (intro conjI a1 a2 a3(2) a4 c1 b1 b2 b3(2) b4 c2 c3 d1 d2 d3(2) c4 e1 e2 e3(2) c5)
qed

subsection \<open>Normalised RFCs\<close>

lemma of_char_upper_char:
  "(of_char (upper_char c) :: nat) = (if 97 \<le> (of_char c :: nat) \<and> (of_char c :: nat) \<le> 122 then of_char c - 32 else of_char c)"
proof (cases "97 \<le> (of_char c :: nat) \<and> (of_char c :: nat) \<le> 122")
  case True
  then have "((of_char c :: nat) - 32) mod 256 = of_char c - 32"
    by (intro mod_less) linarith
  then show ?thesis using True by (simp add: upper_char_def Let_def)
next
  case False
  then show ?thesis by (auto simp: upper_char_def Let_def)
qed

lemma upper_char_idem: "upper_char (upper_char c) = upper_char c"
proof (cases "97 \<le> (of_char c :: nat) \<and> (of_char c :: nat) \<le> 122")
  case True
  then have "(of_char (upper_char c) :: nat) = of_char c - 32"
    by (simp add: of_char_upper_char)
  then have "\<not> (97 \<le> (of_char (upper_char c) :: nat) \<and> (of_char (upper_char c) :: nat) \<le> 122)"
    using True by linarith
  then have F: "(97 \<le> (of_char (upper_char c) :: nat) \<and> (of_char (upper_char c) :: nat) \<le> 122) = False"
    by (rule eq_False [THEN iffD2])
  show ?thesis
    by (subst upper_char_def) (simp only: Let_def F if_False)
next
  case False
  then have "upper_char c = c" by (auto simp: upper_char_def Let_def)
  then show ?thesis by simp
qed

lemma isspace_upper_char: "isspace (upper_char c) = isspace c"
proof (cases "97 \<le> (of_char c :: nat) \<and> (of_char c :: nat) \<le> 122")
  case True
  then have m: "(of_char (upper_char c) :: nat) = of_char c - 32"
    by (simp add: of_char_upper_char)
  have "\<not> isspace (upper_char c)"
    unfolding isspace_def Let_def m using True by linarith
  moreover have "\<not> isspace c"
    unfolding isspace_def Let_def using True by linarith
  ultimately show ?thesis by simp
next
  case False
  then have "upper_char c = c" by (auto simp: upper_char_def Let_def)
  then show ?thesis by simp
qed

lemma upper_idem: "upper (upper s) = upper s"
  by (simp add: upper_def upper_char_idem)

lemma dropWhile_isspace_upper: "dropWhile isspace (upper s) = upper (dropWhile isspace s)"
  by (simp add: upper_def dropWhile_map comp_def isspace_upper_char)

lemma strip_upper: "strip (upper s) = upper (strip s)"
proof -
  have "rev (upper s) = upper (rev s)" for s by (simp add: upper_def rev_map)
  then show ?thesis by (simp add: strip_def dropWhile_isspace_upper)
qed

lemma dropWhile_id: "xs = [] \<or> \<not> P (hd xs) \<Longrightarrow> dropWhile P xs = xs"
  by (cases xs) auto

lemma strip_idem: "strip (strip s) = strip s"
proof -
  let ?t = "dropWhile isspace s"
  let ?u = "dropWhile isspace (rev ?t)"
  have u: "dropWhile isspace ?u = ?u" by simp
  have "dropWhile isspace (rev ?u) = rev ?u"
  proof (cases "?u = []")
    case True
    show ?thesis unfolding True by simp
  next
    case False
    have t: "?t \<noteq> []"
    proof
      assume e: "?t = []"
      have "?u = []" by (simp only: e rev.simps dropWhile.simps)
      with False show False by simp
    qed
    obtain n where n: "?u = drop n (rev ?t)"
      using dropWhile_eq_drop by blast
    have "n < length (rev ?t)" using False n by (metis drop_all not_le)
    then have "last ?u = last (rev ?t)" using n by (simp add: last_drop)
    then have "last ?u = hd ?t" using t by (simp add: last_rev)
    moreover have "\<not> isspace (hd ?t)" using t by (rule hd_dropWhile)
    ultimately have "\<not> isspace (hd (rev ?u))" using False by (simp add: hd_rev)
    then show ?thesis by (rule dropWhile_id [OF disjI2])
  qed
  then have a: "dropWhile isspace (rev ?u) = rev ?u" .
  have "strip (strip s) = rev (dropWhile isspace (rev (dropWhile isspace (rev ?u))))"
    by (simp only: strip_def)
  also have "\<dots> = rev (dropWhile isspace (rev (rev ?u)))" by (simp only: a)
  also have "\<dots> = rev ?u" by (simp only: rev_rev_ident u)
  also have "\<dots> = strip s" by (simp only: strip_def)
  finally show ?thesis .
qed

lemma upper_strip_idem: "upper_strip (upper_strip s) = upper_strip s"
  by (simp add: upper_strip_def strip_upper upper_idem strip_idem)

lemma normalizar_proveedores_fst:
  "fst (normalizar_proveedores items acc m) = acc @ rfcs_validos items"
  by (induction items arbitrary: acc m) (auto simp: rfcs_validos_def Let_def)

lemma rfcs_validos_idem: "r \<in> set (rfcs_validos items) \<Longrightarrow> upper_strip r = r"
  by (auto simp: rfcs_validos_def upper_strip_idem)

lemma map_upper_strip_rfcs_validos: "map upper_strip (rfcs_validos items) = rfcs_validos items"
  by (simp add: map_idI rfcs_validos_idem)

subsection \<open>The batch\<close>

lemma regla_burst_take_drop:
  "regla_burst a b rfcs = map (\<lambda>r. (r, True)) (take (b - a) rfcs) @ map (\<lambda>r. (r, False)) (drop (b - a) rfcs)"
proof (induction rfcs arbitrary: a)
  case Nil
  then show ?case by simp
next
  case (Cons r rfcs)
  show ?case
  proof (cases "a < b")
    case True
    then have "b - a = Suc (b - (a + 1))" by simp
    then show ?thesis using True Cons [of "a + 1"] by simp
  next
    case False
    then have "b - a = 0" by simp
    then show ?thesis using False Cons [of a] by simp
  qed
qed

lemma regla_burst_nth:
  "k < length rfcs \<Longrightarrow> regla_burst a b rfcs ! k = (rfcs ! k, a + k < b)"
proof (induction rfcs arbitrary: a k)
  case Nil
  then show ?case by simp
next
  case (Cons r rfcs)
  show ?case
  proof (cases k)
    case 0
    then show ?thesis by simp
  next
    case (Suc k')
    then have k': "k' < length rfcs" using Cons.prems by simp
    show ?thesis using Cons.IH [OF k', of "a + 1"] Cons.IH [OF k', of a] Suc by auto
  qed
qed

lemma length_regla_burst [simp]: "length (regla_burst a b rfcs) = length rfcs"
  by (simp add: regla_burst_take_drop)

lemma map_fst_regla_burst [simp]: "map fst (regla_burst a b rfcs) = rfcs"
  by (induction a b rfcs rule: regla_burst.induct) auto

lemma clasificar_eq:
  "clasificar ex rsm b rfcs a act inact res =
     (act @ map (nuevo_de rsm) (map (\<lambda>r. (r, True)) (take (b - a) [r \<leftarrow> rfcs. ex r = None])),
      inact @ map (nuevo_de rsm) (map (\<lambda>r. (r, False)) (drop (b - a) [r \<leftarrow> rfcs. ex r = None])),
      res @ map (resultado_existente ex) [r \<leftarrow> rfcs. ex r \<noteq> None])"
proof (induction rfcs arbitrary: a act inact res)
  case Nil
  then show ?case by simp
next
  case (Cons r rfcs)
  show ?case
  proof (cases "ex r")
    case (Some rel)
    then show ?thesis using Cons by (simp add: resultado_existente_def)
  next
    case None
    show ?thesis
    proof (cases "a < b")
      case True
      then have "b - a = Suc (b - (a + 1))" by simp
      then show ?thesis using True None Cons [of "a + 1"] by (simp add: nuevo_de_def)
    next
      case False
      then have "b - a = 0" by simp
      then show ?thesis using False None Cons [of a] by (simp add: nuevo_de_def)
    qed
  qed
qed

lemma clasificados_eq:
  "clasificados s tenant_id items limite_rfcs = (na, ni, res) \<Longrightarrow>
   na @ ni = proveedores_nuevos_de s tenant_id items limite_rfcs
   \<and> res = resultados_existentes_de s tenant_id items"
  unfolding clasificados_def clasificar_eq proveedores_nuevos_de_def resultados_existentes_de_def
    regla_burst_take_drop rfcs_nuevos_def
  by auto

lemma agregar_proveedores_batch_eq:
  "agregar_proveedores_batch s tenant_id items (Some limite_rfcs) =
     (if rfcs_validos items = [] then (s, Inr [])
      else (case find (\<lambda>t. t_id t = tenant_id) (tenants (pending s)) of
              None \<Rightarrow> (s, Inl (tenant_no_encontrado tenant_id))
            | Some tenant \<Rightarrow>
                if proveedores_nuevos_de s tenant_id items limite_rfcs \<noteq> []
                then (fst (create_relations_batch_with_status s tenant_id
                             (proveedores_nuevos_de s tenant_id items limite_rfcs)),
                      Inr (ordenar_resultados (rfcs_validos items)
                             (resultados_existentes_de s tenant_id items
                              @ map (resultado_nuevo
                                       (dict_of (map (\<lambda>rel. (tp_rfc rel, rel))
                                          (snd (create_relations_batch_with_status s tenant_id
                                                  (proveedores_nuevos_de s tenant_id items limite_rfcs))))))
                                  (proveedores_nuevos_de s tenant_id items limite_rfcs))))
                else (s, Inr (ordenar_resultados (rfcs_validos items)
                                (resultados_existentes_de s tenant_id items)))))"
proof -
  obtain na ni res where c: "clasificados s tenant_id items limite_rfcs = (na, ni, res)"
    using prod_cases3 by blast
  have n: "fst (normalizar_proveedores items [] Map.empty) = rfcs_validos items"
    by (simp add: normalizar_proveedores_fst)
  note e = clasificados_eq [OF c]
  have c': "clasificar (get_by_tenant_and_rfcs_batch s tenant_id (rfcs_validos items))
       (snd (normalizar_proveedores items [] Map.empty))
       (limite_burst limite_rfcs) (rfcs_validos items) (contar_activos (pending s) tenant_id) [] [] []
       = (na, ni, res)"
    using c by (simp add: clasificados_def existentes_def)
  have e1: "na @ ni = proveedores_nuevos_de s tenant_id items limite_rfcs"
    and e2: "res = resultados_existentes_de s tenant_id items"
    using e by simp_all
  show ?thesis
    unfolding agregar_proveedores_batch_def
    by (simp only: split_beta Let_def n c' fst_conv snd_conv e1 e2 option.case)
qed

lemma agregar_proveedores_batch_None:
  "agregar_proveedores_batch s tenant_id items None =
     (if rfcs_validos items = [] then (s, Inr [])
      else (case find (\<lambda>t. t_id t = tenant_id) (tenants (pending s)) of
              None \<Rightarrow> (s, Inl (tenant_no_encontrado tenant_id))
            | Some tenant \<Rightarrow> (s, Inl (Exception ''TypeError''))))"
proof -
  have n: "fst (normalizar_proveedores items [] Map.empty) = rfcs_validos items"
    by (simp add: normalizar_proveedores_fst)
  show ?thesis
    unfolding agregar_proveedores_batch_def
    by (simp only: split_beta Let_def n option.case)
qed

lemma filter_existentes_aux:
  "r \<in> A \<Longrightarrow>
   [kv \<leftarrow> [(tp_rfc rel, rel). rel \<leftarrow> rows, tp_tenant_id rel = t \<and> tp_rfc rel \<in> A]. fst kv = r]
     = map (\<lambda>rel. (tp_rfc rel, rel)) [rel \<leftarrow> rows. tp_tenant_id rel = t \<and> tp_rfc rel = r]"
  by (induction rows) auto

lemma existentes_eq:
  assumes "r \<in> set (rfcs_validos items)"
  shows "existentes s t items r =
     (if [rel \<leftarrow> tenant_proveedores (pending s). tp_tenant_id rel = t \<and> tp_rfc rel = r] = [] then None
      else Some (last [rel \<leftarrow> tenant_proveedores (pending s). tp_tenant_id rel = t \<and> tp_rfc rel = r]))"
proof -
  have ne: "rfcs_validos items \<noteq> []" using assms by auto
  have "existentes s t items r
      = dict_of [(tp_rfc rel, rel). rel \<leftarrow> tenant_proveedores (pending s),
                    tp_tenant_id rel = t \<and> tp_rfc rel \<in> set (rfcs_validos items)] r"
    using ne by (simp add: existentes_def get_by_tenant_and_rfcs_batch_def map_upper_strip_rfcs_validos)
  then show ?thesis
    unfolding dict_of_last filter_existentes_aux [OF assms]
    by (simp add: last_map)
qed

lemma existentes_Some:
  assumes "r \<in> set (rfcs_validos items)" and "existentes s t items r = Some rel"
  shows "rel \<in> set (tenant_proveedores (pending s)) \<and> tp_tenant_id rel = t \<and> tp_rfc rel = r"
proof -
  let ?rows = "[rel \<leftarrow> tenant_proveedores (pending s). tp_tenant_id rel = t \<and> tp_rfc rel = r]"
  have "?rows \<noteq> [] \<and> rel = last ?rows"
    using assms(2) existentes_eq [OF assms(1), of s t] by (auto split: if_splits)
  then have "rel \<in> set ?rows" using last_in_set by blast
  then show ?thesis by simp
qed

lemma existentes_None:
  assumes "r \<in> set (rfcs_validos items)" and "existentes s t items r = None"
    and "rel \<in> set (tenant_proveedores (pending s))" and "tp_tenant_id rel = t"
  shows "tp_rfc rel \<noteq> r"
proof
  assume "tp_rfc rel = r"
  then have "rel \<in> set [rel \<leftarrow> tenant_proveedores (pending s). tp_tenant_id rel = t \<and> tp_rfc rel = r]"
    using assms(3,4) by simp
  then have "[rel \<leftarrow> tenant_proveedores (pending s). tp_tenant_id rel = t \<and> tp_rfc rel = r] \<noteq> []"
    by (metis empty_iff list.set(1))
  then have "existentes s t items r \<noteq> None"
    by (simp only: existentes_eq [OF assms(1), of s t] if_False) simp
  then show False using assms(2) by simp
qed

lemma set_rfcs_nuevos:
  "r \<in> set (rfcs_nuevos s t items) \<Longrightarrow> r \<in> set (rfcs_validos items) \<and> existentes s t items r = None"
  by (simp add: rfcs_nuevos_def)

lemma n_rfc_nuevo_de [simp]: "n_rfc (nuevo_de rsm ra) = fst ra"
  by (simp add: nuevo_de_def)

lemma n_activo_nuevo_de [simp]: "n_activo (nuevo_de rsm ra) = snd ra"
  by (simp add: nuevo_de_def)

lemma map_n_rfc_nuevos:
  "map n_rfc (proveedores_nuevos_de s t items l) = rfcs_nuevos s t items"
  by (simp add: proveedores_nuevos_de_def comp_def)

lemma proveedores_nuevos_Nil:
  "(proveedores_nuevos_de s t items l = []) = (rfcs_nuevos s t items = [])"
proof -
  have "length (proveedores_nuevos_de s t items l) = length (rfcs_nuevos s t items)"
    by (simp add: proveedores_nuevos_de_def)
  then show ?thesis by (metis length_0_conv)
qed

lemma map_tp_rfc_enumerate:
  "map tp_rfc (map (nueva_relacion s t) (enumerate n nv)) = map (\<lambda>p. upper_strip (n_rfc p)) nv"
  by (induction nv arbitrary: n) (auto simp: nueva_relacion_def)

lemma map_tp_tenant_enumerate:
  "map tp_tenant_id (map (nueva_relacion s t) (enumerate n nv)) = map (\<lambda>p. t) nv"
  by (induction nv arbitrary: n) (auto simp: nueva_relacion_def)

lemma map_tp_activo_enumerate:
  "map tp_activo (map (nueva_relacion s t) (enumerate n nv)) = map n_activo nv"
  by (induction nv arbitrary: n) (auto simp: nueva_relacion_def)

lemma map_tp_id_enumerate:
  "map tp_id (map (nueva_relacion s t) (enumerate n nv)) = map (\<lambda>k. new_id (pending s) + k) [n..<n + length nv]"
  by (induction nv arbitrary: n) (auto simp: nueva_relacion_def upt_rec)

lemma map_tp_rfc_relaciones_nuevas:
  "map tp_rfc (relaciones_nuevas s t items l) = rfcs_nuevos s t items"
proof -
  have "map (\<lambda>p. upper_strip (n_rfc p)) (proveedores_nuevos_de s t items l)
      = map upper_strip (rfcs_nuevos s t items)"
    by (simp add: map_n_rfc_nuevos [of s t items l, symmetric] comp_def)
  also have "\<dots> = rfcs_nuevos s t items"
    using set_rfcs_nuevos rfcs_validos_idem by (intro map_idI) blast
  finally show ?thesis unfolding relaciones_nuevas_def map_tp_rfc_enumerate .
qed

lemma tenant_relaciones_nuevas:
  "rel \<in> set (relaciones_nuevas s t items l) \<Longrightarrow> tp_tenant_id rel = t"
  by (auto simp: relaciones_nuevas_def nueva_relacion_def)

lemma rfc_relaciones_nuevas:
  "rel \<in> set (relaciones_nuevas s t items l) \<Longrightarrow> tp_rfc rel \<in> set (rfcs_nuevos s t items)"
proof -
  assume "rel \<in> set (relaciones_nuevas s t items l)"
  then have "tp_rfc rel \<in> set (map tp_rfc (relaciones_nuevas s t items l))" by simp
  then show ?thesis by (simp only: map_tp_rfc_relaciones_nuevas)
qed

lemma create_relations_cases:
  "create_relations_batch_with_status s t (proveedores_nuevos_de s t items l) = (rollback s, [])
   \<or> create_relations_batch_with_status s t (proveedores_nuevos_de s t items l)
       = (s\<lparr>pending := (pending s)\<lparr>tenant_proveedores :=
               tenant_proveedores (pending s) @ relaciones_nuevas s t items l\<rparr>\<rparr>,
          relaciones_nuevas s t items l)"
  by (simp add: create_relations_batch_with_status_def relaciones_nuevas_def Let_def)

subsection \<open>The ordered results\<close>

lemma dict_of_resultados:
  "dict_of (map (\<lambda>r. (rr_rfc r, r)) rs) k
     = (if [r \<leftarrow> rs. rr_rfc r = k] = [] then None else Some (last [r \<leftarrow> rs. rr_rfc r = k]))"
proof -
  have "[kv \<leftarrow> map (\<lambda>r. (rr_rfc r, r)) rs. fst kv = k] = map (\<lambda>r. (rr_rfc r, r)) [r \<leftarrow> rs. rr_rfc r = k]"
    by (induction rs) auto
  then show ?thesis unfolding dict_of_last by (simp add: last_map)
qed

lemma rr_rfc_ordenar: "map rr_rfc (ordenar_resultados rfcs rs) = rfcs"
proof -
  have "rr_rfc (case dict_of (map (\<lambda>r. (rr_rfc r, r)) rs) k of
                  Some r \<Rightarrow> r
                | None \<Rightarrow> \<lparr>rr_rfc = k, rr_proveedor_id = None, rr_error = Some ''RFC no procesado''\<rparr>) = k" for k
  proof (cases "[r \<leftarrow> rs. rr_rfc r = k] = []")
    case True
    then show ?thesis by (simp add: dict_of_resultados)
  next
    case False
    then have "last [r \<leftarrow> rs. rr_rfc r = k] \<in> set [r \<leftarrow> rs. rr_rfc r = k]" by (rule last_in_set)
    then show ?thesis using False by (simp add: dict_of_resultados)
  qed
  then show ?thesis by (simp add: ordenar_resultados_def Let_def comp_def)
qed

lemma ordenar_nth:
  "j < length rfcs \<Longrightarrow>
   ordenar_resultados rfcs rs ! j
     = (case dict_of (map (\<lambda>r. (rr_rfc r, r)) rs) (rfcs ! j) of
          Some r \<Rightarrow> r
        | None \<Rightarrow> \<lparr>rr_rfc = rfcs ! j, rr_proveedor_id = None, rr_error = Some ''RFC no procesado''\<rparr>)"
  by (simp add: ordenar_resultados_def Let_def)

lemma length_ordenar [simp]: "length (ordenar_resultados rfcs rs) = length rfcs"
  by (simp add: ordenar_resultados_def Let_def)

lemma rr_rfc_resultado_existente [simp]: "rr_rfc (resultado_existente ex r) = r"
  by (simp add: resultado_existente_def)

lemma rr_rfc_resultado_nuevo [simp]: "rr_rfc (resultado_nuevo d p) = n_rfc p"
  by (simp add: resultado_nuevo_def split: option.splits)

lemma filter_resultados_existentes:
  assumes "existentes s t items r \<noteq> None" and "r \<in> set (rfcs_validos items)"
  shows "[x \<leftarrow> resultados_existentes_de s t items. rr_rfc x = r] \<noteq> []"
    and "last [x \<leftarrow> resultados_existentes_de s t items. rr_rfc x = r] = resultado_existente (existentes s t items) r"
proof -
  let ?xs = "[x \<leftarrow> resultados_existentes_de s t items. rr_rfc x = r]"
  have m: "resultado_existente (existentes s t items) r \<in> set ?xs"
    using assms by (auto simp: resultados_existentes_de_def)
  then show ne: "?xs \<noteq> []" by (metis empty_iff list.set(1))
  have "\<forall>x \<in> set ?xs. x = resultado_existente (existentes s t items) r"
    by (auto simp: resultados_existentes_de_def)
  then show "last ?xs = resultado_existente (existentes s t items) r"
    using ne last_in_set by blast
qed

lemma filter_resultados_nuevos_existente:
  assumes "existentes s t items r \<noteq> None"
  shows "[x \<leftarrow> map (resultado_nuevo d) (proveedores_nuevos_de s t items l). rr_rfc x = r] = []"
proof -
  have "\<forall>p \<in> set (proveedores_nuevos_de s t items l). n_rfc p \<noteq> r"
  proof
    fix p assume "p \<in> set (proveedores_nuevos_de s t items l)"
    then have "n_rfc p \<in> set (map n_rfc (proveedores_nuevos_de s t items l))" by simp
    then have "n_rfc p \<in> set (rfcs_nuevos s t items)" by (simp only: map_n_rfc_nuevos)
    then have "existentes s t items (n_rfc p) = None" by (simp add: rfcs_nuevos_def)
    then show "n_rfc p \<noteq> r" using assms by auto
  qed
  then show ?thesis by (auto simp: filter_empty_conv)
qed

lemma resultado_de_existente:
  assumes "existentes s t items r \<noteq> None" and "r \<in> set (rfcs_validos items)"
  shows "dict_of (map (\<lambda>x. (rr_rfc x, x)) (resultados_existentes_de s t items)) r
           = Some (resultado_existente (existentes s t items) r)"
    and "dict_of (map (\<lambda>x. (rr_rfc x, x))
            (resultados_existentes_de s t items @ map (resultado_nuevo d) (proveedores_nuevos_de s t items l))) r
           = Some (resultado_existente (existentes s t items) r)"
  unfolding dict_of_resultados filter_append
  using filter_resultados_existentes [OF assms] filter_resultados_nuevos_existente [OF assms(1), of d l]
  by simp_all

lemma committed_create:
  "committed (fst (create_relations_batch_with_status s t nv)) = committed s"
  by (simp add: create_relations_batch_with_status_def Let_def rollback_def)

lemma agregar_Inr_Some:
  assumes "agregar_proveedores_batch s t items (Some l) = (s', Inr res)"
  shows "map rr_rfc res = rfcs_validos items \<and> committed s' = committed s
       \<and> (tenant_proveedores (pending s') = tenant_proveedores (pending s)
          \<or> tenant_proveedores (pending s') = tenant_proveedores (committed s)
          \<or> tenant_proveedores (pending s')
               = tenant_proveedores (pending s) @ relaciones_nuevas s t items l)"
proof (cases "rfcs_validos items = []")
  case True
  then show ?thesis using assms by (simp add: agregar_proveedores_batch_eq)
next
  case False
  then obtain tenant where t: "find (\<lambda>x. t_id x = t) (tenants (pending s)) = Some tenant"
    using assms by (cases "find (\<lambda>x. t_id x = t) (tenants (pending s))") (auto simp: agregar_proveedores_batch_eq)
  show ?thesis
  proof (cases "proveedores_nuevos_de s t items l = []")
    case True
    then show ?thesis using assms False t by (auto simp: agregar_proveedores_batch_eq rr_rfc_ordenar)
  next
    case ne: False
    let ?c = "create_relations_batch_with_status s t (proveedores_nuevos_de s t items l)"
    have s': "s' = fst ?c" and r: "map rr_rfc res = rfcs_validos items"
      using assms False t ne by (auto simp: agregar_proveedores_batch_eq rr_rfc_ordenar)
    have "tenant_proveedores (pending (fst ?c)) = tenant_proveedores (committed s)
          \<or> tenant_proveedores (pending (fst ?c))
               = tenant_proveedores (pending s) @ relaciones_nuevas s t items l"
      using create_relations_cases [of s t items l] by (auto simp: rollback_def)
    then show ?thesis using s' r by (simp add: committed_create)
  qed
qed

lemma agregar_Inr:
  assumes "agregar_proveedores_batch s t items lim = (s', Inr res)"
  shows "map rr_rfc res = rfcs_validos items \<and> committed s' = committed s
       \<and> (tenant_proveedores (pending s') = tenant_proveedores (pending s)
          \<or> tenant_proveedores (pending s') = tenant_proveedores (committed s)
          \<or> (\<exists>l. lim = Some l \<and> tenant_proveedores (pending s')
               = tenant_proveedores (pending s) @ relaciones_nuevas s t items l))"
proof (cases lim)
  case None
  then show ?thesis using assms
    by (auto simp: agregar_proveedores_batch_None split: if_splits option.splits)
next
  case (Some l)
  then show ?thesis using agregar_Inr_Some [of s t items l s' res] assms by auto
qed

lemma length_rfcs_validos: "r \<in> set (rfcs_validos items) \<Longrightarrow> length r = 12 \<or> length r = 13"
  by (auto simp: rfcs_validos_def)

text \<open>
  C10 (invalid RFCs are left out).  When no item of the batch has a normalised RFC of 12
  or 13 characters the call returns the empty list and the session as it was, without
  looking the tenant up; with a valid item and no such tenant it raises.  Whenever the
  call returns a list, the RFCs of its entries are exactly the valid normalised RFCs of
  the input, in order, so an item whose normalised RFC has another length has no entry;
  and every membership row the session then sees with that RFC was there before the
  call (in the open transaction or, after a rollback, in the committed tables).
\<close>

theorem C10_rfcs_invalidos_omitidos:
  "(rfcs_validos items = [] \<longrightarrow> agregar_proveedores_batch s tenant_id items limite_rfcs = (s, Inr []))
   \<and> (rfcs_validos items \<noteq> [] \<and> find (\<lambda>t. t_id t = tenant_id) (tenants (pending s)) = None \<longrightarrow>
        agregar_proveedores_batch s tenant_id items limite_rfcs = (s, Inl (tenant_no_encontrado tenant_id)))
   \<and> (\<forall>s' res. agregar_proveedores_batch s tenant_id items limite_rfcs = (s', Inr res) \<longrightarrow>
        map rr_rfc res = rfcs_validos items
        \<and> (\<forall>p \<in> set items.
              length (upper_strip (pi_rfc p)) \<noteq> 12 \<and> length (upper_strip (pi_rfc p)) \<noteq> 13 \<longrightarrow>
              upper_strip (pi_rfc p) \<notin> rr_rfc ` set res
              \<and> (\<forall>tp \<in> set (tenant_proveedores (pending s')).
                    tp_rfc tp = upper_strip (pi_rfc p) \<longrightarrow>
                    tp \<in> set (tenant_proveedores (pending s)) \<or> tp \<in> set (tenant_proveedores (committed s)))))"
proof (intro conjI impI allI ballI)
  assume "rfcs_validos items = []"
  then show "agregar_proveedores_batch s tenant_id items limite_rfcs = (s, Inr [])"
    by (cases limite_rfcs) (simp_all add: agregar_proveedores_batch_eq agregar_proveedores_batch_None)
next
  assume "rfcs_validos items \<noteq> [] \<and> find (\<lambda>t. t_id t = tenant_id) (tenants (pending s)) = None"
  then show "agregar_proveedores_batch s tenant_id items limite_rfcs = (s, Inl (tenant_no_encontrado tenant_id))"
    by (cases limite_rfcs) (simp_all add: agregar_proveedores_batch_eq agregar_proveedores_batch_None)
next
  fix s' res
  assume a: "agregar_proveedores_batch s tenant_id items limite_rfcs = (s', Inr res)"
  show "map rr_rfc res = rfcs_validos items" using agregar_Inr [OF a] by simp
next
  fix s' res p
  assume a: "agregar_proveedores_batch s tenant_id items limite_rfcs = (s', Inr res)"
    and inv: "length (upper_strip (pi_rfc p)) \<noteq> 12 \<and> length (upper_strip (pi_rfc p)) \<noteq> 13"
  have nv: "upper_strip (pi_rfc p) \<notin> set (rfcs_validos items)"
    using inv length_rfcs_validos by blast
  have "rr_rfc ` set res = set (rfcs_validos items)"
    using agregar_Inr [OF a] by (metis list.set_map)
  then show "upper_strip (pi_rfc p) \<notin> rr_rfc ` set res" using nv by simp
next
  fix s' res p tp
  assume a: "agregar_proveedores_batch s tenant_id items limite_rfcs = (s', Inr res)"
    and inv: "length (upper_strip (pi_rfc p)) \<noteq> 12 \<and> length (upper_strip (pi_rfc p)) \<noteq> 13"
    and tp: "tp \<in> set (tenant_proveedores (pending s'))" "tp_rfc tp = upper_strip (pi_rfc p)"
  have nv: "tp_rfc tp \<notin> set (rfcs_validos items)"
    using inv length_rfcs_validos tp(2) by metis
  have "tp \<notin> set (relaciones_nuevas s tenant_id items l)" for l
    using nv rfc_relaciones_nuevas set_rfcs_nuevos by blast
  then show "tp \<in> set (tenant_proveedores (pending s)) \<or> tp \<in> set (tenant_proveedores (committed s))"
    using agregar_Inr [OF a] tp(1) by auto
qed

text \<open>
  C8 (idempotent re-add).  For an existing tenant and an RFC that a membership of the
  tenant already holds, a batch that contains the RFC, added with a numeric limit
  \<open>L\<close>, returns a list in which every entry of that RFC reports "El RFC ... ya existe"
  with the id of a stored membership of the tenant and the RFC.  The call commits
  nothing, and the memberships of the tenant and the RFC that the session sees afterwards
  are those it saw before (or, when the insert of other RFCs of the batch failed and the
  repository rolled back, those of the committed tables): no row of that RFC is added or
  changed.  With the limit of a plan without limit (\<open>None\<close>) the same call raises the
  \<open>TypeError\<close> of the product before any RFC is classified: the session is as before, and
  no entry is reported for the RFC.
\<close>

theorem C8_readicion_idempotente:
  assumes "find (\<lambda>t. t_id t = tenant_id) (tenants (pending s)) = Some tenant"
    and "rfc \<in> set (rfcs_validos items)"
    and "row \<in> set (tenant_proveedores (pending s))"
    and "tp_tenant_id row = tenant_id" and "tp_rfc row = rfc"
  shows "(\<exists>s' res. agregar_proveedores_batch s tenant_id items (Some L) = (s', Inr res)
     \<and> length res = length (rfcs_validos items)
     \<and> (\<forall>j < length res. rfcs_validos items ! j = rfc \<longrightarrow>
           rr_rfc (res ! j) = rfc \<and> rr_error (res ! j) = Some (ya_existe rfc)
           \<and> (\<exists>row' \<in> set (tenant_proveedores (pending s)).
                 tp_tenant_id row' = tenant_id \<and> tp_rfc row' = rfc
                 \<and> rr_proveedor_id (res ! j) = Some (tp_id row')))
     \<and> ([tp \<leftarrow> tenant_proveedores (pending s'). tp_tenant_id tp = tenant_id \<and> tp_rfc tp = rfc]
           = [tp \<leftarrow> tenant_proveedores (pending s). tp_tenant_id tp = tenant_id \<and> tp_rfc tp = rfc]
        \<or> [tp \<leftarrow> tenant_proveedores (pending s'). tp_tenant_id tp = tenant_id \<and> tp_rfc tp = rfc]
           = [tp \<leftarrow> tenant_proveedores (committed s). tp_tenant_id tp = tenant_id \<and> tp_rfc tp = rfc])
     \<and> committed s' = committed s)
   \<and> agregar_proveedores_batch s tenant_id items None = (s, Inl (Exception ''TypeError''))"
proof (rule conjI)
  let ?ex = "existentes s tenant_id items"
  let ?rows = "[rel \<leftarrow> tenant_proveedores (pending s). tp_tenant_id rel = tenant_id \<and> tp_rfc rel = rfc]"
  have "row \<in> set ?rows" using assms(3,4,5) by simp
  then have rows: "?rows \<noteq> []" by (metis empty_iff list.set(1))
  then have ex: "?ex rfc = Some (last ?rows)"
    by (simp only: existentes_eq [OF assms(2), of s tenant_id] if_False)
  have exn: "?ex rfc \<noteq> None" using ex by simp
  have lr: "last ?rows \<in> set ?rows" using rows by (rule last_in_set)
  have ne: "rfcs_validos items \<noteq> []" using assms(2) by auto
  show "agregar_proveedores_batch s tenant_id items None = (s, Inl (Exception ''TypeError''))"
    using ne assms(1) by (simp add: agregar_proveedores_batch_None)
  let ?E = "resultado_existente ?ex rfc"
  have E: "rr_rfc ?E = rfc \<and> rr_error ?E = Some (ya_existe rfc)
       \<and> (\<exists>row' \<in> set (tenant_proveedores (pending s)).
                 tp_tenant_id row' = tenant_id \<and> tp_rfc row' = rfc
                 \<and> rr_proveedor_id ?E = Some (tp_id row'))"
    using lr ex by (auto simp: resultado_existente_def)
  obtain s' res where a: "agregar_proveedores_batch s tenant_id items (Some L) = (s', Inr res)"
    and res: "\<forall>j < length (rfcs_validos items). rfcs_validos items ! j = rfc \<longrightarrow> res ! j = ?E"
  proof (cases "proveedores_nuevos_de s tenant_id items L = []")
    case True
    let ?res = "ordenar_resultados (rfcs_validos items) (resultados_existentes_de s tenant_id items)"
    have 1: "agregar_proveedores_batch s tenant_id items (Some L) = (s, Inr ?res)"
      using True ne assms(1) by (simp add: agregar_proveedores_batch_eq)
    have 2: "\<forall>j < length (rfcs_validos items). rfcs_validos items ! j = rfc \<longrightarrow> ?res ! j = ?E"
      using resultado_de_existente(1) [OF exn assms(2)] by (simp add: ordenar_nth)
    show ?thesis using that [OF 1 2] .
  next
    case False
    let ?c = "create_relations_batch_with_status s tenant_id (proveedores_nuevos_de s tenant_id items L)"
    let ?d = "dict_of (map (\<lambda>rel. (tp_rfc rel, rel)) (snd ?c))"
    let ?res = "ordenar_resultados (rfcs_validos items)
                  (resultados_existentes_de s tenant_id items
                   @ map (resultado_nuevo ?d) (proveedores_nuevos_de s tenant_id items L))"
    have 1: "agregar_proveedores_batch s tenant_id items (Some L) = (fst ?c, Inr ?res)"
      using False ne assms(1) by (simp add: agregar_proveedores_batch_eq)
    have 2: "\<forall>j < length (rfcs_validos items). rfcs_validos items ! j = rfc \<longrightarrow> ?res ! j = ?E"
      using resultado_de_existente(2) [OF exn assms(2), of ?d L] by (simp add: ordenar_nth)
    show ?thesis using that [OF 1 2] .
  qed
  note i = agregar_Inr_Some [OF a]
  have len: "length res = length (rfcs_validos items)"
    using i by (metis length_map)
  have nuevas: "[tp \<leftarrow> relaciones_nuevas s tenant_id items L. tp_tenant_id tp = tenant_id \<and> tp_rfc tp = rfc] = []"
  proof -
    have "\<forall>tp \<in> set (relaciones_nuevas s tenant_id items L). tp_rfc tp \<noteq> rfc"
      using rfc_relaciones_nuevas set_rfcs_nuevos exn by metis
    then show ?thesis by (auto simp: filter_empty_conv)
  qed
  have st: "[tp \<leftarrow> tenant_proveedores (pending s'). tp_tenant_id tp = tenant_id \<and> tp_rfc tp = rfc]
           = [tp \<leftarrow> tenant_proveedores (pending s). tp_tenant_id tp = tenant_id \<and> tp_rfc tp = rfc]
        \<or> [tp \<leftarrow> tenant_proveedores (pending s'). tp_tenant_id tp = tenant_id \<and> tp_rfc tp = rfc]
           = [tp \<leftarrow> tenant_proveedores (committed s). tp_tenant_id tp = tenant_id \<and> tp_rfc tp = rfc]"
    using i nuevas by auto
  have "\<forall>j < length res. rfcs_validos items ! j = rfc \<longrightarrow>
           rr_rfc (res ! j) = rfc \<and> rr_error (res ! j) = Some (ya_existe rfc)
           \<and> (\<exists>row' \<in> set (tenant_proveedores (pending s)).
                 tp_tenant_id row' = tenant_id \<and> tp_rfc row' = rfc
                 \<and> rr_proveedor_id (res ! j) = Some (tp_id row'))"
    using res E len by simp
  then show "\<exists>s' res. agregar_proveedores_batch s tenant_id items (Some L) = (s', Inr res)
     \<and> length res = length (rfcs_validos items)
     \<and> (\<forall>j < length res. rfcs_validos items ! j = rfc \<longrightarrow>
           rr_rfc (res ! j) = rfc \<and> rr_error (res ! j) = Some (ya_existe rfc)
           \<and> (\<exists>row' \<in> set (tenant_proveedores (pending s)).
                 tp_tenant_id row' = tenant_id \<and> tp_rfc row' = rfc
                 \<and> rr_proveedor_id (res ! j) = Some (tp_id row')))
     \<and> ([tp \<leftarrow> tenant_proveedores (pending s'). tp_tenant_id tp = tenant_id \<and> tp_rfc tp = rfc]
           = [tp \<leftarrow> tenant_proveedores (pending s). tp_tenant_id tp = tenant_id \<and> tp_rfc tp = rfc]
        \<or> [tp \<leftarrow> tenant_proveedores (pending s'). tp_tenant_id tp = tenant_id \<and> tp_rfc tp = rfc]
           = [tp \<leftarrow> tenant_proveedores (committed s). tp_tenant_id tp = tenant_id \<and> tp_rfc tp = rfc])
     \<and> committed s' = committed s"
    using a len st i by blast
qed

text \<open>
  Against C1 as stated: tenant 4 has no active membership and the limit 20, so the
  ceiling is 23 and every new RFC of a batch of three should be created active.  For a
  batch of three new RFCs that names one of them twice, the call creates no membership
  and reports "Error creando relacion" for each.
\<close>

theorem C1_counterexample:
  "find (\<lambda>t. t_id t = 4) (tenants (pending sesion_burst)) = Some tenant_20
   \<and> contar_activos (pending sesion_burst) 4 = 0 \<and> limite_burst 20 = 23
   \<and> rfcs_nuevos sesion_burst 4 lote_repetido = [''GGG010101GG1'', ''HHH010101HH1'', ''GGG010101GG1'']
   \<and> tenant_proveedores (pending (fst (agregar_proveedores_batch sesion_burst 4 lote_repetido (Some 20))))
        = tenant_proveedores (pending sesion_burst)
   \<and> snd (agregar_proveedores_batch sesion_burst 4 lote_repetido (Some 20))
        = Inr [\<lparr>rr_rfc = ''GGG010101GG1'', rr_proveedor_id = None, rr_error = Some ''Error creando relacion''\<rparr>,
               \<lparr>rr_rfc = ''HHH010101HH1'', rr_proveedor_id = None, rr_error = Some ''Error creando relacion''\<rparr>,
               \<lparr>rr_rfc = ''GGG010101GG1'', rr_proveedor_id = None, rr_error = Some ''Error creando relacion''\<rparr>]"
  by code_simp

subsection \<open>A batch of distinct new RFCs\<close>

lemma dict_of_distinct:
  "distinct (map f xs) \<Longrightarrow> k < length xs \<Longrightarrow>
   dict_of (map (\<lambda>x. (f x, x)) xs) (f (xs ! k)) = Some (xs ! k)"
proof (induction xs arbitrary: k rule: rev_induct)
  case Nil
  then show ?case by simp
next
  case (snoc x xs)
  have d: "dict_of (map (\<lambda>x. (f x, x)) xs @ [(f x, x)]) = (dict_of (map (\<lambda>x. (f x, x)) xs))(f x \<mapsto> x)"
    by (rule dict_of_snoc)
  show ?case
  proof (cases "k < length xs")
    case True
    then have "xs ! k \<in> set xs" by simp
    then have "f (xs ! k) \<in> f ` set xs" by (rule imageI)
    moreover have "f x \<notin> f ` set xs" using snoc.prems(1) by simp
    ultimately have "f (xs ! k) \<noteq> f x" by metis
    then show ?thesis using True snoc.IH [of k] snoc.prems(1) by (simp add: d nth_append)
  next
    case False
    then have "k = length xs" using snoc.prems(2) by simp
    then show ?thesis by (simp add: d)
  qed
qed

lemma map_pair_zip: "map (\<lambda>x. (f x, g x)) xs = zip (map f xs) (map g xs)"
  by (induction xs) auto

lemma clave_relaciones_nuevas:
  "map clave (relaciones_nuevas s t items l) = map (Pair t) (rfcs_nuevos s t items)"
proof -
  have "map clave (relaciones_nuevas s t items l) = map (Pair t \<circ> tp_rfc) (relaciones_nuevas s t items l)"
    by (rule map_cong) (auto simp: clave_def tenant_relaciones_nuevas)
  also have "\<dots> = map (Pair t) (map tp_rfc (relaciones_nuevas s t items l))" by simp
  finally show ?thesis by (simp only: map_tp_rfc_relaciones_nuevas)
qed

lemma no_viola_uq:
  assumes "distinct (rfcs_nuevos s t items)"
  shows "\<not> viola_uq_tenant_proveedor (tenant_proveedores (pending s)) (relaciones_nuevas s t items l)"
proof -
  have 1: "distinct (map clave (relaciones_nuevas s t items l))"
    unfolding clave_relaciones_nuevas using assms by (simp add: distinct_map inj_on_def)
  have 2: "clave r \<notin> set (map clave (tenant_proveedores (pending s)))"
    if r: "r \<in> set (relaciones_nuevas s t items l)" for r
  proof
    assume "clave r \<in> set (map clave (tenant_proveedores (pending s)))"
    then obtain rel where rel: "rel \<in> set (tenant_proveedores (pending s))" "clave rel = clave r"
      by auto
    have n: "tp_rfc r \<in> set (rfcs_nuevos s t items)" using r by (rule rfc_relaciones_nuevas)
    have "tp_tenant_id rel = t" "tp_rfc rel = tp_rfc r"
      using rel(2) tenant_relaciones_nuevas [OF r] by (auto simp: clave_def)
    then show False
      using existentes_None [of "tp_rfc r" items s t rel] set_rfcs_nuevos [OF n] rel(1) by simp
  qed
  show ?thesis using 1 2 by (auto simp: viola_uq_tenant_proveedor_def list_ex_iff)
qed

lemma create_relations_distinct:
  assumes "distinct (rfcs_nuevos s t items)"
  shows "create_relations_batch_with_status s t (proveedores_nuevos_de s t items l)
       = (s\<lparr>pending := (pending s)\<lparr>tenant_proveedores :=
               tenant_proveedores (pending s) @ relaciones_nuevas s t items l\<rparr>\<rparr>,
          relaciones_nuevas s t items l)"
  using no_viola_uq [OF assms, of l]
  by (simp add: create_relations_batch_with_status_def relaciones_nuevas_def Let_def)

lemma length_relaciones_nuevas [simp]:
  "length (relaciones_nuevas s t items l) = length (rfcs_nuevos s t items)"
  by (simp add: relaciones_nuevas_def proveedores_nuevos_de_def)

lemma length_proveedores_nuevos [simp]:
  "length (proveedores_nuevos_de s t items l) = length (rfcs_nuevos s t items)"
  by (simp add: proveedores_nuevos_de_def)

lemma activo_relaciones_nuevas:
  "map tp_activo (relaciones_nuevas s t items l) = map n_activo (proveedores_nuevos_de s t items l)"
  unfolding relaciones_nuevas_def by (rule map_tp_activo_enumerate)

lemma regla_relaciones_nuevas:
  "map (\<lambda>tp. (tp_rfc tp, tp_activo tp)) (relaciones_nuevas s t items l)
     = regla_burst (contar_activos (pending s) t) (limite_burst l) (rfcs_nuevos s t items)"
proof -
  let ?rb = "regla_burst (contar_activos (pending s) t) (limite_burst l) (rfcs_nuevos s t items)"
  have a: "map tp_activo (relaciones_nuevas s t items l) = map snd ?rb"
    by (simp add: activo_relaciones_nuevas proveedores_nuevos_de_def comp_def)
  have r: "map tp_rfc (relaciones_nuevas s t items l) = map fst ?rb"
    by (simp add: map_tp_rfc_relaciones_nuevas)
  show ?thesis unfolding map_pair_zip a r by (rule zip_map_fst_snd)
qed

lemma filter_existentes_nuevo:
  assumes "existentes s t items r = None"
  shows "[x \<leftarrow> resultados_existentes_de s t items. rr_rfc x = r] = []"
  using assms by (auto simp: resultados_existentes_de_def filter_empty_conv)

lemma dict_of_resultados_append:
  "[x \<leftarrow> A. rr_rfc x = r] = [] \<Longrightarrow>
   dict_of (map (\<lambda>x. (rr_rfc x, x)) (A @ B)) r = dict_of (map (\<lambda>x. (rr_rfc x, x)) B) r"
  unfolding dict_of_resultados filter_append by simp

lemma resultado_de_nuevo:
  assumes d: "distinct (rfcs_nuevos s t items)" and k: "k < length (rfcs_nuevos s t items)"
  shows "dict_of (map (\<lambda>x. (rr_rfc x, x))
            (resultados_existentes_de s t items
             @ map (resultado_nuevo (dict_of (map (\<lambda>rel. (tp_rfc rel, rel)) (relaciones_nuevas s t items l))))
                 (proveedores_nuevos_de s t items l))) (rfcs_nuevos s t items ! k)
       = Some \<lparr>rr_rfc = rfcs_nuevos s t items ! k,
               rr_proveedor_id = Some (tp_id (relaciones_nuevas s t items l ! k)),
               rr_error = (if tp_activo (relaciones_nuevas s t items l ! k) then None
                           else Some inactivo_por_burst)\<rparr>"
proof -
  let ?r = "rfcs_nuevos s t items ! k"
  let ?rel = "relaciones_nuevas s t items l"
  let ?nv = "proveedores_nuevos_de s t items l"
  let ?d = "dict_of (map (\<lambda>rel. (tp_rfc rel, rel)) ?rel)"
  let ?B = "map (resultado_nuevo ?d) ?nv"
  have rk: "tp_rfc (?rel ! k) = ?r"
    using k nth_map [of k ?rel tp_rfc] by (simp add: map_tp_rfc_relaciones_nuevas)
  have nk: "n_rfc (?nv ! k) = ?r"
    using k nth_map [of k ?nv n_rfc] by (simp add: map_n_rfc_nuevos)
  have ak: "n_activo (?nv ! k) = tp_activo (?rel ! k)"
    using k nth_map [of k ?nv n_activo] nth_map [of k ?rel tp_activo]
    by (simp add: activo_relaciones_nuevas)
  have "distinct (map tp_rfc ?rel)" using d by (simp add: map_tp_rfc_relaciones_nuevas)
  then have "?d (tp_rfc (?rel ! k)) = Some (?rel ! k)"
    using k by (intro dict_of_distinct) simp_all
  then have dk: "?d ?r = Some (?rel ! k)" by (simp only: rk)
  have mB: "map rr_rfc ?B = rfcs_nuevos s t items"
    by (simp add: comp_def map_n_rfc_nuevos [of s t items l, symmetric])
  have "distinct (map rr_rfc ?B)" using d by (simp only: mB)
  then have "dict_of (map (\<lambda>x. (rr_rfc x, x)) ?B) (rr_rfc (?B ! k)) = Some (?B ! k)"
    using k by (intro dict_of_distinct) simp_all
  moreover have "rr_rfc (?B ! k) = ?r" using k nk by simp
  moreover have "?B ! k = \<lparr>rr_rfc = ?r, rr_proveedor_id = Some (tp_id (?rel ! k)),
               rr_error = (if tp_activo (?rel ! k) then None else Some inactivo_por_burst)\<rparr>"
    using k by (simp add: resultado_nuevo_def nk dk ak)
  ultimately have B: "dict_of (map (\<lambda>x. (rr_rfc x, x)) ?B) ?r
       = Some \<lparr>rr_rfc = ?r, rr_proveedor_id = Some (tp_id (?rel ! k)),
               rr_error = (if tp_activo (?rel ! k) then None else Some inactivo_por_burst)\<rparr>"
    by simp
  have "?r \<in> set (rfcs_nuevos s t items)" using k by simp
  then have "existentes s t items ?r = None" using set_rfcs_nuevos by blast
  then have "[x \<leftarrow> resultados_existentes_de s t items. rr_rfc x = ?r] = []"
    by (rule filter_existentes_nuevo)
  then show ?thesis by (simp only: dict_of_resultados_append B)
qed

lemma rfcs_nuevos_eq:
  "rfcs_nuevos s t items
     = [r \<leftarrow> rfcs_validos items.
          list_all (\<lambda>tp. \<not> (tp_tenant_id tp = t \<and> tp_rfc tp = r)) (tenant_proveedores (pending s))]"
proof -
  have "(existentes s t items r = None)
      = list_all (\<lambda>tp. \<not> (tp_tenant_id tp = t \<and> tp_rfc tp = r)) (tenant_proveedores (pending s))"
    if "r \<in> set (rfcs_validos items)" for r
    unfolding existentes_eq [OF that, of s t]
    by (auto simp: filter_empty_conv list_all_iff)
  then show ?thesis unfolding rfcs_nuevos_def by (intro filter_cong) simp_all
qed

lemma create_relations_repetidos:
  assumes "\<not> distinct (rfcs_nuevos s t items)"
  shows "create_relations_batch_with_status s t (proveedores_nuevos_de s t items l) = (rollback s, [])"
proof -
  have "\<not> distinct (map clave (relaciones_nuevas s t items l))"
    unfolding clave_relaciones_nuevas using assms by (simp add: distinct_map)
  then have "viola_uq_tenant_proveedor (tenant_proveedores (pending s)) (relaciones_nuevas s t items l)"
    by (simp add: viola_uq_tenant_proveedor_def)
  then show ?thesis
    by (simp add: create_relations_batch_with_status_def relaciones_nuevas_def Let_def)
qed

lemma resultado_de_nuevo_fallido:
  assumes "r \<in> set (rfcs_nuevos s t items)"
  shows "dict_of (map (\<lambda>x. (rr_rfc x, x))
            (resultados_existentes_de s t items
             @ map (resultado_nuevo (dict_of (map (\<lambda>rel. (tp_rfc rel, rel)) [])))
                 (proveedores_nuevos_de s t items l))) r
       = Some \<lparr>rr_rfc = r, rr_proveedor_id = None, rr_error = Some ''Error creando relacion''\<rparr>"
proof -
  let ?nv = "proveedores_nuevos_de s t items l"
  let ?B = "map (resultado_nuevo (dict_of (map (\<lambda>rel. (tp_rfc rel, rel)) []))) ?nv"
  let ?F = "[x \<leftarrow> ?B. rr_rfc x = r]"
  let ?e = "\<lparr>rr_rfc = r, rr_proveedor_id = None, rr_error = Some ''Error creando relacion''\<rparr>"
  have "r \<in> set (map n_rfc ?nv)" using assms by (simp only: map_n_rfc_nuevos)
  then obtain p where p: "p \<in> set ?nv" "n_rfc p = r" by auto
  then have "resultado_nuevo (dict_of (map (\<lambda>rel. (tp_rfc rel, rel)) [])) p \<in> set ?F" by simp
  then have ne: "?F \<noteq> []" by (metis empty_iff list.set(1))
  have "x = ?e" if "x \<in> set ?F" for x
    using that by (auto simp: resultado_nuevo_def)
  then have l: "last ?F = ?e" using last_in_set [OF ne] by blast
  have "existentes s t items r = None" using assms set_rfcs_nuevos by blast
  then have "[x \<leftarrow> resultados_existentes_de s t items. rr_rfc x = r] = []"
    by (rule filter_existentes_nuevo)
  then have "dict_of (map (\<lambda>x. (rr_rfc x, x)) (resultados_existentes_de s t items @ ?B)) r
      = dict_of (map (\<lambda>x. (rr_rfc x, x)) ?B) r"
    by (rule dict_of_resultados_append)
  also have "\<dots> = Some (last ?F)" using ne by (simp only: dict_of_resultados if_False)
  finally show ?thesis by (simp only: l)
qed

lemma agregar_repetidos:
  assumes "find (\<lambda>t. t_id t = tenant_id) (tenants (pending s)) = Some tenant"
    and "\<not> distinct (rfcs_nuevos s tenant_id items)"
  shows "\<exists>res. agregar_proveedores_batch s tenant_id items (Some L) = (rollback s, Inr res)
     \<and> length res = length (rfcs_validos items)
     \<and> (\<forall>j < length res. rfcs_validos items ! j \<in> set (rfcs_nuevos s tenant_id items) \<longrightarrow>
           res ! j = \<lparr>rr_rfc = rfcs_validos items ! j, rr_proveedor_id = None,
                      rr_error = Some ''Error creando relacion''\<rparr>)"
proof -
  have nn: "rfcs_nuevos s tenant_id items \<noteq> []" using assms(2) by auto
  then have ne: "rfcs_validos items \<noteq> []" by (auto simp: rfcs_nuevos_def)
  have pn: "proveedores_nuevos_de s tenant_id items L \<noteq> []"
    using nn by (simp add: proveedores_nuevos_Nil)
  note c = create_relations_repetidos [OF assms(2), of L]
  let ?res = "ordenar_resultados (rfcs_validos items)
                (resultados_existentes_de s tenant_id items
                 @ map (resultado_nuevo (dict_of (map (\<lambda>rel. (tp_rfc rel, rel)) [])))
                     (proveedores_nuevos_de s tenant_id items L))"
  have a: "agregar_proveedores_batch s tenant_id items (Some L) = (rollback s, Inr ?res)"
    using ne assms(1) pn by (simp add: agregar_proveedores_batch_eq c)
  have "?res ! j = \<lparr>rr_rfc = rfcs_validos items ! j, rr_proveedor_id = None,
                      rr_error = Some ''Error creando relacion''\<rparr>"
    if "j < length ?res" "rfcs_validos items ! j \<in> set (rfcs_nuevos s tenant_id items)" for j
  proof -
    have j': "j < length (rfcs_validos items)" using that(1) by simp
    show ?thesis
      unfolding ordenar_nth [OF j'] resultado_de_nuevo_fallido [OF that(2), of L] by simp
  qed
  then show ?thesis using a by (intro exI [of _ ?res]) simp
qed

lemma agregar_distintos:
  assumes "find (\<lambda>t. t_id t = tenant_id) (tenants (pending s)) = Some tenant"
  shows "\<exists>s' res. agregar_proveedores_batch s tenant_id items (Some limite_rfcs) = (s', Inr res)
     \<and> length res = length (rfcs_validos items)
     \<and> (distinct (rfcs_nuevos s tenant_id items) \<longrightarrow>
          (\<exists>creadas.
             tenant_proveedores (pending s') = tenant_proveedores (pending s) @ creadas
             \<and> map (\<lambda>tp. (tp_rfc tp, tp_activo tp)) creadas
                 = regla_burst (contar_activos (pending s) tenant_id) (limite_burst limite_rfcs)
                     (rfcs_nuevos s tenant_id items)
             \<and> (\<forall>k < length creadas.
                   tp_tenant_id (creadas ! k) = tenant_id
                   \<and> tp_rfc (creadas ! k) = rfcs_nuevos s tenant_id items ! k
                   \<and> tp_activo (creadas ! k)
                       = (contar_activos (pending s) tenant_id + k < limite_burst limite_rfcs)
                   \<and> (\<forall>j < length res. rfcs_validos items ! j = tp_rfc (creadas ! k) \<longrightarrow>
                         res ! j = \<lparr>rr_rfc = tp_rfc (creadas ! k),
                                    rr_proveedor_id = Some (tp_id (creadas ! k)),
                                    rr_error = (if tp_activo (creadas ! k) then None
                                                else Some inactivo_por_burst)\<rparr>))))"
proof (cases "rfcs_validos items = []")
  case True
  then have n: "rfcs_nuevos s tenant_id items = []" by (simp add: rfcs_nuevos_def)
  have "agregar_proveedores_batch s tenant_id items (Some limite_rfcs) = (s, Inr [])"
    using True by (simp add: agregar_proveedores_batch_eq)
  then show ?thesis using True n by simp
next
  case ne: False
  let ?A = "contar_activos (pending s) tenant_id"
  let ?B = "limite_burst limite_rfcs"
  let ?nu = "rfcs_nuevos s tenant_id items"
  let ?rel = "relaciones_nuevas s tenant_id items limite_rfcs"
  show ?thesis
  proof (cases "?nu = []")
    case True
    then have "proveedores_nuevos_de s tenant_id items limite_rfcs = []"
      by (simp add: proveedores_nuevos_Nil)
    then have "agregar_proveedores_batch s tenant_id items (Some limite_rfcs)
        = (s, Inr (ordenar_resultados (rfcs_validos items) (resultados_existentes_de s tenant_id items)))"
      using ne assms by (simp add: agregar_proveedores_batch_eq)
    then show ?thesis using True by simp
  next
    case nn: False
    then have pn: "proveedores_nuevos_de s tenant_id items limite_rfcs \<noteq> []"
      by (simp add: proveedores_nuevos_Nil)
    let ?c = "create_relations_batch_with_status s tenant_id (proveedores_nuevos_de s tenant_id items limite_rfcs)"
    let ?res = "ordenar_resultados (rfcs_validos items)
                  (resultados_existentes_de s tenant_id items
                   @ map (resultado_nuevo (dict_of (map (\<lambda>rel. (tp_rfc rel, rel)) (snd ?c))))
                       (proveedores_nuevos_de s tenant_id items limite_rfcs))"
    have a: "agregar_proveedores_batch s tenant_id items (Some limite_rfcs) = (fst ?c, Inr ?res)"
      using ne assms pn by (simp add: agregar_proveedores_batch_eq)
    have len: "length ?res = length (rfcs_validos items)" by simp
    have main: "\<exists>creadas.
             tenant_proveedores (pending (fst ?c)) = tenant_proveedores (pending s) @ creadas
             \<and> map (\<lambda>tp. (tp_rfc tp, tp_activo tp)) creadas = regla_burst ?A ?B ?nu
             \<and> (\<forall>k < length creadas.
                   tp_tenant_id (creadas ! k) = tenant_id
                   \<and> tp_rfc (creadas ! k) = ?nu ! k
                   \<and> tp_activo (creadas ! k) = (?A + k < ?B)
                   \<and> (\<forall>j < length ?res. rfcs_validos items ! j = tp_rfc (creadas ! k) \<longrightarrow>
                         ?res ! j = \<lparr>rr_rfc = tp_rfc (creadas ! k),
                                    rr_proveedor_id = Some (tp_id (creadas ! k)),
                                    rr_error = (if tp_activo (creadas ! k) then None
                                                else Some inactivo_por_burst)\<rparr>))"
      if d: "distinct ?nu"
    proof (intro exI [of _ ?rel] conjI allI impI)
      note c = create_relations_distinct [OF d, of limite_rfcs]
      show "tenant_proveedores (pending (fst ?c)) = tenant_proveedores (pending s) @ ?rel"
        by (simp add: c)
      show "map (\<lambda>tp. (tp_rfc tp, tp_activo tp)) ?rel = regla_burst ?A ?B ?nu"
        by (rule regla_relaciones_nuevas)
      fix k assume k: "k < length ?rel"
      then have k': "k < length ?nu" by simp
      show "tp_tenant_id (?rel ! k) = tenant_id"
        using k tenant_relaciones_nuevas nth_mem by blast
      have "map (\<lambda>tp. (tp_rfc tp, tp_activo tp)) ?rel ! k = regla_burst ?A ?B ?nu ! k"
        by (simp only: regla_relaciones_nuevas)
      then have p: "(tp_rfc (?rel ! k), tp_activo (?rel ! k)) = (?nu ! k, ?A + k < ?B)"
        using k regla_burst_nth [OF k', of ?A ?B] by simp
      show rk: "tp_rfc (?rel ! k) = ?nu ! k" using p by simp
      show "tp_activo (?rel ! k) = (?A + k < ?B)" using p by simp
      fix j assume j: "j < length ?res" and e: "rfcs_validos items ! j = tp_rfc (?rel ! k)"
      have j': "j < length (rfcs_validos items)" using j by simp
      show "?res ! j = \<lparr>rr_rfc = tp_rfc (?rel ! k), rr_proveedor_id = Some (tp_id (?rel ! k)),
                        rr_error = (if tp_activo (?rel ! k) then None else Some inactivo_por_burst)\<rparr>"
        unfolding ordenar_nth [OF j'] e rk c snd_conv resultado_de_nuevo [OF d k', of limite_rfcs]
        by simp
    qed
    show ?thesis using a len main by blast
  qed
qed

text \<open>
  C1 (burst rule of the batch add), for a numeric limit \<open>L\<close>.  Let \<open>A\<close> be the number of
  active memberships of the tenant before the call, \<open>B = L + (15 * L) div 100\<close> the
  ceiling, and the new RFCs the valid normalised RFCs of the batch, in input order, that
  no membership of the tenant holds.  For an existing tenant the call returns a result
  list, one entry per valid RFC of the input, whatever \<open>A\<close> is: it never raises because
  the ceiling is passed.  When the new RFCs are pairwise distinct, the call appends one
  membership of the tenant per new RFC, in input order, and nothing else; the rows are
  those of \<open>regla_burst A B\<close>, which walks the new RFCs with a counter: below \<open>B\<close> the RFC
  is active and the counter grows by one, otherwise it is inactive.  So the \<open>k\<close>-th new
  row (from 0) is active exactly when \<open>A + k < B\<close>, and the entry of its RFC in the result
  carries the new row's id, with no message when active and the burst advisory when
  inactive.  When a new RFC is repeated in the batch, the insert breaks the constraint
  \<open>uq_tenant_proveedor\<close>: the repository rolls the session back, no membership is
  created, and the entry of every new RFC reports "Error creando relacion" without id.
\<close>

theorem C1_regla_burst:
  assumes "find (\<lambda>t. t_id t = tenant_id) (tenants (pending s)) = Some tenant"
  shows "\<exists>s' res. agregar_proveedores_batch s tenant_id items (Some L) = (s', Inr res)
     \<and> length res = length (rfcs_validos items)
     \<and> rfcs_nuevos s tenant_id items
          = [r \<leftarrow> rfcs_validos items.
               list_all (\<lambda>tp. \<not> (tp_tenant_id tp = tenant_id \<and> tp_rfc tp = r))
                 (tenant_proveedores (pending s))]
     \<and> (distinct (rfcs_nuevos s tenant_id items) \<longrightarrow>
          (\<exists>creadas.
             tenant_proveedores (pending s') = tenant_proveedores (pending s) @ creadas
             \<and> map (\<lambda>tp. (tp_rfc tp, tp_activo tp)) creadas
                 = regla_burst
                     (length [tp \<leftarrow> tenant_proveedores (pending s). tp_tenant_id tp = tenant_id \<and> tp_activo tp])
                     (L + (L * 15) div 100)
                     (rfcs_nuevos s tenant_id items)
             \<and> (\<forall>k < length creadas.
                   tp_tenant_id (creadas ! k) = tenant_id
                   \<and> tp_rfc (creadas ! k) = rfcs_nuevos s tenant_id items ! k
                   \<and> tp_activo (creadas ! k)
                       = (length [tp \<leftarrow> tenant_proveedores (pending s). tp_tenant_id tp = tenant_id \<and> tp_activo tp] + k
                            < L + (L * 15) div 100)
                   \<and> (\<forall>j < length res. rfcs_validos items ! j = tp_rfc (creadas ! k) \<longrightarrow>
                         res ! j = \<lparr>rr_rfc = tp_rfc (creadas ! k),
                                    rr_proveedor_id = Some (tp_id (creadas ! k)),
                                    rr_error = (if tp_activo (creadas ! k) then None
                                                else Some inactivo_por_burst)\<rparr>))))
     \<and> (\<not> distinct (rfcs_nuevos s tenant_id items) \<longrightarrow>
          s' = rollback s
          \<and> (\<forall>j < length res. rfcs_validos items ! j \<in> set (rfcs_nuevos s tenant_id items) \<longrightarrow>
                res ! j = \<lparr>rr_rfc = rfcs_validos items ! j, rr_proveedor_id = None,
                           rr_error = Some ''Error creando relacion''\<rparr>))"
proof (cases "distinct (rfcs_nuevos s tenant_id items)")
  case True
  show ?thesis
    using agregar_distintos [OF assms, of items L] True rfcs_nuevos_eq [of s tenant_id items]
    unfolding contar_activos_def limite_burst_def by auto
next
  case False
  show ?thesis
    using agregar_repetidos [OF assms False, of L] False rfcs_nuevos_eq [of s tenant_id items]
    by auto
qed

theorem C10_rfcs_invalidos_omitidos_witness:
  "rfcs_validos lote_invalido = []
   \<and> find (\<lambda>t. t_id t = 99) (tenants (pending sesion_ejemplo)) = None
   \<and> agregar_proveedores_batch sesion_ejemplo 99 lote_invalido (Some 2) = (sesion_ejemplo, Inr [])
   \<and> agregar_proveedores_batch sesion_ejemplo 99 lote_invalido None = (sesion_ejemplo, Inr [])
   \<and> rfcs_validos lote_mixto = [''FFF010101FF1'', rfc_c]
   \<and> agregar_proveedores_batch sesion_ejemplo 99 lote_mixto (Some 2)
        = (sesion_ejemplo, Inl (tenant_no_encontrado 99))
   \<and> upper_strip (pi_rfc (hd lote_mixto)) = ''ABC''
   \<and> (\<exists>s' res. agregar_proveedores_batch sesion_burst 4 lote_mixto (Some 20) = (s', Inr res)
         \<and> map rr_rfc res = [''FFF010101FF1'', rfc_c]
         \<and> ''ABC'' \<notin> rr_rfc ` set res
         \<and> ''ABC'' \<notin> tp_rfc ` set (tenant_proveedores (pending s')))"
proof -
  have h1: "rfcs_validos lote_invalido = []" by code_simp
  have h2: "find (\<lambda>t. t_id t = 99) (tenants (pending sesion_ejemplo)) = None" by code_simp
  have h3: "rfcs_validos lote_mixto = [''FFF010101FF1'', rfc_c]" by code_simp
  have h4: "hd lote_mixto \<in> set lote_mixto" "upper_strip (pi_rfc (hd lote_mixto)) = ''ABC''"
    by code_simp+
  have h5: "''ABC'' \<notin> tp_rfc ` set (tenant_proveedores (pending sesion_burst))"
    "''ABC'' \<notin> tp_rfc ` set (tenant_proveedores (committed sesion_burst))"
    by code_simp+
  have h6: "find (\<lambda>t. t_id t = 4) (tenants (pending sesion_burst)) = Some tenant_20" by code_simp
  obtain s1 res1 where a: "agregar_proveedores_batch sesion_burst 4 lote_mixto (Some 20) = (s1, Inr res1)"
    using agregar_distintos [OF h6, of lote_mixto 20] by blast
  note t1 = C10_rfcs_invalidos_omitidos [of lote_invalido sesion_ejemplo 99 "Some 2"]
  note t2 = C10_rfcs_invalidos_omitidos [of lote_mixto sesion_ejemplo 99 "Some 2"]
  note t3 = C10_rfcs_invalidos_omitidos [of lote_mixto sesion_burst 4 "Some 20"]
  have c1: "agregar_proveedores_batch sesion_ejemplo 99 lote_invalido (Some 2) = (sesion_ejemplo, Inr [])"
    using t1 h1 by blast
  have c0: "agregar_proveedores_batch sesion_ejemplo 99 lote_invalido None = (sesion_ejemplo, Inr [])"
    using C10_rfcs_invalidos_omitidos [of lote_invalido sesion_ejemplo 99 None] h1 by blast
  have c2: "agregar_proveedores_batch sesion_ejemplo 99 lote_mixto (Some 2)
        = (sesion_ejemplo, Inl (tenant_no_encontrado 99))"
    using t2 h2 h3 by simp
  have l: "length (upper_strip (pi_rfc (hd lote_mixto))) \<noteq> 12 \<and> length (upper_strip (pi_rfc (hd lote_mixto))) \<noteq> 13"
    unfolding h4(2) by simp
  have c3: "map rr_rfc res1 = rfcs_validos lote_mixto
        \<and> upper_strip (pi_rfc (hd lote_mixto)) \<notin> rr_rfc ` set res1
        \<and> (\<forall>tp \<in> set (tenant_proveedores (pending s1)).
              tp_rfc tp = upper_strip (pi_rfc (hd lote_mixto)) \<longrightarrow>
              tp \<in> set (tenant_proveedores (pending sesion_burst))
              \<or> tp \<in> set (tenant_proveedores (committed sesion_burst)))"
    using t3 a h4(1) l by blast
  note c3' = c3 [unfolded h4(2)]
  have c4: "''ABC'' \<notin> tp_rfc ` set (tenant_proveedores (pending s1))"
  proof
    assume "''ABC'' \<in> tp_rfc ` set (tenant_proveedores (pending s1))"
    then obtain tp where tp: "tp \<in> set (tenant_proveedores (pending s1))" "tp_rfc tp = ''ABC''"
      by auto
    then have "tp \<in> set (tenant_proveedores (pending sesion_burst))
        \<or> tp \<in> set (tenant_proveedores (committed sesion_burst))"
      using c3' by simp
    then have "tp_rfc tp \<in> tp_rfc ` set (tenant_proveedores (pending sesion_burst))
        \<or> tp_rfc tp \<in> tp_rfc ` set (tenant_proveedores (committed sesion_burst))"
      by (metis imageI)
    then show False using h5 unfolding tp(2) by simp
  qed
  have c6: "map rr_rfc res1 = [''FFF010101FF1'', rfc_c]" "''ABC'' \<notin> rr_rfc ` set res1"
    using c3' unfolding h3 by simp_all
  have c5: "\<exists>s' res. agregar_proveedores_batch sesion_burst 4 lote_mixto (Some 20) = (s', Inr res)
         \<and> map rr_rfc res = [''FFF010101FF1'', rfc_c]
         \<and> ''ABC'' \<notin> rr_rfc ` set res
         \<and> ''ABC'' \<notin> tp_rfc ` set (tenant_proveedores (pending s'))"
    by (intro exI [of _ s1] exI [of _ res1] conjI a c6 c4)
  show ?thesis using h1 h2 c1 c0 h3 c2 h4(2) c5 by blast
qed

theorem C8_readicion_idempotente_witness:
  "find (\<lambda>t. t_id t = 5) (tenants (pending sesion_cuota)) = Some tenant_5
   \<and> rfcs_validos lote_cuota = [''FFF010101FF1'', rfc_c, ''GGG010101GG1'', ''HHH010101HH1'']
   \<and> relacion 22 5 rfc_c False 3 \<in> set (tenant_proveedores (pending sesion_cuota))
   \<and> (\<exists>s' res. agregar_proveedores_batch sesion_cuota 5 lote_cuota (Some 4) = (s', Inr res)
         \<and> length res = 4
         \<and> rr_rfc (res ! 1) = rfc_c
         \<and> rr_error (res ! 1) = Some (ya_existe rfc_c)
         \<and> rr_proveedor_id (res ! 1) = Some 22
         \<and> [tp \<leftarrow> tenant_proveedores (pending s'). tp_tenant_id tp = 5 \<and> tp_rfc tp = rfc_c]
              = [relacion 22 5 rfc_c False 3]
         \<and> committed s' = committed sesion_cuota)
   \<and> find (\<lambda>t. t_id t = 2) (tenants (pending sesion_cuota)) = Some tenant_2
   \<and> t_plan tenant_2 = Some \<lparr>limite_proveedores = None\<rparr>
   \<and> rfcs_validos lote_existente = [rfc_b]
   \<and> relacion 24 2 rfc_b False 5 \<in> set (tenant_proveedores (pending sesion_cuota))
   \<and> agregar_proveedores_batch sesion_cuota 2 lote_existente None
        = (sesion_cuota, Inl (Exception ''TypeError''))"
proof -
  have h1: "find (\<lambda>t. t_id t = 5) (tenants (pending sesion_cuota)) = Some tenant_5" by code_simp
  have h2: "rfcs_validos lote_cuota = [''FFF010101FF1'', rfc_c, ''GGG010101GG1'', ''HHH010101HH1'']"
    by code_simp
  have h3: "[tp \<leftarrow> tenant_proveedores (pending sesion_cuota). tp_tenant_id tp = 5 \<and> tp_rfc tp = rfc_c]
         = [relacion 22 5 rfc_c False 3]"
    "[tp \<leftarrow> tenant_proveedores (committed sesion_cuota). tp_tenant_id tp = 5 \<and> tp_rfc tp = rfc_c]
         = [relacion 22 5 rfc_c False 3]"
    by code_simp+
  have h4: "tp_tenant_id (relacion 22 5 rfc_c False 3) = 5" "tp_rfc (relacion 22 5 rfc_c False 3) = rfc_c"
    "tp_id (relacion 22 5 rfc_c False 3) = 22"
    by (simp_all add: relacion_def)
  have m: "rfc_c \<in> set (rfcs_validos lote_cuota)" unfolding h2 by simp
  have r: "relacion 22 5 rfc_c False 3 \<in> set (tenant_proveedores (pending sesion_cuota))"
    by code_simp
  have g1: "find (\<lambda>t. t_id t = 2) (tenants (pending sesion_cuota)) = Some tenant_2" by code_simp
  have g2: "t_plan tenant_2 = Some \<lparr>limite_proveedores = None\<rparr>" by (simp add: tenant_2_def)
  have g3: "rfcs_validos lote_existente = [rfc_b]" by code_simp
  have g4: "relacion 24 2 rfc_b False 5 \<in> set (tenant_proveedores (pending sesion_cuota))"
    by code_simp
  have g5: "tp_tenant_id (relacion 24 2 rfc_b False 5) = 2" "tp_rfc (relacion 24 2 rfc_b False 5) = rfc_b"
    by (simp_all add: relacion_def)
  have g6: "rfc_b \<in> set (rfcs_validos lote_existente)" unfolding g3 by simp
  have n: "agregar_proveedores_batch sesion_cuota 2 lote_existente None
        = (sesion_cuota, Inl (Exception ''TypeError''))"
    using C8_readicion_idempotente [OF g1 g6 g4 g5(1) g5(2), of 0] by blast
  obtain s' res where a: "agregar_proveedores_batch sesion_cuota 5 lote_cuota (Some 4) = (s', Inr res)"
    and len: "length res = length (rfcs_validos lote_cuota)"
    and e: "\<forall>j < length res. rfcs_validos lote_cuota ! j = rfc_c \<longrightarrow>
           rr_rfc (res ! j) = rfc_c \<and> rr_error (res ! j) = Some (ya_existe rfc_c)
           \<and> (\<exists>row' \<in> set (tenant_proveedores (pending sesion_cuota)).
                 tp_tenant_id row' = 5 \<and> tp_rfc row' = rfc_c
                 \<and> rr_proveedor_id (res ! j) = Some (tp_id row'))"
    and f: "[tp \<leftarrow> tenant_proveedores (pending s'). tp_tenant_id tp = 5 \<and> tp_rfc tp = rfc_c]
           = [tp \<leftarrow> tenant_proveedores (pending sesion_cuota). tp_tenant_id tp = 5 \<and> tp_rfc tp = rfc_c]
        \<or> [tp \<leftarrow> tenant_proveedores (pending s'). tp_tenant_id tp = 5 \<and> tp_rfc tp = rfc_c]
           = [tp \<leftarrow> tenant_proveedores (committed sesion_cuota). tp_tenant_id tp = 5 \<and> tp_rfc tp = rfc_c]"
    and c: "committed s' = committed sesion_cuota"
    using C8_readicion_idempotente [OF h1 m r h4(1) h4(2), of 4] by blast
  have l4: "length res = 4" using len unfolding h2 by simp
  have i1: "1 < length res" using l4 by simp
  have v1: "rfcs_validos lote_cuota ! 1 = rfc_c" unfolding h2 by simp
  note e' = e [rule_format, OF i1 v1]
  have e1: "rr_rfc (res ! 1) = rfc_c" "rr_error (res ! 1) = Some (ya_existe rfc_c)"
    using e' by blast+
  obtain row' where row': "row' \<in> set (tenant_proveedores (pending sesion_cuota))"
      "tp_tenant_id row' = 5" "tp_rfc row' = rfc_c" "rr_proveedor_id (res ! 1) = Some (tp_id row')"
    using e' by blast
  have "row' \<in> set [tp \<leftarrow> tenant_proveedores (pending sesion_cuota). tp_tenant_id tp = 5 \<and> tp_rfc tp = rfc_c]"
    using row' by simp
  then have "row' = relacion 22 5 rfc_c False 3" unfolding h3 by simp
  then have e2: "rr_proveedor_id (res ! 1) = Some 22" using row'(4) h4(3) by simp
  have f2: "[tp \<leftarrow> tenant_proveedores (pending s'). tp_tenant_id tp = 5 \<and> tp_rfc tp = rfc_c]
              = [relacion 22 5 rfc_c False 3]"
    using f unfolding h3 by simp
  have x: "\<exists>s' res. agregar_proveedores_batch sesion_cuota 5 lote_cuota (Some 4) = (s', Inr res)
         \<and> length res = 4
         \<and> rr_rfc (res ! 1) = rfc_c
         \<and> rr_error (res ! 1) = Some (ya_existe rfc_c)
         \<and> rr_proveedor_id (res ! 1) = Some 22
         \<and> [tp \<leftarrow> tenant_proveedores (pending s'). tp_tenant_id tp = 5 \<and> tp_rfc tp = rfc_c]
              = [relacion 22 5 rfc_c False 3]
         \<and> committed s' = committed sesion_cuota"
    by (intro exI [of _ s'] exI [of _ res] conjI a l4 e1 e2 f2 c)
  show ?thesis by (intro conjI h1 h2 r x g1 g2 g3 g4 n)
qed

theorem C1_regla_burst_witness:
  "find (\<lambda>t. t_id t = 4) (tenants (pending sesion_burst)) = Some tenant_20
   \<and> distinct (rfcs_nuevos sesion_burst 4 lote_24)
   \<and> length (rfcs_nuevos sesion_burst 4 lote_24) = 24
   \<and> length [tp \<leftarrow> tenant_proveedores (pending sesion_burst). tp_tenant_id tp = 4 \<and> tp_activo tp] = 0
   \<and> (20::nat) + (20 * 15) div 100 = 23
   \<and> (\<exists>s' res creadas. agregar_proveedores_batch sesion_burst 4 lote_24 (Some 20) = (s', Inr res)
         \<and> tenant_proveedores (pending s') = tenant_proveedores (pending sesion_burst) @ creadas
         \<and> map tp_rfc creadas = rfcs_nuevos sesion_burst 4 lote_24
         \<and> map tp_activo creadas = replicate 23 True @ [False]
         \<and> map rr_error res = replicate 23 None @ [Some inactivo_por_burst])
   \<and> find (\<lambda>t. t_id t = 5) (tenants (pending sesion_cuota)) = Some tenant_5
   \<and> rfcs_validos lote_cuota = [''FFF010101FF1'', rfc_c, ''GGG010101GG1'', ''HHH010101HH1'']
   \<and> rfcs_nuevos sesion_cuota 5 lote_cuota = [''FFF010101FF1'', ''GGG010101GG1'', ''HHH010101HH1'']
   \<and> length [tp \<leftarrow> tenant_proveedores (pending sesion_cuota). tp_tenant_id tp = 5 \<and> tp_activo tp] = 3
   \<and> (4::nat) + (4 * 15) div 100 = 4
   \<and> (\<exists>s' res creadas. agregar_proveedores_batch sesion_cuota 5 lote_cuota (Some 4) = (s', Inr res)
         \<and> tenant_proveedores (pending s') = tenant_proveedores (pending sesion_cuota) @ creadas
         \<and> map tp_rfc creadas = [''FFF010101FF1'', ''GGG010101GG1'', ''HHH010101HH1'']
         \<and> map tp_activo creadas = [True, False, False]
         \<and> rr_error (res ! 0) = None
         \<and> rr_error (res ! 2) = Some inactivo_por_burst
         \<and> rr_error (res ! 3) = Some inactivo_por_burst)
   \<and> \<not> distinct (rfcs_nuevos sesion_cuota 5 lote_repetido)
   \<and> (\<exists>res. agregar_proveedores_batch sesion_cuota 5 lote_repetido (Some 4) = (rollback sesion_cuota, Inr res)
         \<and> length res = 3
         \<and> res ! 0 = \<lparr>rr_rfc = ''GGG010101GG1'', rr_proveedor_id = None,
                        rr_error = Some ''Error creando relacion''\<rparr>)"
proof -
  have h1: "find (\<lambda>t. t_id t = 4) (tenants (pending sesion_burst)) = Some tenant_20" by code_simp
  have h0: "rfcs_nuevos sesion_burst 4 lote_24 = rfcs_validos lote_24" by code_simp
  have h2: "distinct (rfcs_nuevos sesion_burst 4 lote_24)" by code_simp
  have h3: "length (rfcs_nuevos sesion_burst 4 lote_24) = 24" by code_simp
  have h4: "length [tp \<leftarrow> tenant_proveedores (pending sesion_burst). tp_tenant_id tp = 4 \<and> tp_activo tp] = 0"
    "(20::nat) + (20 * 15) div 100 = 23"
    by code_simp+
  have h5: "map snd (regla_burst
              (length [tp \<leftarrow> tenant_proveedores (pending sesion_burst). tp_tenant_id tp = 4 \<and> tp_activo tp])
              (20 + (20 * 15) div 100) (rfcs_nuevos sesion_burst 4 lote_24))
            = replicate 23 True @ [False]"
    by code_simp
  obtain s' res where a: "agregar_proveedores_batch sesion_burst 4 lote_24 (Some 20) = (s', Inr res)"
    and lr: "length res = length (rfcs_validos lote_24)"
    and c: "distinct (rfcs_nuevos sesion_burst 4 lote_24) \<longrightarrow>
          (\<exists>creadas.
             tenant_proveedores (pending s') = tenant_proveedores (pending sesion_burst) @ creadas
             \<and> map (\<lambda>tp. (tp_rfc tp, tp_activo tp)) creadas
                 = regla_burst
                     (length [tp \<leftarrow> tenant_proveedores (pending sesion_burst). tp_tenant_id tp = 4 \<and> tp_activo tp])
                     (20 + (20 * 15) div 100)
                     (rfcs_nuevos sesion_burst 4 lote_24)
             \<and> (\<forall>k < length creadas.
                   tp_rfc (creadas ! k) = rfcs_nuevos sesion_burst 4 lote_24 ! k
                   \<and> (\<forall>j < length res. rfcs_validos lote_24 ! j = tp_rfc (creadas ! k) \<longrightarrow>
                         res ! j = \<lparr>rr_rfc = tp_rfc (creadas ! k),
                                    rr_proveedor_id = Some (tp_id (creadas ! k)),
                                    rr_error = (if tp_activo (creadas ! k) then None
                                                else Some inactivo_por_burst)\<rparr>)))"
    using C1_regla_burst [OF h1, of lote_24 20] by blast
  obtain creadas where c1: "tenant_proveedores (pending s') = tenant_proveedores (pending sesion_burst) @ creadas"
    and c2: "map (\<lambda>tp. (tp_rfc tp, tp_activo tp)) creadas
                 = regla_burst
                     (length [tp \<leftarrow> tenant_proveedores (pending sesion_burst). tp_tenant_id tp = 4 \<and> tp_activo tp])
                     (20 + (20 * 15) div 100)
                     (rfcs_nuevos sesion_burst 4 lote_24)"
    and c5: "\<forall>k < length creadas.
                   tp_rfc (creadas ! k) = rfcs_nuevos sesion_burst 4 lote_24 ! k
                   \<and> (\<forall>j < length res. rfcs_validos lote_24 ! j = tp_rfc (creadas ! k) \<longrightarrow>
                         res ! j = \<lparr>rr_rfc = tp_rfc (creadas ! k),
                                    rr_proveedor_id = Some (tp_id (creadas ! k)),
                                    rr_error = (if tp_activo (creadas ! k) then None
                                                else Some inactivo_por_burst)\<rparr>)"
    using c h2 by blast
  have "map tp_activo creadas = map snd (map (\<lambda>tp. (tp_rfc tp, tp_activo tp)) creadas)"
    by (simp add: comp_def)
  then have c3: "map tp_activo creadas = replicate 23 True @ [False]"
    unfolding c2 h5 .
  have "map tp_rfc creadas = map fst (map (\<lambda>tp. (tp_rfc tp, tp_activo tp)) creadas)"
    by (simp add: comp_def)
  then have c4: "map tp_rfc creadas = rfcs_nuevos sesion_burst 4 lote_24"
    unfolding c2 by simp
  have lc: "length creadas = length res"
    using arg_cong [OF c4, of length] lr h0 by simp
  have "map rr_error res = map (\<lambda>tp. if tp_activo tp then None else Some inactivo_por_burst) creadas"
  proof (rule nth_equalityI)
    show "length (map rr_error res)
        = length (map (\<lambda>tp. if tp_activo tp then None else Some inactivo_por_burst) creadas)"
      using lc by simp
    fix i assume "i < length (map rr_error res)"
    then have i: "i < length res" "i < length creadas" using lc by simp_all
    have "rfcs_validos lote_24 ! i = tp_rfc (creadas ! i)"
      using c5 i(2) h0 by simp
    then have "res ! i = \<lparr>rr_rfc = tp_rfc (creadas ! i),
                                    rr_proveedor_id = Some (tp_id (creadas ! i)),
                                    rr_error = (if tp_activo (creadas ! i) then None
                                                else Some inactivo_por_burst)\<rparr>"
      using c5 i by blast
    then show "map rr_error res ! i
        = map (\<lambda>tp. if tp_activo tp then None else Some inactivo_por_burst) creadas ! i"
      using i by simp
  qed
  also have "\<dots> = map (\<lambda>a. if a then None else Some inactivo_por_burst) (map tp_activo creadas)"
    by (simp add: comp_def)
  also have "\<dots> = replicate 23 None @ [Some inactivo_por_burst]"
    unfolding c3 by simp
  finally have r: "map rr_error res = replicate 23 None @ [Some inactivo_por_burst]" .
  have x1: "\<exists>s' res creadas. agregar_proveedores_batch sesion_burst 4 lote_24 (Some 20) = (s', Inr res)
         \<and> tenant_proveedores (pending s') = tenant_proveedores (pending sesion_burst) @ creadas
         \<and> map tp_rfc creadas = rfcs_nuevos sesion_burst 4 lote_24
         \<and> map tp_activo creadas = replicate 23 True @ [False]
         \<and> map rr_error res = replicate 23 None @ [Some inactivo_por_burst]"
    by (intro exI [of _ s'] exI [of _ res] exI [of _ creadas] conjI a c1 c4 c3 r)
  have k1: "find (\<lambda>t. t_id t = 5) (tenants (pending sesion_cuota)) = Some tenant_5" by code_simp
  have k0: "rfcs_validos lote_cuota = [''FFF010101FF1'', rfc_c, ''GGG010101GG1'', ''HHH010101HH1'']"
    by code_simp
  have k2: "rfcs_nuevos sesion_cuota 5 lote_cuota = [''FFF010101FF1'', ''GGG010101GG1'', ''HHH010101HH1'']"
    by code_simp
  have k3: "length [tp \<leftarrow> tenant_proveedores (pending sesion_cuota). tp_tenant_id tp = 5 \<and> tp_activo tp] = 3"
    "(4::nat) + (4 * 15) div 100 = 4"
    by code_simp+
  have k5: "map snd (regla_burst
              (length [tp \<leftarrow> tenant_proveedores (pending sesion_cuota). tp_tenant_id tp = 5 \<and> tp_activo tp])
              (4 + (4 * 15) div 100) (rfcs_nuevos sesion_cuota 5 lote_cuota))
            = [True, False, False]"
    by code_simp
  have k7: "distinct (rfcs_nuevos sesion_cuota 5 lote_cuota)" unfolding k2 by simp
  obtain t' rest where b: "agregar_proveedores_batch sesion_cuota 5 lote_cuota (Some 4) = (t', Inr rest)"
    and lt: "length rest = length (rfcs_validos lote_cuota)"
    and d: "distinct (rfcs_nuevos sesion_cuota 5 lote_cuota) \<longrightarrow>
          (\<exists>creadas.
             tenant_proveedores (pending t') = tenant_proveedores (pending sesion_cuota) @ creadas
             \<and> map (\<lambda>tp. (tp_rfc tp, tp_activo tp)) creadas
                 = regla_burst
                     (length [tp \<leftarrow> tenant_proveedores (pending sesion_cuota). tp_tenant_id tp = 5 \<and> tp_activo tp])
                     (4 + (4 * 15) div 100)
                     (rfcs_nuevos sesion_cuota 5 lote_cuota)
             \<and> (\<forall>k < length creadas.
                   tp_rfc (creadas ! k) = rfcs_nuevos sesion_cuota 5 lote_cuota ! k
                   \<and> (\<forall>j < length rest. rfcs_validos lote_cuota ! j = tp_rfc (creadas ! k) \<longrightarrow>
                         rest ! j = \<lparr>rr_rfc = tp_rfc (creadas ! k),
                                    rr_proveedor_id = Some (tp_id (creadas ! k)),
                                    rr_error = (if tp_activo (creadas ! k) then None
                                                else Some inactivo_por_burst)\<rparr>)))"
    using C1_regla_burst [OF k1, of lote_cuota 4] by blast
  obtain nuevas where d1: "tenant_proveedores (pending t') = tenant_proveedores (pending sesion_cuota) @ nuevas"
    and d2: "map (\<lambda>tp. (tp_rfc tp, tp_activo tp)) nuevas
                 = regla_burst
                     (length [tp \<leftarrow> tenant_proveedores (pending sesion_cuota). tp_tenant_id tp = 5 \<and> tp_activo tp])
                     (4 + (4 * 15) div 100)
                     (rfcs_nuevos sesion_cuota 5 lote_cuota)"
    and d5: "\<forall>k < length nuevas.
                   tp_rfc (nuevas ! k) = rfcs_nuevos sesion_cuota 5 lote_cuota ! k
                   \<and> (\<forall>j < length rest. rfcs_validos lote_cuota ! j = tp_rfc (nuevas ! k) \<longrightarrow>
                         rest ! j = \<lparr>rr_rfc = tp_rfc (nuevas ! k),
                                    rr_proveedor_id = Some (tp_id (nuevas ! k)),
                                    rr_error = (if tp_activo (nuevas ! k) then None
                                                else Some inactivo_por_burst)\<rparr>)"
    using d k7 by blast
  have "map tp_activo nuevas = map snd (map (\<lambda>tp. (tp_rfc tp, tp_activo tp)) nuevas)"
    by (simp add: comp_def)
  then have d3: "map tp_activo nuevas = [True, False, False]"
    unfolding d2 k5 .
  have "map tp_rfc nuevas = map fst (map (\<lambda>tp. (tp_rfc tp, tp_activo tp)) nuevas)"
    by (simp add: comp_def)
  then have "map tp_rfc nuevas = rfcs_nuevos sesion_cuota 5 lote_cuota"
    unfolding d2 by simp
  then have d4: "map tp_rfc nuevas = [''FFF010101FF1'', ''GGG010101GG1'', ''HHH010101HH1'']"
    unfolding k2 .
  have ln: "length nuevas = 3" using arg_cong [OF d4, of length] by simp
  have lt4: "length rest = 4" using lt unfolding k0 by simp
  have n0: "tp_rfc (nuevas ! 0) = ''FFF010101FF1''" "tp_activo (nuevas ! 0)"
    using arg_cong [OF d4, of "\<lambda>xs. xs ! 0"] arg_cong [OF d3, of "\<lambda>xs. xs ! 0"] ln by simp_all
  have n1: "tp_rfc (nuevas ! 1) = ''GGG010101GG1''" "\<not> tp_activo (nuevas ! 1)"
    using arg_cong [OF d4, of "\<lambda>xs. xs ! 1"] arg_cong [OF d3, of "\<lambda>xs. xs ! 1"] ln by simp_all
  have n2: "tp_rfc (nuevas ! 2) = ''HHH010101HH1''" "\<not> tp_activo (nuevas ! 2)"
    using arg_cong [OF d4, of "\<lambda>xs. xs ! 2"] arg_cong [OF d3, of "\<lambda>xs. xs ! 2"] ln by simp_all
  have v0: "rfcs_validos lote_cuota ! 0 = tp_rfc (nuevas ! 0)" unfolding k0 n0(1) by simp
  have v2: "rfcs_validos lote_cuota ! 2 = tp_rfc (nuevas ! 1)" unfolding k0 n1(1) by simp
  have v3: "rfcs_validos lote_cuota ! 3 = tp_rfc (nuevas ! 2)" unfolding k0 n2(1) by simp
  have i0: "0 < length nuevas" "1 < length nuevas" "2 < length nuevas" using ln by simp_all
  have j0: "0 < length rest" "2 < length rest" "3 < length rest" using lt4 by simp_all
  note p0 = d5 [rule_format, OF i0(1), THEN conjunct2, rule_format, OF j0(1) v0]
  note p2 = d5 [rule_format, OF i0(2), THEN conjunct2, rule_format, OF j0(2) v2]
  note p3 = d5 [rule_format, OF i0(3), THEN conjunct2, rule_format, OF j0(3) v3]
  have r0: "rr_error (rest ! 0) = None" unfolding p0 using n0(2) by simp
  have r2: "rr_error (rest ! 2) = Some inactivo_por_burst" unfolding p2 using n1(2) by simp
  have r3: "rr_error (rest ! 3) = Some inactivo_por_burst" unfolding p3 using n2(2) by simp
  have x2: "\<exists>s' res creadas. agregar_proveedores_batch sesion_cuota 5 lote_cuota (Some 4) = (s', Inr res)
         \<and> tenant_proveedores (pending s') = tenant_proveedores (pending sesion_cuota) @ creadas
         \<and> map tp_rfc creadas = [''FFF010101FF1'', ''GGG010101GG1'', ''HHH010101HH1'']
         \<and> map tp_activo creadas = [True, False, False]
         \<and> rr_error (res ! 0) = None
         \<and> rr_error (res ! 2) = Some inactivo_por_burst
         \<and> rr_error (res ! 3) = Some inactivo_por_burst"
    by (intro exI [of _ t'] exI [of _ rest] exI [of _ nuevas] conjI b d1 d4 d3 r0 r2 r3)
  have q1: "\<not> distinct (rfcs_nuevos sesion_cuota 5 lote_repetido)" by code_simp
  have q2: "length (rfcs_validos lote_repetido) = 3"
    "rfcs_validos lote_repetido ! 0 = ''GGG010101GG1''"
    "rfcs_validos lote_repetido ! 0 \<in> set (rfcs_nuevos sesion_cuota 5 lote_repetido)"
    by code_simp+
  obtain u resu where e: "agregar_proveedores_batch sesion_cuota 5 lote_repetido (Some 4) = (u, Inr resu)"
    and e1: "length resu = length (rfcs_validos lote_repetido)"
    and e2: "\<not> distinct (rfcs_nuevos sesion_cuota 5 lote_repetido) \<longrightarrow>
          u = rollback sesion_cuota
          \<and> (\<forall>j < length resu. rfcs_validos lote_repetido ! j \<in> set (rfcs_nuevos sesion_cuota 5 lote_repetido) \<longrightarrow>
                resu ! j = \<lparr>rr_rfc = rfcs_validos lote_repetido ! j, rr_proveedor_id = None,
                           rr_error = Some ''Error creando relacion''\<rparr>)"
    using C1_regla_burst [OF k1, of lote_repetido 4] by blast
  have e3: "u = rollback sesion_cuota" using e2 q1 by blast
  have e4: "length resu = 3" using e1 q2(1) by simp
  have "resu ! 0 = \<lparr>rr_rfc = rfcs_validos lote_repetido ! 0, rr_proveedor_id = None,
                           rr_error = Some ''Error creando relacion''\<rparr>"
    using e2 q1 q2(3) e4 by simp
  then have e5: "resu ! 0 = \<lparr>rr_rfc = ''GGG010101GG1'', rr_proveedor_id = None,
                        rr_error = Some ''Error creando relacion''\<rparr>"
    unfolding q2(2) .
  have x3: "\<exists>res. agregar_proveedores_batch sesion_cuota 5 lote_repetido (Some 4) = (rollback sesion_cuota, Inr res)
         \<and> length res = 3
         \<and> res ! 0 = \<lparr>rr_rfc = ''GGG010101GG1'', rr_proveedor_id = None,
                        rr_error = Some ''Error creando relacion''\<rparr>"
    using e e3 e4 e5 by (intro exI [of _ resu]) simp
  show ?thesis by (intro conjI h1 h2 h3 h4 x1 k1 k0 k2 k3 x2 q1 x3)
qed

end
